theory Spec2Isabelle
  imports Main
begin

section \<open>The API server's request dispatcher (pkg/apiserver/apiserver.go)\<close>

subsection \<open>Data\<close>

text \<open>
  A Go \<open>time.Duration\<close> counts nanoseconds in a 64-bit integer. The dispatcher never
  computes with durations: it only passes them on, and the two constants it builds
  (25 milliseconds, 30 seconds) are far inside the 64-bit range, so an \<open>int\<close> of
  nanoseconds is exact here.
\<close>

type_synonym duration = int

definition Millisecond :: duration where
  "Millisecond = 1000000"

definition Second :: duration where
  "Second = 1000000000"

text \<open>A Go \<open>error\<close> value, a label selector and a receive-only channel are opaque.\<close>

datatype error = Err string

datatype selector = Selector string

datatype chan = Chan nat

text \<open>
  \<open>api.Status\<close>: the dispatcher reads the field \<open>Code\<close> only; the other fields
  travel as one payload.
\<close>

record Status =
  Code :: int
  Details :: string

text \<open>
  A value of type \<open>interface{}\<close>. The type switch of \<open>finishReq\<close> tells three
  dynamic types apart: \<open>api.Status\<close>, \<open>*api.Status\<close>, and everything else. A
  \<open>*api.Status\<close> points to a status or is nil (\<open>StatusNil\<close>); reading a field
  through the nil pointer panics.
\<close>

datatype obj = StatusVal Status | StatusPtr Status | StatusNil | Object string

text \<open>The handle \<open>*Operation\<close>, known to a caller by its identifier.\<close>

datatype Operation = Operation (ID: string)

text \<open>
  The part of \<open>*http.Request\<close> that the dispatcher reads: the method, \<open>URL.Path\<close>
  (the server prefix already stripped), the decoded query parameters in the order of the
  query string, the request URI, and what reading the body to its end gives.
\<close>

record Request =
  Method :: string
  Path :: string
  Query :: "(string \<times> string) list"
  RequestURI :: string
  Body :: "error + string"

text \<open>\<open>url.Values.Get\<close>: the first value stored under the key, the empty string if none.\<close>

definition Query_Get :: "(string \<times> string) list \<Rightarrow> string \<Rightarrow> string" where
  "Query_Get q key = (case map_of q key of None \<Rightarrow> [] | Some v \<Rightarrow> v)"

subsection \<open>Collaborators\<close>

text \<open>
  A call of a method of an interface value (a storage backend, the codec, the operation
  registry) runs code outside the dispatcher: it may change state the dispatcher cannot
  see, and it returns or panics. Such a method is a function on an opaque world \<open>'w\<close>.
\<close>

datatype 'a res = Ret 'a | Panic string

record 'w RESTStorage =
  New :: "'w \<Rightarrow> obj res \<times> 'w"
  List :: "selector \<Rightarrow> 'w \<Rightarrow> (error + obj) res \<times> 'w"
  Get :: "string \<Rightarrow> 'w \<Rightarrow> (error + obj) res \<times> 'w"
  Delete :: "string \<Rightarrow> 'w \<Rightarrow> (error + chan) res \<times> 'w"
  Create :: "obj \<Rightarrow> 'w \<Rightarrow> (error + chan) res \<times> 'w"
  Update :: "obj \<Rightarrow> 'w \<Rightarrow> (error + chan) res \<times> 'w"

text \<open>
  \<open>DecodeInto\<close> fills the object it is given; the model returns the filled object.
\<close>

record 'w Codec =
  Encode :: "obj \<Rightarrow> 'w \<Rightarrow> (error + string) res \<times> 'w"
  DecodeInto :: "string \<Rightarrow> obj \<Rightarrow> 'w \<Rightarrow> (error + obj) res \<times> 'w"

text \<open>
  The operation registry and its operations (\<open>NewOperation\<close>, \<open>WaitFor\<close>,
  \<open>StatusOrResult\<close>) are not among the sources: they are parameters.
\<close>

record 'w Operations =
  NewOperation :: "chan \<Rightarrow> 'w \<Rightarrow> Operation res \<times> 'w"
  WaitFor :: "Operation \<Rightarrow> duration \<Rightarrow> 'w \<Rightarrow> unit res \<times> 'w"
  StatusOrResult :: "Operation \<Rightarrow> 'w \<Rightarrow> (obj \<times> bool) res \<times> 'w"

text \<open>
  Package-level functions of other packages that the dispatcher calls:
  \<open>labels.ParseSelector\<close>, \<open>time.ParseDuration\<close> and \<open>errToAPIStatus\<close>
  (which returns a \<open>*api.Status\<close>). They are parameters too.
\<close>

record Imports =
  ParseSelector :: "string \<Rightarrow> error + selector"
  ParseDuration :: "string \<Rightarrow> error + duration"
  errToAPIStatus :: "error \<Rightarrow> Status"

subsection \<open>The state of one request\<close>

text \<open>Every call of a collaborator is recorded, in order, with its arguments.\<close>

datatype event =
    CallNew
  | CallList selector
  | CallGet string
  | CallDelete string
  | CallCreate obj
  | CallUpdate obj
  | CallEncode obj
  | CallDecodeInto string obj
  | CallNewOperation chan
  | CallWaitFor Operation duration
  | CallStatusOrResult Operation

text \<open>The calls made on the \<open>http.ResponseWriter\<close>.\<close>

datatype wcall = HeaderSet string string | WriteHeader int | Write string

text \<open>Log lines, by format string, with the values formatted into them.\<close>

datatype logline =
    NoStorageObject string
  | ProgrammerError
  | FailedToParse error string
  | APIServerPanic string string string
  | RequestLogged

record 'w rstate =
  world :: 'w
  calls :: "event list"
  writer :: "wcall list"
  httplog :: "logline list"
  glog :: "logline list"

text \<open>
  How a handler ends: it returns, or it panics with a value, or the model's recursion
  bound is used up (see \<open>writeJSON\<close>).
\<close>

datatype outcome = Returned | Panicked string | OutOfFuel

type_synonym 'w handler = "'w rstate \<Rightarrow> outcome \<times> 'w rstate"

text \<open>
  One call of a collaborator's method: the call is recorded, the world moves on, and the
  rest of the handler runs on the value returned, unless the method panicked.
\<close>

definition call :: "event \<Rightarrow> ('w \<Rightarrow> 'a res \<times> 'w) \<Rightarrow> ('a \<Rightarrow> 'w handler) \<Rightarrow> 'w handler" where
  "call ev f k st =
     (case f (world st) of
        (Panic x, wd) \<Rightarrow> (Panicked x, st\<lparr>world := wd, calls := calls st @ [ev]\<rparr>)
      | (Ret v, wd) \<Rightarrow> k v (st\<lparr>world := wd, calls := calls st @ [ev]\<rparr>))"

record 'w APIServer =
  storage :: "string \<rightharpoonup> 'w RESTStorage"
  codec :: "'w Codec"
  ops :: "'w Operations"
  asyncOpWait :: duration
  handler :: "Request \<Rightarrow> 'w handler"

subsection \<open>Paths\<close>

text \<open>\<open>strings.Trim(path, "/")\<close> and \<open>strings.Split(path, "/")\<close>, for one separator byte.\<close>

definition Trim :: "string \<Rightarrow> char \<Rightarrow> string" where
  "Trim s c = rev (dropWhile (\<lambda>x. x = c) (rev (dropWhile (\<lambda>x. x = c) s)))"

fun Split :: "string \<Rightarrow> char \<Rightarrow> string list" where
  "Split [] c = [[]]"
| "Split (x # xs) c =
     (if x = c then [] # Split xs c
      else (case Split xs c of [] \<Rightarrow> [[x]] | p # ps \<Rightarrow> (x # p) # ps))"

definition splitPath :: "string \<Rightarrow> string list" where
  "splitPath path =
     (let path = Trim path (CHR ''/'')
      in if path = [] then [] else Split path (CHR ''/''))"

subsection \<open>Rendering\<close>

text \<open>
  \<open>writeJSON\<close> and \<open>errorJSON\<close> call each other: when the codec cannot encode the
  object, the error is turned into a status object and that one is rendered, and so on
  for as long as encoding fails. Nothing in the code bounds this, so the model carries a
  bound \<open>fuel\<close> on the number of nested \<open>writeJSON\<close> calls and ends with
  \<open>OutOfFuel\<close>, in the state reached, when it is used up.
\<close>

fun writeJSON :: "nat \<Rightarrow> Imports \<Rightarrow> int \<Rightarrow> 'w Codec \<Rightarrow> obj \<Rightarrow> 'w handler"
  and errorJSON :: "nat \<Rightarrow> Imports \<Rightarrow> error \<Rightarrow> 'w Codec \<Rightarrow> 'w handler" where
  "writeJSON 0 I statusCode cdc object st = (OutOfFuel, st)"
| "writeJSON (Suc fuel) I statusCode cdc object st =
     call (CallEncode object) (Encode cdc object)
       (\<lambda>r. case r of
          Inl err \<Rightarrow> errorJSON fuel I err cdc
        | Inr output \<Rightarrow>
            (\<lambda>st. (Returned,
               st\<lparr>writer := writer st @
                    [HeaderSet ''Content-Type'' ''application/json'',
                     WriteHeader statusCode, Write output]\<rparr>))) st"
| "errorJSON fuel I err cdc st =
     (let status = errToAPIStatus I err
      in writeJSON fuel I (Code status) cdc (StatusPtr status) st)"

text \<open>\<open>parseTimeout\<close>; the log line goes to \<open>glog\<close>.\<close>

definition parseTimeout :: "Imports \<Rightarrow> string \<Rightarrow> 'w rstate \<Rightarrow> duration \<times> 'w rstate" where
  "parseTimeout I str st =
     (if str \<noteq> [] then
        (case ParseDuration I str of
           Inr timeout \<Rightarrow> (timeout, st)
         | Inl err \<Rightarrow> (30 * Second, st\<lparr>glog := glog st @ [FailedToParse err str]\<rparr>))
      else (30 * Second, st))"

text \<open>
  \<open>readBody\<close>: the body is read to its end and closed; the outcome of the read is the
  request's \<open>Body\<close>.
\<close>

definition readBody :: "Request \<Rightarrow> error + string" where
  "readBody req = Body req"

definition notFound :: "Request \<Rightarrow> 'w handler" where
  \<comment> \<open>Modelled from the spec: the helper \<open>notFound\<close> is not among the sources. The spec
      says that it answers Not Found and that the response carries no diagnostic detail:
      the status 404 is written, and nothing else.\<close>
  "notFound req st = (Returned, st\<lparr>writer := writer st @ [WriteHeader 404]\<rparr>)"

subsection \<open>Operations\<close>

text \<open>
  \<open>createOperation\<close> registers the channel as an operation and waits on it; the handler
  goes on with the operation.
\<close>

definition createOperation ::
  "'w APIServer \<Rightarrow> chan \<Rightarrow> bool \<Rightarrow> duration \<Rightarrow> (Operation \<Rightarrow> 'w handler) \<Rightarrow> 'w handler" where
  "createOperation s out sync timeout k =
     call (CallNewOperation out) (NewOperation (ops s) out)
       (\<lambda>op.
          if sync then
            call (CallWaitFor op timeout) (WaitFor (ops s) op timeout) (\<lambda>_. k op)
          else if asyncOpWait s \<noteq> 0 then
            call (CallWaitFor op (asyncOpWait s)) (WaitFor (ops s) op (asyncOpWait s)) (\<lambda>_. k op)
          else k op)"

definition finishReq :: "nat \<Rightarrow> Imports \<Rightarrow> 'w APIServer \<Rightarrow> Operation \<Rightarrow> 'w handler" where
  "finishReq fuel I s op =
     call (CallStatusOrResult op) (StatusOrResult (ops s) op)
       (\<lambda>(object, complete).
          if complete then
            (case object of
               StatusVal stat \<Rightarrow>
                 (\<lambda>st. writeJSON fuel I (if Code stat \<noteq> 0 then Code stat else 200)
                          (codec s) object
                          (st\<lparr>httplog := httplog st @ [ProgrammerError]\<rparr>))
             | StatusPtr stat \<Rightarrow>
                 writeJSON fuel I (if Code stat \<noteq> 0 then Code stat else 200) (codec s) object
             | StatusNil \<Rightarrow>
                 (\<lambda>st. (Panicked ''invalid memory address or nil pointer dereference'', st))
             | Object _ \<Rightarrow> writeJSON fuel I 200 (codec s) object)
          else writeJSON fuel I 202 (codec s) object)"

subsection \<open>The dispatcher\<close>

definition handleRESTStorage ::
  "nat \<Rightarrow> Imports \<Rightarrow> 'w APIServer \<Rightarrow> string list \<Rightarrow> Request \<Rightarrow> 'w RESTStorage \<Rightarrow> 'w handler" where
  "handleRESTStorage fuel I s parts req stor st0 =
     (let sync = (Query_Get (Query req) ''sync'' = ''true'');
          (timeout, st) = parseTimeout I (Query_Get (Query req) ''timeout'') st0
      in
      if Method req = ''GET'' then
        (if length parts = 1 then
           (case ParseSelector I (Query_Get (Query req) ''labels'') of
              Inl err \<Rightarrow> errorJSON fuel I err (codec s) st
            | Inr sel \<Rightarrow>
                call (CallList sel) (List stor sel)
                  (\<lambda>r. case r of
                     Inl err \<Rightarrow> errorJSON fuel I err (codec s)
                   | Inr list \<Rightarrow> writeJSON fuel I 200 (codec s) list) st)
         else if length parts = 2 then
           call (CallGet (parts ! 1)) (Get stor (parts ! 1))
             (\<lambda>r. case r of
                Inl err \<Rightarrow> errorJSON fuel I err (codec s)
              | Inr item \<Rightarrow> writeJSON fuel I 200 (codec s) item) st
         else notFound req st)
      else if Method req = ''POST'' then
        (if length parts \<noteq> 1 then notFound req st
         else
           (case readBody req of
              Inl err \<Rightarrow> errorJSON fuel I err (codec s) st
            | Inr body \<Rightarrow>
                call CallNew (New stor)
                  (\<lambda>object.
                     call (CallDecodeInto body object) (DecodeInto (codec s) body object)
                       (\<lambda>r. case r of
                          Inl err \<Rightarrow> errorJSON fuel I err (codec s)
                        | Inr object \<Rightarrow>
                            call (CallCreate object) (Create stor object)
                              (\<lambda>r. case r of
                                 Inl err \<Rightarrow> errorJSON fuel I err (codec s)
                               | Inr out \<Rightarrow>
                                   createOperation s out sync timeout (finishReq fuel I s))))
                  st))
      else if Method req = ''DELETE'' then
        (if length parts \<noteq> 2 then notFound req st
         else
           call (CallDelete (parts ! 1)) (Delete stor (parts ! 1))
             (\<lambda>r. case r of
                Inl err \<Rightarrow> errorJSON fuel I err (codec s)
              | Inr out \<Rightarrow> createOperation s out sync timeout (finishReq fuel I s)) st)
      else if Method req = ''PUT'' then
        (if length parts \<noteq> 2 then notFound req st
         else
           (case readBody req of
              Inl err \<Rightarrow> errorJSON fuel I err (codec s) st
            | Inr body \<Rightarrow>
                call CallNew (New stor)
                  (\<lambda>object.
                     call (CallDecodeInto body object) (DecodeInto (codec s) body object)
                       (\<lambda>r. case r of
                          Inl err \<Rightarrow> errorJSON fuel I err (codec s)
                        | Inr object \<Rightarrow>
                            call (CallUpdate object) (Update stor object)
                              (\<lambda>r. case r of
                                 Inl err \<Rightarrow> errorJSON fuel I err (codec s)
                               | Inr out \<Rightarrow>
                                   createOperation s out sync timeout (finishReq fuel I s))))
                  st))
      else notFound req st)"

definition handleREST :: "nat \<Rightarrow> Imports \<Rightarrow> 'w APIServer \<Rightarrow> Request \<Rightarrow> 'w handler" where
  "handleREST fuel I s req st =
     (let parts = splitPath (Path req)
      in if length parts < 1 then notFound req st
         else
           (case storage s (parts ! 0) of
              None \<Rightarrow>
                notFound req (st\<lparr>httplog := httplog st @ [NoStorageObject (parts ! 0)]\<rparr>)
            | Some stor \<Rightarrow> handleRESTStorage fuel I s parts req stor st))"

subsection \<open>The server\<close>

text \<open>
  The package's function \<open>New\<close>, named \<open>apiserver_New\<close> here, apart from the
  method \<open>New\<close> of a storage backend. Two things it builds are not among the sources
  and are parameters: the operation registry that \<open>NewOperations\<close> makes, and the
  \<open>http.ServeMux\<close> with the other handlers, taken as a function that, given the
  handler registered for the REST prefix, is the handler of all requests. The REST
  handler is \<open>handleREST\<close> of the server under construction; it never reads the
  field \<open>handler\<close>, which is set last.
\<close>

definition apiserver_New ::
  "nat \<Rightarrow> Imports \<Rightarrow> (string \<rightharpoonup> 'w RESTStorage) \<Rightarrow> 'w Codec \<Rightarrow> 'w Operations \<Rightarrow>
   ((Request \<Rightarrow> 'w handler) \<Rightarrow> Request \<Rightarrow> 'w handler) \<Rightarrow> 'w APIServer" where
  "apiserver_New fuel I stor cdc NewOperations mux =
     (let s = \<lparr>storage = stor, codec = cdc, ops = NewOperations,
               asyncOpWait = Millisecond * 25, handler = (\<lambda>req. notFound req)\<rparr>
      in s\<lparr>handler := mux (handleREST fuel I s)\<rparr>)"


subsection \<open>What the client receives\<close>

text \<open>
  The contract of \<open>http.ResponseWriter\<close>: the first \<open>WriteHeader\<close> fixes the status
  code, later ones change nothing, and a \<open>Write\<close> before any \<open>WriteHeader\<close> fixes it
  at 200. The body is what was written, in order.
\<close>

fun clientStatus :: "wcall list \<Rightarrow> int option" where
  "clientStatus [] = None"
| "clientStatus (WriteHeader c # ws) = Some c"
| "clientStatus (Write b # ws) = Some 200"
| "clientStatus (HeaderSet k v # ws) = clientStatus ws"

fun clientBody :: "wcall list \<Rightarrow> string" where
  "clientBody [] = []"
| "clientBody (Write b # ws) = b @ clientBody ws"
| "clientBody (WriteHeader c # ws) = clientBody ws"
| "clientBody (HeaderSet k v # ws) = clientBody ws"

text \<open>
  Among the recorded calls: those of the five routed methods of a backend, and those of
  any method of a backend (\<open>New\<close> is the sixth).
\<close>

fun routed :: "event \<Rightarrow> bool" where
  "routed (CallList sel) = True"
| "routed (CallGet name) = True"
| "routed (CallCreate object) = True"
| "routed (CallUpdate object) = True"
| "routed (CallDelete name) = True"
| "routed ev = False"

fun backend :: "event \<Rightarrow> bool" where
  "backend CallNew = True"
| "backend ev = routed ev"

subsection \<open>Properties of handlers\<close>

text \<open>\<open>only P h\<close>: every call of a collaborator that the handler \<open>h\<close> makes satisfies \<open>P\<close>.\<close>

definition only :: "(event \<Rightarrow> bool) \<Rightarrow> 'w handler \<Rightarrow> bool" where
  "only P h \<longleftrightarrow> (\<forall>st. \<exists>es. calls (snd (h st)) = calls st @ es \<and> list_all P es)"


text \<open>
  The calls that rendering makes (the codec's \<open>Encode\<close>), those that finishing a
  request makes (asking the operation, then rendering), and those that a mutating request
  makes once the backend has answered (the registry, the wait, then finishing).
\<close>

fun isEncode :: "event \<Rightarrow> bool" where
  "isEncode (CallEncode object) = True"
| "isEncode ev = False"

fun isRender :: "event \<Rightarrow> bool" where
  "isRender (CallStatusOrResult op) = True"
| "isRender ev = isEncode ev"

fun isOperation :: "event \<Rightarrow> bool" where
  "isOperation (CallNewOperation out) = True"
| "isOperation (CallWaitFor op d) = True"
| "isOperation ev = isRender ev"

text \<open>The calls of the operation registry and of its operations.\<close>

fun isRegistry :: "event \<Rightarrow> bool" where
  "isRegistry (CallNewOperation out) = True"
| "isRegistry (CallWaitFor op d) = True"
| "isRegistry (CallStatusOrResult op) = True"
| "isRegistry ev = False"

text \<open>The waits on an operation, among all recorded calls.\<close>

fun isWait :: "event \<Rightarrow> bool" where
  "isWait (CallWaitFor op d) = True"
| "isWait ev = False"

text \<open>
  \<open>strings.Join\<close>, for one separator byte: what \<open>Split\<close> takes apart, \<open>Join\<close>
  puts together again. The dispatcher does not call it; it states what splitting means.
\<close>

fun Join :: "string list \<Rightarrow> char \<Rightarrow> string" where
  "Join [] c = []"
| "Join [p] c = p"
| "Join (p # q # ps) c = p @ c # Join (q # ps) c"


subsection \<open>An example server\<close>

text \<open>
  One collection, \<open>pods\<close>. The world is the time, in nanoseconds, waited since the last
  operation was made; an operation is complete 10 milliseconds after it was made.
\<close>

definition exImports :: Imports where
  "exImports =
     \<lparr>ParseSelector = (\<lambda>str. if str = ''=='' then Inl (Err ''invalid selector'')
                               else Inr (Selector str)),
      ParseDuration = (\<lambda>str. if str = ''50ms'' then Inr (50 * Millisecond)
                               else if str = ''5ms'' then Inr (5 * Millisecond)
                               else Inl (Err ''invalid duration'')),
      errToAPIStatus = (\<lambda>err. \<lparr>Code = 500, Details = (case err of Err m \<Rightarrow> m)\<rparr>)\<rparr>"

definition exStorage :: "int RESTStorage" where
  "exStorage =
     \<lparr>New = (\<lambda>wd. (Ret (Object []), wd)),
      List = (\<lambda>sel wd. (Ret (Inr (Object ''pods'')), wd)),
      Get = (\<lambda>name wd. (if name = ''nil'' then Panic ''nil pointer dereference''
                           else Ret (Inr (Object name)), wd)),
      Delete = (\<lambda>name wd. (Ret (Inr (Chan 0)), wd)),
      Create = (\<lambda>object wd. (Ret (Inr (Chan 1)), wd)),
      Update = (\<lambda>object wd. (Ret (Inr (Chan 2)), wd))\<rparr>"

definition exCodec :: "int Codec" where
  "exCodec =
     \<lparr>Encode = (\<lambda>object wd.
         (Ret (Inr (case object of Object b \<Rightarrow> b | StatusVal x \<Rightarrow> Details x
                    | StatusPtr x \<Rightarrow> Details x | StatusNil \<Rightarrow> ''null'')), wd)),
      DecodeInto = (\<lambda>b object wd.
         (if b = ''{'' then Ret (Inl (Err ''unexpected end of JSON input''))
          else Ret (Inr (Object b)), wd))\<rparr>"

definition exOps :: "int Operations" where
  "exOps =
     \<lparr>NewOperation = (\<lambda>out wd. (Ret (Operation ''1''), 0)),
      WaitFor = (\<lambda>op d wd. (Ret (), wd + d)),
      StatusOrResult = (\<lambda>op wd.
         (Ret (if 10 * Millisecond \<le> wd then (Object ''done'', True)
               else (StatusVal \<lparr>Code = 0, Details = ID op\<rparr>, False)), wd))\<rparr>"



definition exServer :: "int APIServer" where
  "exServer = apiserver_New 2 exImports [''pods'' \<mapsto> exStorage] exCodec exOps (\<lambda>h. h)"


definition exRequest :: "string \<Rightarrow> string \<Rightarrow> (string \<times> string) list \<Rightarrow> string \<Rightarrow> Request" where
  "exRequest m p q b = \<lparr>Method = m, Path = p, Query = q, RequestURI = p, Body = Inr b\<rparr>"

definition exState :: "int rstate" where
  "exState = \<lparr>world = 0, calls = [], writer = [], httplog = [], glog = []\<rparr>"

section \<open>Lemmas about the model\<close>

subsection \<open>Calls of collaborators\<close>

lemma call_Ret:
  "f (world st) = (Ret v, wd) \<Longrightarrow>
   call ev f k st = k v (st\<lparr>world := wd, calls := calls st @ [ev]\<rparr>)"
  by (simp add: call_def)

lemma call_Panic:
  "f (world st) = (Panic x, wd) \<Longrightarrow>
   call ev f k st = (Panicked x, st\<lparr>world := wd, calls := calls st @ [ev]\<rparr>)"
  by (simp add: call_def)

lemma call_cases:
  obtains (Ret) v wd where "f (world st) = (Ret v, wd)"
  | (Panic) x wd where "f (world st) = (Panic x, wd)"
  by (cases "f (world st)"; cases "fst (f (world st))") auto

lemma writeJSON_Suc:
  "writeJSON (Suc fuel) I c cdc object =
     call (CallEncode object) (Encode cdc object)
       (\<lambda>r. case r of
          Inl err \<Rightarrow> errorJSON fuel I err cdc
        | Inr output \<Rightarrow>
            (\<lambda>st. (Returned,
               st\<lparr>writer := writer st @
                    [HeaderSet ''Content-Type'' ''application/json'',
                     WriteHeader c, Write output]\<rparr>)))"
  by (rule ext) simp

lemma errorJSON_eq:
  "errorJSON fuel I err cdc =
     writeJSON fuel I (Code (errToAPIStatus I err)) cdc (StatusPtr (errToAPIStatus I err))"
  by (rule ext) (simp add: Let_def)

lemma writeJSON_encoded:
  assumes "Encode cdc object (world st) = (Ret (Inr outp), wd)"
  shows "writeJSON (Suc fuel) I c cdc object st =
     (Returned, st\<lparr>world := wd, calls := calls st @ [CallEncode object],
        writer := writer st @
          [HeaderSet ''Content-Type'' ''application/json'', WriteHeader c, Write outp]\<rparr>)"
  using assms by (simp add: call_def)

subsection \<open>Which collaborators a handler calls\<close>

lemma onlyD:
  assumes "only P h"
  obtains es where "calls (snd (h st)) = calls st @ es" and "list_all P es"
  using assms unfolding only_def by blast

lemma only_mono: "only P h \<Longrightarrow> (\<And>e. P e \<Longrightarrow> Q e) \<Longrightarrow> only Q h"
  unfolding only_def list_all_iff by blast

lemma only_call_calls:
  assumes "\<And>v. only P (k v)"
  obtains es where "calls (snd (call ev f k st)) = calls st @ ev # es" and "list_all P es"
proof (cases rule: call_cases [of f st])
  case (Ret v wd)
  from assms [of v] obtain es
    where "calls (snd (k v (st\<lparr>world := wd, calls := calls st @ [ev]\<rparr>))) =
             calls (st\<lparr>world := wd, calls := calls st @ [ev]\<rparr>) @ es"
      and "list_all P es"
    by (rule onlyD)
  with Ret that [of es] show ?thesis by (simp add: call_Ret)
next
  case (Panic x wd)
  with that [of "[]"] show ?thesis by (simp add: call_Panic)
qed

lemma only_call:
  assumes "P ev" and "\<And>v. only P (k v)"
  shows "only P (call ev f k)"
  unfolding only_def
proof
  fix st
  obtain es where "calls (snd (call ev f k st)) = calls st @ ev # es" and "list_all P es"
    using assms(2) by (rule only_call_calls)
  with assms(1) have "calls (snd (call ev f k st)) = calls st @ (ev # es) \<and> list_all P (ev # es)"
    by simp
  then show "\<exists>es. calls (snd (call ev f k st)) = calls st @ es \<and> list_all P es" ..
qed

lemma only_after:
  assumes "only P h" and "\<And>st. calls (g st) = calls st"
  shows "only P (\<lambda>st. h (g st))"
  unfolding only_def
proof
  fix st
  obtain es where "calls (snd (h (g st))) = calls (g st) @ es" and "list_all P es"
    using assms(1) by (rule onlyD)
  with assms(2) show "\<exists>es. calls (snd (h (g st))) = calls st @ es \<and> list_all P es"
    by auto
qed

lemma only_writeJSON: "only isEncode (writeJSON fuel I c cdc object)"
proof (induction fuel arbitrary: c object)
  case 0
  show ?case by (simp add: only_def)
next
  case (Suc fuel)
  show ?case
    unfolding writeJSON_Suc
  proof (rule only_call)
    show "isEncode (CallEncode object)" by simp
  next
    fix v :: "error + string"
    show "only isEncode (case v of
          Inl err \<Rightarrow> errorJSON fuel I err cdc
        | Inr output \<Rightarrow>
            (\<lambda>st. (Returned,
               st\<lparr>writer := writer st @
                    [HeaderSet ''Content-Type'' ''application/json'',
                     WriteHeader c, Write output]\<rparr>)))"
    proof (cases v)
      case (Inl err)
      then show ?thesis using Suc.IH by (simp add: errorJSON_eq)
    next
      case (Inr outp)
      then show ?thesis by (simp add: only_def)
    qed
  qed
qed

lemma only_errorJSON: "only isEncode (errorJSON fuel I err cdc)"
  by (simp add: errorJSON_eq only_writeJSON)

lemma only_render_writeJSON: "only isRender (writeJSON fuel I c cdc object)"
  by (rule only_mono [OF only_writeJSON]) (auto elim: isEncode.elims)

lemma only_finishReq: "only isRender (finishReq fuel I s op)"
  unfolding finishReq_def
proof (rule only_call)
  show "isRender (CallStatusOrResult op)" by simp
next
  fix v :: "obj \<times> bool"
  obtain object complete where v: "v = (object, complete)" by (cases v)
  have nil: "only isRender (\<lambda>st :: 'a rstate.
      (Panicked ''invalid memory address or nil pointer dereference'', st))"
    by (simp add: only_def)
  have "only isRender (\<lambda>st. writeJSON fuel I c (codec s) ob
          (st\<lparr>httplog := httplog st @ [ProgrammerError]\<rparr>))" for c ob
    by (rule only_after [OF only_render_writeJSON]) simp
  then show "only isRender (case v of (object, complete) \<Rightarrow>
          if complete then
            (case object of
               StatusVal stat \<Rightarrow>
                 (\<lambda>st. writeJSON fuel I (if Code stat \<noteq> 0 then Code stat else 200)
                          (codec s) object
                          (st\<lparr>httplog := httplog st @ [ProgrammerError]\<rparr>))
             | StatusPtr stat \<Rightarrow>
                 writeJSON fuel I (if Code stat \<noteq> 0 then Code stat else 200) (codec s) object
             | StatusNil \<Rightarrow>
                 (\<lambda>st. (Panicked ''invalid memory address or nil pointer dereference'', st))
             | Object _ \<Rightarrow> writeJSON fuel I 200 (codec s) object)
          else writeJSON fuel I 202 (codec s) object)"
    using v nil by (simp add: only_render_writeJSON split: obj.split)
qed

lemma only_createOperation:
  assumes "\<And>op. only isOperation (k op)"
  shows "only isOperation (createOperation s out sync timeout k)"
  unfolding createOperation_def
  by (intro only_call) (simp_all add: assms only_call)

lemma only_operation_errorJSON: "only isOperation (errorJSON fuel I err cdc)"
  by (rule only_mono [OF only_errorJSON]) (auto elim: isEncode.elims)

lemma only_operation_finishReq: "only isOperation (finishReq fuel I s op)"
  by (rule only_mono [OF only_finishReq]) (auto elim: isRender.elims)

lemma only_filter:
  assumes "only P h" and "\<And>e. P e \<Longrightarrow> \<not> Q e"
  shows "filter Q (calls (snd (h st))) = filter Q (calls st)"
proof -
  obtain es where "calls (snd (h st)) = calls st @ es" and "list_all P es"
    using assms(1) by (rule onlyD)
  moreover from this assms(2) have "filter Q es = []"
    by (auto simp: list_all_iff filter_empty_conv)
  ultimately show ?thesis by simp
qed

subsection \<open>The routes of the dispatcher\<close>

lemma parseTimeout_fields [simp]:
  "world (snd (parseTimeout I str st)) = world st"
  "calls (snd (parseTimeout I str st)) = calls st"
  "writer (snd (parseTimeout I str st)) = writer st"
  "httplog (snd (parseTimeout I str st)) = httplog st"
  by (simp_all add: parseTimeout_def split: sum.split)

lemma route_list:
  assumes "Method req = ''GET''" and "length parts = 1"
  shows "handleRESTStorage fuel I s parts req stor st =
     (case ParseSelector I (Query_Get (Query req) ''labels'') of
        Inl err \<Rightarrow> errorJSON fuel I err (codec s)
      | Inr sel \<Rightarrow>
          call (CallList sel) (List stor sel)
            (\<lambda>r. case r of
               Inl err \<Rightarrow> errorJSON fuel I err (codec s)
             | Inr list \<Rightarrow> writeJSON fuel I 200 (codec s) list))
       (snd (parseTimeout I (Query_Get (Query req) ''timeout'') st))"
  using assms by (simp add: handleRESTStorage_def Let_def split_def split: sum.split)

lemma route_get:
  assumes "Method req = ''GET''" and "length parts = 2"
  shows "handleRESTStorage fuel I s parts req stor st =
     call (CallGet (parts ! 1)) (Get stor (parts ! 1))
       (\<lambda>r. case r of
          Inl err \<Rightarrow> errorJSON fuel I err (codec s)
        | Inr item \<Rightarrow> writeJSON fuel I 200 (codec s) item)
       (snd (parseTimeout I (Query_Get (Query req) ''timeout'') st))"
  using assms by (simp add: handleRESTStorage_def Let_def split_def)

lemma route_delete:
  assumes "Method req = ''DELETE''" and "length parts = 2"
  shows "handleRESTStorage fuel I s parts req stor st =
     call (CallDelete (parts ! 1)) (Delete stor (parts ! 1))
       (\<lambda>r. case r of
          Inl err \<Rightarrow> errorJSON fuel I err (codec s)
        | Inr out \<Rightarrow>
            createOperation s out (Query_Get (Query req) ''sync'' = ''true'')
              (fst (parseTimeout I (Query_Get (Query req) ''timeout'') st))
              (finishReq fuel I s))
       (snd (parseTimeout I (Query_Get (Query req) ''timeout'') st))"
  using assms by (simp add: handleRESTStorage_def Let_def split_def)

lemma route_create:
  assumes "Method req = ''POST''" and "length parts = 1"
  shows "handleRESTStorage fuel I s parts req stor st =
     (case readBody req of
        Inl err \<Rightarrow> errorJSON fuel I err (codec s)
      | Inr body \<Rightarrow>
          call CallNew (New stor)
            (\<lambda>object.
               call (CallDecodeInto body object) (DecodeInto (codec s) body object)
                 (\<lambda>r. case r of
                    Inl err \<Rightarrow> errorJSON fuel I err (codec s)
                  | Inr object \<Rightarrow>
                      call (CallCreate object) (Create stor object)
                        (\<lambda>r. case r of
                           Inl err \<Rightarrow> errorJSON fuel I err (codec s)
                         | Inr out \<Rightarrow>
                             createOperation s out (Query_Get (Query req) ''sync'' = ''true'')
                               (fst (parseTimeout I (Query_Get (Query req) ''timeout'') st))
                               (finishReq fuel I s)))))
       (snd (parseTimeout I (Query_Get (Query req) ''timeout'') st))"
  using assms by (simp add: handleRESTStorage_def Let_def split_def split: sum.split)

lemma route_update:
  assumes "Method req = ''PUT''" and "length parts = 2"
  shows "handleRESTStorage fuel I s parts req stor st =
     (case readBody req of
        Inl err \<Rightarrow> errorJSON fuel I err (codec s)
      | Inr body \<Rightarrow>
          call CallNew (New stor)
            (\<lambda>object.
               call (CallDecodeInto body object) (DecodeInto (codec s) body object)
                 (\<lambda>r. case r of
                    Inl err \<Rightarrow> errorJSON fuel I err (codec s)
                  | Inr object \<Rightarrow>
                      call (CallUpdate object) (Update stor object)
                        (\<lambda>r. case r of
                           Inl err \<Rightarrow> errorJSON fuel I err (codec s)
                         | Inr out \<Rightarrow>
                             createOperation s out (Query_Get (Query req) ''sync'' = ''true'')
                               (fst (parseTimeout I (Query_Get (Query req) ''timeout'') st))
                               (finishReq fuel I s)))))
       (snd (parseTimeout I (Query_Get (Query req) ''timeout'') st))"
  using assms by (simp add: handleRESTStorage_def Let_def split_def split: sum.split)

lemma route_none:
  assumes "\<not> (Method req = ''GET'' \<and> (length parts = 1 \<or> length parts = 2))"
    and "\<not> (Method req = ''POST'' \<and> length parts = 1)"
    and "\<not> (Method req = ''PUT'' \<and> length parts = 2)"
    and "\<not> (Method req = ''DELETE'' \<and> length parts = 2)"
  shows "handleRESTStorage fuel I s parts req stor st =
     notFound req (snd (parseTimeout I (Query_Get (Query req) ''timeout'') st))"
  using assms by (auto simp add: handleRESTStorage_def Let_def split_def)

text \<open>What follows the call of a routed method calls no backend.\<close>

lemma only_operation_writeJSON: "only isOperation (writeJSON fuel I c cdc object)"
  by (rule only_mono [OF only_writeJSON]) (auto elim: isEncode.elims)

lemma only_rendering:
  "only isOperation (case r of
     Inl err \<Rightarrow> errorJSON fuel I err cdc
   | Inr object \<Rightarrow> writeJSON fuel I c cdc object)"
  by (cases r) (simp_all add: only_operation_errorJSON only_operation_writeJSON)

lemma only_operating:
  "only isOperation (case r of
     Inl err \<Rightarrow> errorJSON fuel I err (codec s)
   | Inr out \<Rightarrow> createOperation s out sync timeout (finishReq fuel I s))"
  by (cases r)
    (simp_all add: only_operation_errorJSON only_createOperation only_operation_finishReq)

lemma isOperation_not_backend: "isOperation e \<Longrightarrow> \<not> backend e"
  by (cases e) simp_all

lemma isOperation_not_routed: "isOperation e \<Longrightarrow> \<not> routed e"
  by (cases e) simp_all

lemma routed_call:
  assumes "\<And>v. only isOperation (k v)"
  shows "filter routed (calls (snd (call ev f k st))) =
         filter routed (calls st) @ filter routed [ev]"
    and "filter backend (calls (snd (call ev f k st))) =
         filter backend (calls st) @ filter backend [ev]"
proof -
  obtain es where es: "calls (snd (call ev f k st)) = calls st @ ev # es"
    and "list_all isOperation es"
    using assms by (rule only_call_calls)
  then have "filter routed es = []" and "filter backend es = []"
    by (auto simp: list_all_iff filter_empty_conv isOperation_not_backend isOperation_not_routed)
  with es show "filter routed (calls (snd (call ev f k st))) =
         filter routed (calls st) @ filter routed [ev]"
    and "filter backend (calls (snd (call ev f k st))) =
         filter backend (calls st) @ filter backend [ev]"
    by simp_all
qed

lemma exServer_fields:
  "storage exServer = [''pods'' \<mapsto> exStorage]"
  "codec exServer = exCodec"
  "ops exServer = exOps"
  "asyncOpWait exServer = 25000000"
  by (simp_all add: exServer_def apiserver_New_def Let_def Millisecond_def)

lemmas ex_defs = exRequest_def exState_def exImports_def exStorage_def exOps_def exCodec_def
  Millisecond_def Second_def exServer_fields

section \<open>The claims\<close>

subsection \<open>Routing\<close>

subsection \<open>The routed method is applied to the world\<close>

lemma list_applied:
  "(Method req = ''GET'' \<and> length parts = 1 \<and>
      ParseSelector I (Query_Get (Query req) ''labels'') = Inr sel \<longrightarrow>
      handleRESTStorage fuel I s parts req stor st =
        call (CallList sel) (List stor sel)
          (\<lambda>r. case r of
             Inl err \<Rightarrow> errorJSON fuel I err (codec s)
           | Inr list \<Rightarrow> writeJSON fuel I 200 (codec s) list)
          (snd (parseTimeout I (Query_Get (Query req) ''timeout'') st)))"
  by (simp add: route_list)

lemma list_answered:
  "(Method req = ''GET'' \<and> length parts = 1 \<and>
      ParseSelector I (Query_Get (Query req) ''labels'') = Inr sel \<and>
      List stor sel (world st) = (Ret (Inr found), wd) \<and>
      Encode (codec s) found wd = (Ret (Inr outp), wd') \<longrightarrow>
      handleRESTStorage (Suc fuel) I s parts req stor st =
        (Returned,
         (snd (parseTimeout I (Query_Get (Query req) ''timeout'') st))
           \<lparr>world := wd', calls := calls st @ [CallList sel, CallEncode found],
            writer := writer st @
              [HeaderSet ''Content-Type'' ''application/json'', WriteHeader 200,
               Write outp]\<rparr>))"
  by (simp add: route_list call_Ret del: writeJSON.simps) (simp add: call_def)

lemma get_applied:
  "(Method req = ''GET'' \<and> length parts = 2 \<longrightarrow>
      handleRESTStorage fuel I s parts req stor st =
        call (CallGet (parts ! 1)) (Get stor (parts ! 1))
          (\<lambda>r. case r of
             Inl err \<Rightarrow> errorJSON fuel I err (codec s)
           | Inr item \<Rightarrow> writeJSON fuel I 200 (codec s) item)
          (snd (parseTimeout I (Query_Get (Query req) ''timeout'') st)))"
  by (simp add: route_get)

lemma get_answered:
  "(Method req = ''GET'' \<and> length parts = 2 \<and>
      Get stor (parts ! 1) (world st) = (Ret (Inr found), wd) \<and>
      Encode (codec s) found wd = (Ret (Inr outp), wd') \<longrightarrow>
      handleRESTStorage (Suc fuel) I s parts req stor st =
        (Returned,
         (snd (parseTimeout I (Query_Get (Query req) ''timeout'') st))
           \<lparr>world := wd', calls := calls st @ [CallGet (parts ! 1), CallEncode found],
            writer := writer st @
              [HeaderSet ''Content-Type'' ''application/json'', WriteHeader 200,
               Write outp]\<rparr>))"
  by (simp add: route_get call_Ret del: writeJSON.simps) (simp add: call_def)

lemma create_applied:
  "(Method req = ''POST'' \<and> length parts = 1 \<and> readBody req = Inr body \<and>
      New stor (world st) = (Ret blank, wd) \<and>
      DecodeInto (codec s) body blank wd = (Ret (Inr decoded), wd') \<longrightarrow>
      handleRESTStorage fuel I s parts req stor st =
        call (CallCreate decoded) (Create stor decoded)
          (\<lambda>r. case r of
             Inl err \<Rightarrow> errorJSON fuel I err (codec s)
           | Inr out \<Rightarrow>
               createOperation s out (Query_Get (Query req) ''sync'' = ''true'')
                 (fst (parseTimeout I (Query_Get (Query req) ''timeout'') st))
                 (finishReq fuel I s))
          ((snd (parseTimeout I (Query_Get (Query req) ''timeout'') st))
             \<lparr>world := wd', calls := calls st @
                 [CallNew, CallDecodeInto body blank]\<rparr>))"
  by (simp add: route_create call_Ret)

lemma update_applied:
  "(Method req = ''PUT'' \<and> length parts = 2 \<and> readBody req = Inr body \<and>
      New stor (world st) = (Ret blank, wd) \<and>
      DecodeInto (codec s) body blank wd = (Ret (Inr decoded), wd') \<longrightarrow>
      handleRESTStorage fuel I s parts req stor st =
        call (CallUpdate decoded) (Update stor decoded)
          (\<lambda>r. case r of
             Inl err \<Rightarrow> errorJSON fuel I err (codec s)
           | Inr out \<Rightarrow>
               createOperation s out (Query_Get (Query req) ''sync'' = ''true'')
                 (fst (parseTimeout I (Query_Get (Query req) ''timeout'') st))
                 (finishReq fuel I s))
          ((snd (parseTimeout I (Query_Get (Query req) ''timeout'') st))
             \<lparr>world := wd', calls := calls st @
                 [CallNew, CallDecodeInto body blank]\<rparr>))"
  by (simp add: route_update call_Ret)

lemma delete_applied:
  "(Method req = ''DELETE'' \<and> length parts = 2 \<longrightarrow>
      handleRESTStorage fuel I s parts req stor st =
        call (CallDelete (parts ! 1)) (Delete stor (parts ! 1))
          (\<lambda>r. case r of
             Inl err \<Rightarrow> errorJSON fuel I err (codec s)
           | Inr out \<Rightarrow>
               createOperation s out (Query_Get (Query req) ''sync'' = ''true'')
                 (fst (parseTimeout I (Query_Get (Query req) ''timeout'') st))
                 (finishReq fuel I s))
          (snd (parseTimeout I (Query_Get (Query req) ''timeout'') st)))"
  by (simp add: route_delete)

lemma reaches_registry:
  "((Method req = ''DELETE'' \<and> length parts = 2 \<and>
       Delete stor (parts ! 1) (world st) = (Ret (Inr out), wd\<^sub>3) \<and>
       pre = [CallDelete (parts ! 1)]
     \<or> Method req = ''POST'' \<and> length parts = 1 \<and> readBody req = Inr body \<and>
       New stor (world st) = (Ret blank, wd\<^sub>1) \<and>
       DecodeInto (codec s) body blank wd\<^sub>1 = (Ret (Inr decoded), wd\<^sub>2) \<and>
       Create stor decoded wd\<^sub>2 = (Ret (Inr out), wd\<^sub>3) \<and>
       pre = [CallNew, CallDecodeInto body blank, CallCreate decoded]
     \<or> Method req = ''PUT'' \<and> length parts = 2 \<and> readBody req = Inr body \<and>
       New stor (world st) = (Ret blank, wd\<^sub>1) \<and>
       DecodeInto (codec s) body blank wd\<^sub>1 = (Ret (Inr decoded), wd\<^sub>2) \<and>
       Update stor decoded wd\<^sub>2 = (Ret (Inr out), wd\<^sub>3) \<and>
       pre = [CallNew, CallDecodeInto body blank, CallUpdate decoded]) \<longrightarrow>
      handleRESTStorage fuel I s parts req stor st =
        createOperation s out (Query_Get (Query req) ''sync'' = ''true'')
          (fst (parseTimeout I (Query_Get (Query req) ''timeout'') st)) (finishReq fuel I s)
          ((snd (parseTimeout I (Query_Get (Query req) ''timeout'') st))
             \<lparr>world := wd\<^sub>3, calls := calls st @ pre\<rparr>))"
  by (intro impI, elim disjE conjE)
    (simp_all add: route_delete route_create route_update call_Ret)

lemma routes_logged:
  "(Method req = ''GET'' \<and> length parts = 1 \<and>
      ParseSelector I (Query_Get (Query req) ''labels'') = Inr sel \<longrightarrow>
      filter backend (calls (snd (handleRESTStorage fuel I s parts req stor st))) =
        filter backend (calls st) @ [CallList sel])
   \<and> (Method req = ''GET'' \<and> length parts = 2 \<longrightarrow>
      filter backend (calls (snd (handleRESTStorage fuel I s parts req stor st))) =
        filter backend (calls st) @ [CallGet (parts ! 1)])
   \<and> (Method req = ''POST'' \<and> length parts = 1 \<and> readBody req = Inr body \<and>
      New stor (world st) = (Ret blank, wd) \<and>
      DecodeInto (codec s) body blank wd = (Ret (Inr decoded), wd') \<longrightarrow>
      filter backend (calls (snd (handleRESTStorage fuel I s parts req stor st))) =
        filter backend (calls st) @ [CallNew, CallCreate decoded])
   \<and> (Method req = ''PUT'' \<and> length parts = 2 \<and> readBody req = Inr body \<and>
      New stor (world st) = (Ret blank, wd) \<and>
      DecodeInto (codec s) body blank wd = (Ret (Inr decoded), wd') \<longrightarrow>
      filter backend (calls (snd (handleRESTStorage fuel I s parts req stor st))) =
        filter backend (calls st) @ [CallNew, CallUpdate decoded])
   \<and> (Method req = ''DELETE'' \<and> length parts = 2 \<longrightarrow>
      filter backend (calls (snd (handleRESTStorage fuel I s parts req stor st))) =
        filter backend (calls st) @ [CallDelete (parts ! 1)])
   \<and> (\<not> (Method req = ''GET'' \<and> (length parts = 1 \<or> length parts = 2)) \<and>
      \<not> (Method req = ''POST'' \<and> length parts = 1) \<and>
      \<not> (Method req = ''PUT'' \<and> length parts = 2) \<and>
      \<not> (Method req = ''DELETE'' \<and> length parts = 2) \<longrightarrow>
      handleRESTStorage fuel I s parts req stor st =
        notFound req (snd (parseTimeout I (Query_Get (Query req) ''timeout'') st)) \<and>
      fst (handleRESTStorage fuel I s parts req stor st) = Returned \<and>
      writer (snd (handleRESTStorage fuel I s parts req stor st)) =
        writer st @ [WriteHeader 404] \<and>
      calls (snd (handleRESTStorage fuel I s parts req stor st)) = calls st)
   \<and> (splitPath (Path req) \<noteq> [] \<and> storage s (splitPath (Path req) ! 0) =
       Some stor \<longrightarrow>
      handleREST fuel I s req st =
        handleRESTStorage fuel I s (splitPath (Path req)) req stor st)"
proof (intro conjI impI)
  assume "Method req = ''GET'' \<and> length parts = 1 \<and>
      ParseSelector I (Query_Get (Query req) ''labels'') = Inr sel"
  then show "filter backend (calls (snd (handleRESTStorage fuel I s parts req stor st))) =
        filter backend (calls st) @ [CallList sel]"
    by (simp add: route_list routed_call only_rendering)
next
  assume "Method req = ''GET'' \<and> length parts = 2"
  then show "filter backend (calls (snd (handleRESTStorage fuel I s parts req stor st))) =
        filter backend (calls st) @ [CallGet (parts ! 1)]"
    by (simp add: route_get routed_call only_rendering)
next
  assume "Method req = ''DELETE'' \<and> length parts = 2"
  then show "filter backend (calls (snd (handleRESTStorage fuel I s parts req stor st))) =
        filter backend (calls st) @ [CallDelete (parts ! 1)]"
    by (simp add: route_delete routed_call only_operating)
next
  assume "Method req = ''POST'' \<and> length parts = 1 \<and> readBody req = Inr body \<and>
      New stor (world st) = (Ret blank, wd) \<and>
      DecodeInto (codec s) body blank wd = (Ret (Inr decoded), wd')"
  then show "filter backend (calls (snd (handleRESTStorage fuel I s parts req stor st))) =
        filter backend (calls st) @ [CallNew, CallCreate decoded]"
    by (simp add: route_create call_Ret routed_call only_operating)
next
  assume "Method req = ''PUT'' \<and> length parts = 2 \<and> readBody req = Inr body \<and>
      New stor (world st) = (Ret blank, wd) \<and>
      DecodeInto (codec s) body blank wd = (Ret (Inr decoded), wd')"
  then show "filter backend (calls (snd (handleRESTStorage fuel I s parts req stor st))) =
        filter backend (calls st) @ [CallNew, CallUpdate decoded]"
    by (simp add: route_update call_Ret routed_call only_operating)
next
  assume none: "\<not> (Method req = ''GET'' \<and> (length parts = 1 \<or> length parts = 2))
      \<and>
      \<not> (Method req = ''POST'' \<and> length parts = 1) \<and>
      \<not> (Method req = ''PUT'' \<and> length parts = 2) \<and>
      \<not> (Method req = ''DELETE'' \<and> length parts = 2)"
  then have eq: "handleRESTStorage fuel I s parts req stor st =
        notFound req (snd (parseTimeout I (Query_Get (Query req) ''timeout'') st))"
    by (intro route_none) simp_all
  then show "handleRESTStorage fuel I s parts req stor st =
        notFound req (snd (parseTimeout I (Query_Get (Query req) ''timeout'') st))" .
  from eq show "fst (handleRESTStorage fuel I s parts req stor st) = Returned"
    by (simp add: notFound_def)
  from eq show "writer (snd (handleRESTStorage fuel I s parts req stor st)) =
        writer st @ [WriteHeader 404]"
    by (simp add: notFound_def)
  from eq show "calls (snd (handleRESTStorage fuel I s parts req stor st)) = calls st"
    by (simp add: notFound_def)
next
  assume "splitPath (Path req) \<noteq> [] \<and> storage s (splitPath (Path req) ! 0) =
      Some stor"
  then show "handleREST fuel I s req st =
        handleRESTStorage fuel I s (splitPath (Path req)) req stor st"
    by (simp add: handleREST_def)
qed

text \<open>
  C1. Routing. A request whose method and number of path segments match a row of the
  routing table makes the dispatcher call exactly the backend method of that row, with
  the parsed arguments: \<open>List\<close> with the parsed selector (GET, one segment),
  \<open>Get\<close> with the second segment (GET, two segments), \<open>Create\<close> with the
  decoded body (POST, one segment), \<open>Update\<close> with the decoded body (PUT, two segments),
  \<open>Delete\<close> with the second segment (DELETE, two segments). For \<open>Create\<close> and
  \<open>Update\<close> the object the body is decoded into comes from the backend's \<open>New\<close>,
  called first. For every other method and number of segments the dispatcher answers
  Not Found, returns, and calls no collaborator at all. The backend is the one registered
  under the first segment, and the segments are those of the request's path.

  On each route the dispatcher is
  the routed method of that backend applied to the world it was given (after \<open>New\<close>
  and \<open>DecodeInto\<close> for \<open>Create\<close> and \<open>Update\<close>), followed by what the code does
  with the answer. What \<open>List\<close> or \<open>Get\<close> returns is the body of the response, with
  status 200, in the world that the method and the codec left; the channel that
  \<open>Create\<close>, \<open>Update\<close> or \<open>Delete\<close> returns goes to the operation registry, in
  the world that the method left.
\<close>

theorem dispatch_routes:
  "((Method req = ''GET'' \<and> length parts = 1 \<and>
      ParseSelector I (Query_Get (Query req) ''labels'') = Inr sel \<longrightarrow>
      filter backend (calls (snd (handleRESTStorage fuel I s parts req stor st))) =
        filter backend (calls st) @ [CallList sel])
   \<and> (Method req = ''GET'' \<and> length parts = 2 \<longrightarrow>
      filter backend (calls (snd (handleRESTStorage fuel I s parts req stor st))) =
        filter backend (calls st) @ [CallGet (parts ! 1)])
   \<and> (Method req = ''POST'' \<and> length parts = 1 \<and> readBody req = Inr body \<and>
      New stor (world st) = (Ret blank, wd) \<and>
      DecodeInto (codec s) body blank wd = (Ret (Inr decoded), wd') \<longrightarrow>
      filter backend (calls (snd (handleRESTStorage fuel I s parts req stor st))) =
        filter backend (calls st) @ [CallNew, CallCreate decoded])
   \<and> (Method req = ''PUT'' \<and> length parts = 2 \<and> readBody req = Inr body \<and>
      New stor (world st) = (Ret blank, wd) \<and>
      DecodeInto (codec s) body blank wd = (Ret (Inr decoded), wd') \<longrightarrow>
      filter backend (calls (snd (handleRESTStorage fuel I s parts req stor st))) =
        filter backend (calls st) @ [CallNew, CallUpdate decoded])
   \<and> (Method req = ''DELETE'' \<and> length parts = 2 \<longrightarrow>
      filter backend (calls (snd (handleRESTStorage fuel I s parts req stor st))) =
        filter backend (calls st) @ [CallDelete (parts ! 1)])
   \<and> (\<not> (Method req = ''GET'' \<and> (length parts = 1 \<or> length parts = 2)) \<and>
      \<not> (Method req = ''POST'' \<and> length parts = 1) \<and>
      \<not> (Method req = ''PUT'' \<and> length parts = 2) \<and>
      \<not> (Method req = ''DELETE'' \<and> length parts = 2) \<longrightarrow>
      handleRESTStorage fuel I s parts req stor st =
        notFound req (snd (parseTimeout I (Query_Get (Query req) ''timeout'') st)) \<and>
      fst (handleRESTStorage fuel I s parts req stor st) = Returned \<and>
      writer (snd (handleRESTStorage fuel I s parts req stor st)) =
        writer st @ [WriteHeader 404] \<and>
      calls (snd (handleRESTStorage fuel I s parts req stor st)) = calls st)
   \<and> (splitPath (Path req) \<noteq> [] \<and> storage s (splitPath (Path req) ! 0) =
       Some stor \<longrightarrow>
      handleREST fuel I s req st =
        handleRESTStorage fuel I s (splitPath (Path req)) req stor st))
   \<and> (Method req = ''GET'' \<and> length parts = 1 \<and>
      ParseSelector I (Query_Get (Query req) ''labels'') = Inr sel \<longrightarrow>
      handleRESTStorage fuel I s parts req stor st =
        call (CallList sel) (List stor sel)
          (\<lambda>r. case r of
             Inl err \<Rightarrow> errorJSON fuel I err (codec s)
           | Inr list \<Rightarrow> writeJSON fuel I 200 (codec s) list)
          (snd (parseTimeout I (Query_Get (Query req) ''timeout'') st)))
   \<and> (Method req = ''GET'' \<and> length parts = 1 \<and>
      ParseSelector I (Query_Get (Query req) ''labels'') = Inr sel \<and>
      List stor sel (world st) = (Ret (Inr found), wd) \<and>
      Encode (codec s) found wd = (Ret (Inr outp), wd') \<longrightarrow>
      handleRESTStorage (Suc fuel) I s parts req stor st =
        (Returned,
         (snd (parseTimeout I (Query_Get (Query req) ''timeout'') st))
           \<lparr>world := wd', calls := calls st @ [CallList sel, CallEncode found],
            writer := writer st @
              [HeaderSet ''Content-Type'' ''application/json'', WriteHeader 200,
               Write outp]\<rparr>))
   \<and> (Method req = ''GET'' \<and> length parts = 2 \<longrightarrow>
      handleRESTStorage fuel I s parts req stor st =
        call (CallGet (parts ! 1)) (Get stor (parts ! 1))
          (\<lambda>r. case r of
             Inl err \<Rightarrow> errorJSON fuel I err (codec s)
           | Inr item \<Rightarrow> writeJSON fuel I 200 (codec s) item)
          (snd (parseTimeout I (Query_Get (Query req) ''timeout'') st)))
   \<and> (Method req = ''GET'' \<and> length parts = 2 \<and>
      Get stor (parts ! 1) (world st) = (Ret (Inr found), wd) \<and>
      Encode (codec s) found wd = (Ret (Inr outp), wd') \<longrightarrow>
      handleRESTStorage (Suc fuel) I s parts req stor st =
        (Returned,
         (snd (parseTimeout I (Query_Get (Query req) ''timeout'') st))
           \<lparr>world := wd', calls := calls st @ [CallGet (parts ! 1), CallEncode found],
            writer := writer st @
              [HeaderSet ''Content-Type'' ''application/json'', WriteHeader 200,
               Write outp]\<rparr>))
   \<and> (Method req = ''POST'' \<and> length parts = 1 \<and> readBody req = Inr body \<and>
      New stor (world st) = (Ret blank, wd) \<and>
      DecodeInto (codec s) body blank wd = (Ret (Inr decoded), wd') \<longrightarrow>
      handleRESTStorage fuel I s parts req stor st =
        call (CallCreate decoded) (Create stor decoded)
          (\<lambda>r. case r of
             Inl err \<Rightarrow> errorJSON fuel I err (codec s)
           | Inr out \<Rightarrow>
               createOperation s out (Query_Get (Query req) ''sync'' = ''true'')
                 (fst (parseTimeout I (Query_Get (Query req) ''timeout'') st))
                 (finishReq fuel I s))
          ((snd (parseTimeout I (Query_Get (Query req) ''timeout'') st))
             \<lparr>world := wd', calls := calls st @
                 [CallNew, CallDecodeInto body blank]\<rparr>))
   \<and> (Method req = ''PUT'' \<and> length parts = 2 \<and> readBody req = Inr body \<and>
      New stor (world st) = (Ret blank, wd) \<and>
      DecodeInto (codec s) body blank wd = (Ret (Inr decoded), wd') \<longrightarrow>
      handleRESTStorage fuel I s parts req stor st =
        call (CallUpdate decoded) (Update stor decoded)
          (\<lambda>r. case r of
             Inl err \<Rightarrow> errorJSON fuel I err (codec s)
           | Inr out \<Rightarrow>
               createOperation s out (Query_Get (Query req) ''sync'' = ''true'')
                 (fst (parseTimeout I (Query_Get (Query req) ''timeout'') st))
                 (finishReq fuel I s))
          ((snd (parseTimeout I (Query_Get (Query req) ''timeout'') st))
             \<lparr>world := wd', calls := calls st @
                 [CallNew, CallDecodeInto body blank]\<rparr>))
   \<and> (Method req = ''DELETE'' \<and> length parts = 2 \<longrightarrow>
      handleRESTStorage fuel I s parts req stor st =
        call (CallDelete (parts ! 1)) (Delete stor (parts ! 1))
          (\<lambda>r. case r of
             Inl err \<Rightarrow> errorJSON fuel I err (codec s)
           | Inr out \<Rightarrow>
               createOperation s out (Query_Get (Query req) ''sync'' = ''true'')
                 (fst (parseTimeout I (Query_Get (Query req) ''timeout'') st))
                 (finishReq fuel I s))
          (snd (parseTimeout I (Query_Get (Query req) ''timeout'') st)))
   \<and> ((Method req = ''DELETE'' \<and> length parts = 2 \<and>
       Delete stor (parts ! 1) (world st) = (Ret (Inr out), wd\<^sub>3) \<and>
       pre = [CallDelete (parts ! 1)]
     \<or> Method req = ''POST'' \<and> length parts = 1 \<and> readBody req = Inr body \<and>
       New stor (world st) = (Ret blank, wd\<^sub>1) \<and>
       DecodeInto (codec s) body blank wd\<^sub>1 = (Ret (Inr decoded), wd\<^sub>2) \<and>
       Create stor decoded wd\<^sub>2 = (Ret (Inr out), wd\<^sub>3) \<and>
       pre = [CallNew, CallDecodeInto body blank, CallCreate decoded]
     \<or> Method req = ''PUT'' \<and> length parts = 2 \<and> readBody req = Inr body \<and>
       New stor (world st) = (Ret blank, wd\<^sub>1) \<and>
       DecodeInto (codec s) body blank wd\<^sub>1 = (Ret (Inr decoded), wd\<^sub>2) \<and>
       Update stor decoded wd\<^sub>2 = (Ret (Inr out), wd\<^sub>3) \<and>
       pre = [CallNew, CallDecodeInto body blank, CallUpdate decoded]) \<longrightarrow>
      handleRESTStorage fuel I s parts req stor st =
        createOperation s out (Query_Get (Query req) ''sync'' = ''true'')
          (fst (parseTimeout I (Query_Get (Query req) ''timeout'') st)) (finishReq fuel I s)
          ((snd (parseTimeout I (Query_Get (Query req) ''timeout'') st))
             \<lparr>world := wd\<^sub>3, calls := calls st @ pre\<rparr>))"
proof -
  note logged = routes_logged [where req = req and parts = parts and I = I and sel = sel
      and fuel = fuel and s = s and stor = stor and st = st and body = body
      and blank = blank and wd = wd and decoded = decoded and wd' = wd']
  note applied = list_applied [where req = req and parts = parts and I = I and sel = sel
      and fuel = fuel and s = s and stor = stor and st = st]
    list_answered [where req = req and parts = parts and I = I and sel = sel
      and fuel = fuel and s = s and stor = stor and st = st and found = found and wd = wd
      and outp = outp and wd' = wd']
    get_applied [where req = req and parts = parts and I = I
      and fuel = fuel and s = s and stor = stor and st = st]
    get_answered [where req = req and parts = parts and I = I
      and fuel = fuel and s = s and stor = stor and st = st and found = found and wd = wd
      and outp = outp and wd' = wd']
    create_applied [where req = req and parts = parts and I = I and fuel = fuel and s = s
      and stor = stor and st = st and body = body and blank = blank and wd = wd
      and decoded = decoded and wd' = wd']
    update_applied [where req = req and parts = parts and I = I and fuel = fuel and s = s
      and stor = stor and st = st and body = body and blank = blank and wd = wd
      and decoded = decoded and wd' = wd']
    delete_applied [where req = req and parts = parts and I = I
      and fuel = fuel and s = s and stor = stor and st = st]
    reaches_registry [where req = req and parts = parts and I = I and fuel = fuel and s = s
      and stor = stor and st = st and body = body and blank = blank and decoded = decoded
      and out = out and pre = pre and wd\<^sub>1 = wd\<^sub>1 and wd\<^sub>2 = wd\<^sub>2 and
          wd\<^sub>3 = wd\<^sub>3]
  show ?thesis
    by (rule conjI [OF logged]) (intro conjI; rule applied)
qed

theorem dispatch_routes_witness:
  "((Method (exRequest ''GET'' ''/pods'' [(''labels'', ''a=b'')] []) = ''GET'' \<and>
    length [''pods''] = 1 \<and>
    ParseSelector exImports
      (Query_Get (Query (exRequest ''GET'' ''/pods'' [(''labels'', ''a=b'')] [])) ''labels'') =
      Inr (Selector ''a=b'') \<and>
    filter backend (calls (snd (handleRESTStorage 2 exImports exServer [''pods'']
      (exRequest ''GET'' ''/pods'' [(''labels'', ''a=b'')] []) exStorage exState))) =
      [CallList (Selector ''a=b'')])
   \<and> (Method (exRequest ''GET'' ''/pods/a'' [] []) = ''GET'' \<and>
       length [''pods'', ''a''] = 2 \<and>
    filter backend (calls (snd (handleRESTStorage 2 exImports exServer [''pods'', ''a'']
      (exRequest ''GET'' ''/pods/a'' [] []) exStorage exState))) = [CallGet ''a''])
   \<and> (Method (exRequest ''POST'' ''/pods'' [] ''{}'') = ''POST'' \<and> length [''pods''] =
       1 \<and>
    readBody (exRequest ''POST'' ''/pods'' [] ''{}'') = Inr ''{}'' \<and>
    New exStorage (world exState) = (Ret (Object []), 0) \<and>
    DecodeInto (codec exServer) ''{}'' (Object []) 0 = (Ret (Inr (Object ''{}'')), 0) \<and>
    filter backend (calls (snd (handleRESTStorage 2 exImports exServer [''pods'']
      (exRequest ''POST'' ''/pods'' [] ''{}'') exStorage exState))) =
      [CallNew, CallCreate (Object ''{}'')])
   \<and> (Method (exRequest ''PUT'' ''/pods/a'' [] ''{}'') = ''PUT'' \<and>
    readBody (exRequest ''PUT'' ''/pods/a'' [] ''{}'') = Inr ''{}'' \<and>
    filter backend (calls (snd (handleRESTStorage 2 exImports exServer [''pods'', ''a'']
      (exRequest ''PUT'' ''/pods/a'' [] ''{}'') exStorage exState))) =
      [CallNew, CallUpdate (Object ''{}'')])
   \<and> (Method (exRequest ''DELETE'' ''/pods/a'' [] []) = ''DELETE'' \<and>
    filter backend (calls (snd (handleRESTStorage 2 exImports exServer [''pods'', ''a'']
      (exRequest ''DELETE'' ''/pods/a'' [] []) exStorage exState))) = [CallDelete ''a''])
   \<and> (Method (exRequest ''PATCH'' ''/pods/a'' [] []) = ''PATCH'' \<and>
    writer (snd (handleRESTStorage 2 exImports exServer [''pods'', ''a'']
      (exRequest ''PATCH'' ''/pods/a'' [] []) exStorage exState)) = [WriteHeader 404] \<and>
    calls (snd (handleRESTStorage 2 exImports exServer [''pods'', ''a'']
      (exRequest ''PATCH'' ''/pods/a'' [] []) exStorage exState)) = [])
   \<and> (splitPath (Path (exRequest ''GET'' ''/pods/a'' [] [])) = [''pods'', ''a''] \<and>
    storage exServer ''pods'' = Some exStorage \<and>
    handleREST 2 exImports exServer (exRequest ''GET'' ''/pods/a'' [] []) exState =
      handleRESTStorage 2 exImports exServer [''pods'', ''a'']
        (exRequest ''GET'' ''/pods/a'' [] []) exStorage exState))
   \<and> handleRESTStorage 2 exImports exServer [''pods'']
      (exRequest ''GET'' ''/pods'' [(''labels'', ''a=b'')] []) exStorage exState =
      (Returned,
       exState\<lparr>world := 0,
          calls := [CallList (Selector ''a=b''), CallEncode (Object ''pods'')],
          writer := [HeaderSet ''Content-Type'' ''application/json'', WriteHeader 200,
                     Write ''pods'']\<rparr>)
   \<and> handleRESTStorage (Suc 0) exImports exServer [''pods'']
      (exRequest ''GET'' ''/pods'' [(''labels'', ''a=b'')] []) exStorage exState =
      (Returned,
       exState\<lparr>world := 0,
          calls := [CallList (Selector ''a=b''), CallEncode (Object ''pods'')],
          writer := [HeaderSet ''Content-Type'' ''application/json'', WriteHeader 200,
                     Write ''pods'']\<rparr>)
   \<and> handleRESTStorage 2 exImports exServer [''pods'', ''a'']
      (exRequest ''GET'' ''/pods/a'' [] []) exStorage exState =
      (Returned,
       exState\<lparr>world := 0,
          calls := [CallGet ''a'', CallEncode (Object ''a'')],
          writer := [HeaderSet ''Content-Type'' ''application/json'', WriteHeader 200,
                     Write ''a'']\<rparr>)
   \<and> handleRESTStorage (Suc 0) exImports exServer [''pods'', ''a'']
      (exRequest ''GET'' ''/pods/a'' [] []) exStorage exState =
      (Returned,
       exState\<lparr>world := 0,
          calls := [CallGet ''a'', CallEncode (Object ''a'')],
          writer := [HeaderSet ''Content-Type'' ''application/json'', WriteHeader 200,
                     Write ''a'']\<rparr>)
   \<and> handleRESTStorage 2 exImports exServer [''pods'']
      (exRequest ''POST'' ''/pods'' [] ''{}'') exStorage exState =
      (Returned,
       exState\<lparr>world := 25000000,
          calls := [CallNew, CallDecodeInto ''{}'' (Object []), CallCreate (Object ''{}''),
                    CallNewOperation (Chan 1), CallWaitFor (Operation ''1'') 25000000,
                    CallStatusOrResult (Operation ''1''), CallEncode (Object ''done'')],
          writer := [HeaderSet ''Content-Type'' ''application/json'', WriteHeader 200,
                     Write ''done'']\<rparr>)
   \<and> handleRESTStorage 2 exImports exServer [''pods'', ''a'']
      (exRequest ''PUT'' ''/pods/a'' [] ''{}'') exStorage exState =
      (Returned,
       exState\<lparr>world := 25000000,
          calls := [CallNew, CallDecodeInto ''{}'' (Object []), CallUpdate (Object ''{}''),
                    CallNewOperation (Chan 2), CallWaitFor (Operation ''1'') 25000000,
                    CallStatusOrResult (Operation ''1''), CallEncode (Object ''done'')],
          writer := [HeaderSet ''Content-Type'' ''application/json'', WriteHeader 200,
                     Write ''done'']\<rparr>)
   \<and> handleRESTStorage 2 exImports exServer [''pods'', ''a'']
      (exRequest ''DELETE'' ''/pods/a'' [] []) exStorage exState =
      (Returned,
       exState\<lparr>world := 25000000,
          calls := [CallDelete ''a'', CallNewOperation (Chan 0),
                    CallWaitFor (Operation ''1'') 25000000,
                    CallStatusOrResult (Operation ''1''), CallEncode (Object ''done'')],
          writer := [HeaderSet ''Content-Type'' ''application/json'', WriteHeader 200,
                     Write ''done'']\<rparr>)
   \<and> handleRESTStorage 2 exImports exServer [''pods'', ''a'']
      (exRequest ''PUT'' ''/pods/a'' [(''sync'', ''true''), (''timeout'', ''5ms'')] ''{}'')
          exStorage exState =
      (Returned,
       exState\<lparr>world := 5000000,
          calls := [CallNew, CallDecodeInto ''{}'' (Object []), CallUpdate (Object ''{}''),
                    CallNewOperation (Chan 2), CallWaitFor (Operation ''1'') 5000000,
                    CallStatusOrResult (Operation ''1''),
                    CallEncode (StatusVal \<lparr>Code = 0, Details = ''1''\<rparr>)],
          writer := [HeaderSet ''Content-Type'' ''application/json'', WriteHeader 202,
                     Write ''1'']\<rparr>)"
proof -
  have list: "Method (exRequest ''GET'' ''/pods'' [(''labels'', ''a=b'')] []) = ''GET'' \<and>
    length [''pods''] = 1 \<and>
    ParseSelector exImports
      (Query_Get (Query (exRequest ''GET'' ''/pods'' [(''labels'', ''a=b'')] [])) ''labels'') =
      Inr (Selector ''a=b'')"
    by (simp add: ex_defs Query_Get_def)
  have get: "Method (exRequest ''GET'' ''/pods/a'' [] []) = ''GET'' \<and>
      length [''pods'', ''a''] = 2"
    by (simp add: ex_defs)
  have create: "Method (exRequest ''POST'' ''/pods'' [] ''{}'') = ''POST'' \<and>
    length [''pods''] = 1 \<and>
    readBody (exRequest ''POST'' ''/pods'' [] ''{}'') = Inr ''{}'' \<and>
    New exStorage (world exState) = (Ret (Object []), 0) \<and>
    DecodeInto (codec exServer) ''{}'' (Object []) 0 = (Ret (Inr (Object ''{}'')), 0)"
    by (simp add: ex_defs readBody_def)
  have update: "Method (exRequest ''PUT'' ''/pods/a'' [] ''{}'') = ''PUT'' \<and>
    length [''pods'', ''a''] = 2 \<and>
    readBody (exRequest ''PUT'' ''/pods/a'' [] ''{}'') = Inr ''{}'' \<and>
    New exStorage (world exState) = (Ret (Object []), 0) \<and>
    DecodeInto (codec exServer) ''{}'' (Object []) 0 = (Ret (Inr (Object ''{}'')), 0)"
    by (simp add: ex_defs readBody_def)
  have delete: "Method (exRequest ''DELETE'' ''/pods/a'' [] []) = ''DELETE'' \<and>
    length [''pods'', ''a''] = 2"
    by (simp add: ex_defs)
  have none:
    "\<not> (Method (exRequest ''PATCH'' ''/pods/a'' [] []) = ''GET'' \<and>
        (length [''pods'', ''a''] = 1 \<or> length [''pods'', ''a''] = 2)) \<and>
     \<not> (Method (exRequest ''PATCH'' ''/pods/a'' [] []) = ''POST'' \<and>
        length [''pods'', ''a''] = 1) \<and>
     \<not> (Method (exRequest ''PATCH'' ''/pods/a'' [] []) = ''PUT'' \<and>
        length [''pods'', ''a''] = 2) \<and>
     \<not> (Method (exRequest ''PATCH'' ''/pods/a'' [] []) = ''DELETE'' \<and>
        length [''pods'', ''a''] = 2)"
    by (simp add: ex_defs)
  have path: "splitPath (Path (exRequest ''GET'' ''/pods/a'' [] [])) = [''pods'', ''a'']"
    by (simp add: exRequest_def splitPath_def Trim_def)
  have link: "splitPath (Path (exRequest ''GET'' ''/pods/a'' [] [])) \<noteq> [] \<and>
    storage exServer (splitPath (Path (exRequest ''GET'' ''/pods/a'' [] [])) ! 0) =
      Some exStorage"
    by (simp add: path exServer_fields)
  note r = dispatch_routes [where I = exImports and fuel = 2 and s = exServer
      and stor = exStorage and st = exState]
  note r1 = r [where req = "exRequest ''GET'' ''/pods'' [(''labels'', ''a=b'')] []"

      and parts = "[''pods'']" and sel = "Selector ''a=b''",
      THEN conjunct1, THEN conjunct1, rule_format, OF list]
  note r2 = r [where req = "exRequest ''GET'' ''/pods/a'' [] []" and parts =
      "[''pods'', ''a'']",
      THEN conjunct1, THEN conjunct2, THEN conjunct1, rule_format, OF get]
  note r3 = r [where req = "exRequest ''POST'' ''/pods'' [] ''{}''"
      and parts = "[''pods'']" and body = "''{}''"
      and blank = "Object []" and wd = 0 and wd' = 0 and decoded = "Object ''{}''",
      THEN conjunct1, THEN conjunct2, THEN conjunct2, THEN conjunct1, rule_format, OF create]
  note r4 = r [where req = "exRequest ''PUT'' ''/pods/a'' [] ''{}''"
      and parts = "[''pods'', ''a'']" and body = "''{}''"
      and blank = "Object []" and wd = 0 and wd' = 0 and decoded = "Object ''{}''",
      THEN conjunct1, THEN conjunct2, THEN conjunct2, THEN conjunct2, THEN conjunct1,
          rule_format, OF update]
  note r5 = r [where req = "exRequest ''DELETE'' ''/pods/a'' [] []"
      and parts = "[''pods'', ''a'']",
      THEN conjunct1, THEN conjunct2, THEN conjunct2, THEN conjunct2, THEN conjunct2,
          THEN conjunct1,
      rule_format, OF delete]
  note r6 = r [where req = "exRequest ''PATCH'' ''/pods/a'' [] []"
      and parts = "[''pods'', ''a'']",
      THEN conjunct1, THEN conjunct2, THEN conjunct2, THEN conjunct2, THEN conjunct2,
          THEN conjunct2,
      THEN conjunct1, rule_format, OF none, THEN conjunct2, THEN conjunct2]
  note r7 = r [where req = "exRequest ''GET'' ''/pods/a'' [] []",
      THEN conjunct1, THEN conjunct2, THEN conjunct2, THEN conjunct2, THEN conjunct2,
          THEN conjunct2,
      THEN conjunct2, rule_format, OF link]
  have st0: "calls exState = []" "writer exState = []"
    by (simp_all add: exState_def)
  have m: "Method (exRequest ''PATCH'' ''/pods/a'' [] []) = ''PATCH''"
    by (simp add: exRequest_def)
  have s: "storage exServer ''pods'' = Some exStorage"
    by (simp add: exServer_fields)
  from list get create update delete m path s r1 r2 r3 r4 r5 r6 r7
  have logged:
      "(Method (exRequest ''GET'' ''/pods'' [(''labels'', ''a=b'')] []) = ''GET'' \<and>
    length [''pods''] = 1 \<and>
    ParseSelector exImports
      (Query_Get (Query (exRequest ''GET'' ''/pods'' [(''labels'', ''a=b'')] [])) ''labels'') =
      Inr (Selector ''a=b'') \<and>
    filter backend (calls (snd (handleRESTStorage 2 exImports exServer [''pods'']
      (exRequest ''GET'' ''/pods'' [(''labels'', ''a=b'')] []) exStorage exState))) =
      [CallList (Selector ''a=b'')])
   \<and> (Method (exRequest ''GET'' ''/pods/a'' [] []) = ''GET'' \<and>
       length [''pods'', ''a''] = 2 \<and>
    filter backend (calls (snd (handleRESTStorage 2 exImports exServer [''pods'', ''a'']
      (exRequest ''GET'' ''/pods/a'' [] []) exStorage exState))) = [CallGet ''a''])
   \<and> (Method (exRequest ''POST'' ''/pods'' [] ''{}'') = ''POST'' \<and> length [''pods''] =
       1 \<and>
    readBody (exRequest ''POST'' ''/pods'' [] ''{}'') = Inr ''{}'' \<and>
    New exStorage (world exState) = (Ret (Object []), 0) \<and>
    DecodeInto (codec exServer) ''{}'' (Object []) 0 = (Ret (Inr (Object ''{}'')), 0) \<and>
    filter backend (calls (snd (handleRESTStorage 2 exImports exServer [''pods'']
      (exRequest ''POST'' ''/pods'' [] ''{}'') exStorage exState))) =
      [CallNew, CallCreate (Object ''{}'')])
   \<and> (Method (exRequest ''PUT'' ''/pods/a'' [] ''{}'') = ''PUT'' \<and>
    readBody (exRequest ''PUT'' ''/pods/a'' [] ''{}'') = Inr ''{}'' \<and>
    filter backend (calls (snd (handleRESTStorage 2 exImports exServer [''pods'', ''a'']
      (exRequest ''PUT'' ''/pods/a'' [] ''{}'') exStorage exState))) =
      [CallNew, CallUpdate (Object ''{}'')])
   \<and> (Method (exRequest ''DELETE'' ''/pods/a'' [] []) = ''DELETE'' \<and>
    filter backend (calls (snd (handleRESTStorage 2 exImports exServer [''pods'', ''a'']
      (exRequest ''DELETE'' ''/pods/a'' [] []) exStorage exState))) = [CallDelete ''a''])
   \<and> (Method (exRequest ''PATCH'' ''/pods/a'' [] []) = ''PATCH'' \<and>
    writer (snd (handleRESTStorage 2 exImports exServer [''pods'', ''a'']
      (exRequest ''PATCH'' ''/pods/a'' [] []) exStorage exState)) = [WriteHeader 404] \<and>
    calls (snd (handleRESTStorage 2 exImports exServer [''pods'', ''a'']
      (exRequest ''PATCH'' ''/pods/a'' [] []) exStorage exState)) = [])
   \<and> (splitPath (Path (exRequest ''GET'' ''/pods/a'' [] [])) = [''pods'', ''a''] \<and>
    storage exServer ''pods'' = Some exStorage \<and>
    handleREST 2 exImports exServer (exRequest ''GET'' ''/pods/a'' [] []) exState =
      handleRESTStorage 2 exImports exServer [''pods'', ''a'']
        (exRequest ''GET'' ''/pods/a'' [] []) exStorage exState)"
    by (simp add: st0)
  have list': "Method (exRequest ''GET'' ''/pods'' [(''labels'', ''a=b'')] []) = ''GET'' \<and>
    length [''pods''] = 1 \<and>
    ParseSelector exImports
      (Query_Get (Query (exRequest ''GET'' ''/pods'' [(''labels'', ''a=b'')] [])) ''labels'') =
      Inr (Selector ''a=b'') \<and>
    List exStorage (Selector ''a=b'') (world exState) = (Ret (Inr (Object ''pods'')), 0) \<and>
    Encode (codec exServer) (Object ''pods'') 0 = (Ret (Inr ''pods''), 0)"
    by (simp add: ex_defs Query_Get_def)
  have get': "Method (exRequest ''GET'' ''/pods/a'' [] []) = ''GET'' \<and>
    length [''pods'', ''a''] = 2 \<and>
    Get exStorage ([''pods'', ''a''] ! 1) (world exState) = (Ret (Inr (Object ''a'')), 0) \<and>
    Encode (codec exServer) (Object ''a'') 0 = (Ret (Inr ''a''), 0)"
    by (simp add: ex_defs)
  have slow:
    "Method (exRequest ''PUT'' ''/pods/a'' [(''sync'', ''true''), (''timeout'', ''5ms'')]
        ''{}'') =
       ''DELETE'' \<and> length [''pods'', ''a''] = 2 \<and>
       Delete exStorage ([''pods'', ''a''] ! 1) (world exState) = (Ret (Inr (Chan 2)), 0) \<and>
       [CallNew, CallDecodeInto ''{}'' (Object []), CallUpdate (Object ''{}'')] =
         [CallDelete ([''pods'', ''a''] ! 1)]
     \<or> Method
         (exRequest ''PUT'' ''/pods/a'' [(''sync'', ''true''), (''timeout'', ''5ms'')] ''{}'') =
       ''POST'' \<and> length [''pods'', ''a''] = 1 \<and>
       readBody (exRequest ''PUT'' ''/pods/a'' [(''sync'', ''true''), (''timeout'', ''5ms'')]
           ''{}'') =
         Inr ''{}'' \<and>
       New exStorage (world exState) = (Ret (Object []), 0) \<and>
       DecodeInto (codec exServer) ''{}'' (Object []) 0 = (Ret (Inr (Object ''{}'')), 0) \<and>
       Create exStorage (Object ''{}'') 0 = (Ret (Inr (Chan 2)), 0) \<and>
       [CallNew, CallDecodeInto ''{}'' (Object []), CallUpdate (Object ''{}'')] =
         [CallNew, CallDecodeInto ''{}'' (Object []), CallCreate (Object ''{}'')]
     \<or> Method
         (exRequest ''PUT'' ''/pods/a'' [(''sync'', ''true''), (''timeout'', ''5ms'')] ''{}'') =
       ''PUT'' \<and> length [''pods'', ''a''] = 2 \<and>
       readBody (exRequest ''PUT'' ''/pods/a'' [(''sync'', ''true''), (''timeout'', ''5ms'')]
           ''{}'') =
         Inr ''{}'' \<and>
       New exStorage (world exState) = (Ret (Object []), 0) \<and>
       DecodeInto (codec exServer) ''{}'' (Object []) 0 = (Ret (Inr (Object ''{}'')), 0) \<and>
       Update exStorage (Object ''{}'') 0 = (Ret (Inr (Chan 2)), 0) \<and>
       [CallNew, CallDecodeInto ''{}'' (Object []), CallUpdate (Object ''{}'')] =
         [CallNew, CallDecodeInto ''{}'' (Object []), CallUpdate (Object ''{}'')]"
    by (simp add: ex_defs readBody_def)
  note run = exRequest_def exState_def exImports_def exStorage_def exOps_def exCodec_def
    Millisecond_def Second_def exServer_fields Query_Get_def parseTimeout_def call_def
    createOperation_def finishReq_def numeral_2_eq_2
  note n = dispatch_routes [where I = exImports and s = exServer
      and stor = exStorage and st = exState]
  note n1 = n [where fuel = 2 and req = "exRequest ''GET'' ''/pods'' [(''labels'', ''a=b'')] []"
      and parts = "[''pods'']" and sel = "Selector ''a=b''",
      THEN conjunct2, THEN conjunct1, rule_format, OF list]
  have e1: "handleRESTStorage 2 exImports exServer [''pods'']
      (exRequest ''GET'' ''/pods'' [(''labels'', ''a=b'')] []) exStorage exState =
      (Returned,
       exState\<lparr>world := 0,
          calls := [CallList (Selector ''a=b''), CallEncode (Object ''pods'')],
          writer := [HeaderSet ''Content-Type'' ''application/json'', WriteHeader 200,
                     Write ''pods'']\<rparr>)"
    unfolding n1 by (simp add: run)
  note n2 = n [where fuel = 0 and req = "exRequest ''GET'' ''/pods'' [(''labels'', ''a=b'')] []"
      and parts = "[''pods'']" and sel = "Selector ''a=b''"
      and found = "Object ''pods''" and wd = 0 and outp = "''pods''" and wd' = 0,
      THEN conjunct2, THEN conjunct2, THEN conjunct1, rule_format, OF list']
  have e2: "handleRESTStorage (Suc 0) exImports exServer [''pods'']
      (exRequest ''GET'' ''/pods'' [(''labels'', ''a=b'')] []) exStorage exState =
      (Returned,
       exState\<lparr>world := 0,
          calls := [CallList (Selector ''a=b''), CallEncode (Object ''pods'')],
          writer := [HeaderSet ''Content-Type'' ''application/json'', WriteHeader 200,
                     Write ''pods'']\<rparr>)"
    unfolding n2 by (simp add: run)
  note n3 = n [where fuel = 2 and req = "exRequest ''GET'' ''/pods/a'' [] []" and parts =
      "[''pods'', ''a'']",
      THEN conjunct2, THEN conjunct2, THEN conjunct2, THEN conjunct1, rule_format, OF get]
  have e3: "handleRESTStorage 2 exImports exServer [''pods'', ''a'']
      (exRequest ''GET'' ''/pods/a'' [] []) exStorage exState =
      (Returned,
       exState\<lparr>world := 0,
          calls := [CallGet ''a'', CallEncode (Object ''a'')],
          writer := [HeaderSet ''Content-Type'' ''application/json'', WriteHeader 200,
                     Write ''a'']\<rparr>)"
    unfolding n3 by (simp add: run)
  note n4 = n [where fuel = 0 and req = "exRequest ''GET'' ''/pods/a'' [] []" and parts =
      "[''pods'', ''a'']"
      and found = "Object ''a''" and wd = 0 and outp = "''a''" and wd' = 0,
      THEN conjunct2, THEN conjunct2, THEN conjunct2, THEN conjunct2, THEN conjunct1,
          rule_format, OF get']
  have e4: "handleRESTStorage (Suc 0) exImports exServer [''pods'', ''a'']
      (exRequest ''GET'' ''/pods/a'' [] []) exStorage exState =
      (Returned,
       exState\<lparr>world := 0,
          calls := [CallGet ''a'', CallEncode (Object ''a'')],
          writer := [HeaderSet ''Content-Type'' ''application/json'', WriteHeader 200,
                     Write ''a'']\<rparr>)"
    unfolding n4 by (simp add: run)
  note n5 = n [where fuel = 2 and req = "exRequest ''POST'' ''/pods'' [] ''{}''" and parts =
      "[''pods'']" and body = "''{}''"
      and blank = "Object []" and wd = 0 and wd' = 0 and decoded = "Object ''{}''",
      THEN conjunct2, THEN conjunct2, THEN conjunct2, THEN conjunct2, THEN conjunct2,
          THEN conjunct1, rule_format, OF create]
  have e5: "handleRESTStorage 2 exImports exServer [''pods'']
      (exRequest ''POST'' ''/pods'' [] ''{}'') exStorage exState =
      (Returned,
       exState\<lparr>world := 25000000,
          calls := [CallNew, CallDecodeInto ''{}'' (Object []), CallCreate (Object ''{}''),
                    CallNewOperation (Chan 1), CallWaitFor (Operation ''1'') 25000000,
                    CallStatusOrResult (Operation ''1''), CallEncode (Object ''done'')],
          writer := [HeaderSet ''Content-Type'' ''application/json'', WriteHeader 200,
                     Write ''done'']\<rparr>)"
    unfolding n5 by (simp add: run)
  note n6 = n [where fuel = 2 and req = "exRequest ''PUT'' ''/pods/a'' [] ''{}''" and parts =
      "[''pods'', ''a'']" and body = "''{}''"
      and blank = "Object []" and wd = 0 and wd' = 0 and decoded = "Object ''{}''",
      THEN conjunct2, THEN conjunct2, THEN conjunct2, THEN conjunct2, THEN conjunct2,
          THEN conjunct2, THEN conjunct1, rule_format, OF update]
  have e6: "handleRESTStorage 2 exImports exServer [''pods'', ''a'']
      (exRequest ''PUT'' ''/pods/a'' [] ''{}'') exStorage exState =
      (Returned,
       exState\<lparr>world := 25000000,
          calls := [CallNew, CallDecodeInto ''{}'' (Object []), CallUpdate (Object ''{}''),
                    CallNewOperation (Chan 2), CallWaitFor (Operation ''1'') 25000000,
                    CallStatusOrResult (Operation ''1''), CallEncode (Object ''done'')],
          writer := [HeaderSet ''Content-Type'' ''application/json'', WriteHeader 200,
                     Write ''done'']\<rparr>)"
    unfolding n6 by (simp add: run)
  note n7 = n [where fuel = 2 and req = "exRequest ''DELETE'' ''/pods/a'' [] []" and parts =
      "[''pods'', ''a'']",
      THEN conjunct2, THEN conjunct2, THEN conjunct2, THEN conjunct2, THEN conjunct2,
          THEN conjunct2, THEN conjunct2, THEN conjunct1, rule_format, OF delete]
  have e7: "handleRESTStorage 2 exImports exServer [''pods'', ''a'']
      (exRequest ''DELETE'' ''/pods/a'' [] []) exStorage exState =
      (Returned,
       exState\<lparr>world := 25000000,
          calls := [CallDelete ''a'', CallNewOperation (Chan 0),
                    CallWaitFor (Operation ''1'') 25000000,
                    CallStatusOrResult (Operation ''1''), CallEncode (Object ''done'')],
          writer := [HeaderSet ''Content-Type'' ''application/json'', WriteHeader 200,
                     Write ''done'']\<rparr>)"
    unfolding n7 by (simp add: run)
  note n8 = n [where fuel = 2 and req =
      "exRequest ''PUT'' ''/pods/a'' [(''sync'', ''true''), (''timeout'', ''5ms'')] ''{}''"
      and parts = "[''pods'', ''a'']" and body = "''{}''" and blank = "Object []"
      and decoded = "Object ''{}''" and out = "Chan 2" and wd\<^sub>1 = 0 and wd\<^sub>2 = 0 and
          wd\<^sub>3 = 0
      and pre = "[CallNew, CallDecodeInto ''{}'' (Object []), CallUpdate (Object ''{}'')]",
      THEN conjunct2, THEN conjunct2, THEN conjunct2, THEN conjunct2, THEN conjunct2,
          THEN conjunct2, THEN conjunct2, THEN conjunct2, rule_format, OF slow]
  have e8: "handleRESTStorage 2 exImports exServer [''pods'', ''a'']
      (exRequest ''PUT'' ''/pods/a'' [(''sync'', ''true''), (''timeout'', ''5ms'')] ''{}'')
          exStorage exState =
      (Returned,
       exState\<lparr>world := 5000000,
          calls := [CallNew, CallDecodeInto ''{}'' (Object []), CallUpdate (Object ''{}''),
                    CallNewOperation (Chan 2), CallWaitFor (Operation ''1'') 5000000,
                    CallStatusOrResult (Operation ''1''),
                    CallEncode (StatusVal \<lparr>Code = 0, Details = ''1''\<rparr>)],
          writer := [HeaderSet ''Content-Type'' ''application/json'', WriteHeader 202,
                     Write ''1'']\<rparr>)"
    unfolding n8 by (simp add: run)
  show ?thesis
    by (rule conjI [OF logged]) (intro conjI; rule e1 e2 e3 e4 e5 e6 e7 e8)
qed

subsection \<open>Trimming and splitting\<close>

lemma Split_not_Nil: "Split p c \<noteq> []"
  by (induction p) (auto split: list.split)

lemma Join_Split: "Join (Split p c) c = p"
proof (induction p)
  case Nil
  show ?case by simp
next
  case (Cons x p)
  obtain q qs where q: "Split p c = q # qs"
    using Split_not_Nil [of p c] by (cases "Split p c") auto
  show ?case
  proof (cases "x = c")
    case True
    with Cons q show ?thesis by simp
  next
    case False
    with Cons q show ?thesis by (cases qs) auto
  qed
qed

lemma Split_segments: "seg \<in> set (Split p c) \<Longrightarrow> c \<notin> set seg"
  by (induction p arbitrary: seg) (auto split: if_splits list.splits)

lemma length_Split: "length (Split p c) = Suc (count_list p c)"
  by (induction p) (auto split: list.split simp: Split_not_Nil)

lemma dropWhile_replicate:
  "\<exists>n. xs = replicate n c @ dropWhile (\<lambda>x. x = c) xs"
proof (induction xs)
  case Nil
  show ?case by simp
next
  case (Cons x xs)
  then obtain n where n: "replicate n c @ dropWhile (\<lambda>x. x = c) xs = xs" by metis
  show ?case
  proof (cases "x = c")
    case True
    have "x # xs = replicate (Suc n) c @ dropWhile (\<lambda>x. x = c) (x # xs)"
      using True by (simp add: n)
    then show ?thesis by blast
  next
    case False
    then have "x # xs = replicate 0 c @ dropWhile (\<lambda>x. x = c) (x # xs)" by simp
    then show ?thesis by blast
  qed
qed

lemma rev_dropWhile_replicate:
  "\<exists>n. xs = rev (dropWhile (\<lambda>x. x = c) (rev xs)) @ replicate n c"
proof -
  obtain n where "rev xs = replicate n c @ dropWhile (\<lambda>x. x = c) (rev xs)"
    using dropWhile_replicate [of "rev xs" c] by (rule exE)
  then have "rev (rev xs) = rev (replicate n c @ dropWhile (\<lambda>x. x = c) (rev xs))"
    by (rule arg_cong)
  from this [unfolded rev_rev_ident rev_append rev_replicate] show ?thesis ..
qed

lemma Trim_decompose: "\<exists>a b. p = replicate a c @ Trim p c @ replicate b c"
proof -
  obtain a where a: "p = replicate a c @ dropWhile (\<lambda>x. x = c) p"
    using dropWhile_replicate [of p c] by (rule exE)
  obtain b where b: "dropWhile (\<lambda>x. x = c) p = Trim p c @ replicate b c"
    unfolding Trim_def
    using rev_dropWhile_replicate [of "dropWhile (\<lambda>x. x = c) p" c] by (rule exE)
  have "p = replicate a c @ Trim p c @ replicate b c"
    by (rule trans [OF a]) (simp only: b)
  then show ?thesis by blast
qed

lemma Trim_ends:
  assumes "Trim p c \<noteq> []"
  shows "hd (Trim p c) \<noteq> c" and "last (Trim p c) \<noteq> c"
proof -
  let ?d = "dropWhile (\<lambda>x. x = c) p"
  let ?e = "dropWhile (\<lambda>x. x = c) (rev ?d)"
  from assms have e: "?e \<noteq> []" by (simp only: Trim_def rev_is_Nil_conv not_False_eq_True)
  have "hd ?e \<noteq> c" using e by (rule hd_dropWhile)
  moreover have "last (Trim p c) = hd ?e"
    unfolding Trim_def by (rule last_rev)
  ultimately show "last (Trim p c) \<noteq> c" by simp
  have "?e = []" if "?d = []"
    by (simp only: that rev.simps dropWhile.simps)
  with e have d: "?d \<noteq> []" by blast
  then have hd: "hd ?d \<noteq> c" by (rule hd_dropWhile)
  obtain b where b: "?d = Trim p c @ replicate b c"
    unfolding Trim_def using rev_dropWhile_replicate [of ?d c] by (rule exE)
  from hd have "hd (Trim p c @ replicate b c) \<noteq> c" by (simp only: b not_False_eq_True)
  moreover from assms have "hd (Trim p c @ replicate b c) = hd (Trim p c)"
    by (rule hd_append2)
  ultimately show "hd (Trim p c) \<noteq> c" by simp
qed

lemma Trim_Nil_iff: "Trim p c = [] \<longleftrightarrow> (\<forall>x\<in>set p. x = c)"
proof
  assume t: "Trim p c = []"
  obtain a b where ab: "p = replicate a c @ Trim p c @ replicate b c"
    using Trim_decompose [of p c] by (elim exE)
  have "set p = set (replicate a c @ Trim p c @ replicate b c)"
    by (rule arg_cong [OF ab])
  then show "\<forall>x\<in>set p. x = c" by (auto simp: t)
next
  assume "\<forall>x\<in>set p. x = c"
  then have "dropWhile (\<lambda>x. x = c) p = []" by simp
  then show "Trim p c = []"
    unfolding Trim_def by (simp only: rev.simps dropWhile.simps)
qed

lemma splitPath_Nil_iff: "splitPath p = [] \<longleftrightarrow> (\<forall>x\<in>set p. x = CHR ''/'')"
  by (simp add: splitPath_def Let_def Split_not_Nil Trim_Nil_iff)

lemma handleREST_no_segments:
  assumes "splitPath (Path req) = []"
  shows "handleREST fuel I s req st = notFound req st"
  using assms by (simp add: handleREST_def)

text \<open>
  C5. Path segments. The segments of a path are those of the path trimmed of its leading
  and trailing separators: trimming removes a run of separators at each end and leaves a
  string that neither begins nor ends with one; splitting cuts at every separator, so
  that no segment holds one and joining the segments with the separator gives the string
  back. A path has zero segments exactly when it is empty or made of separators only, and
  a request with zero segments is answered Not Found, with no collaborator called.
\<close>

theorem splitPath_segments:
  "splitPath path =
     (if Trim path (CHR ''/'') = [] then [] else Split (Trim path (CHR ''/'')) (CHR ''/''))
   \<and> (\<exists>a b. path = replicate a (CHR ''/'') @ Trim path (CHR ''/'') @ replicate b (CHR ''/''))
   \<and> (Trim path (CHR ''/'') \<noteq> [] \<longrightarrow>
        hd (Trim path (CHR ''/'')) \<noteq> CHR ''/'' \<and> last (Trim path (CHR ''/'')) \<noteq> CHR ''/'')
   \<and> Join (Split p (CHR ''/'')) (CHR ''/'') = p
   \<and> (\<forall>seg\<in>set (Split p (CHR ''/'')). CHR ''/'' \<notin> set seg)
   \<and> length (Split p (CHR ''/'')) = Suc (count_list p (CHR ''/''))
   \<and> splitPath [] = []
   \<and> (splitPath path = [] \<longleftrightarrow> (\<forall>x\<in>set path. x = CHR ''/''))
   \<and> (splitPath (Path req) = [] \<longrightarrow>
        handleREST fuel I s req st = notFound req st \<and>
        fst (handleREST fuel I s req st) = Returned \<and>
        writer (snd (handleREST fuel I s req st)) = writer st @ [WriteHeader 404] \<and>
        calls (snd (handleREST fuel I s req st)) = calls st)"
proof (intro conjI impI ballI)
  show "splitPath path =
     (if Trim path (CHR ''/'') = [] then [] else Split (Trim path (CHR ''/'')) (CHR ''/''))"
    by (simp add: splitPath_def Let_def)
  show "\<exists>a b. path = replicate a (CHR ''/'') @ Trim path (CHR ''/'') @ replicate b (CHR ''/'')"
    by (rule Trim_decompose)
  show "Join (Split p (CHR ''/'')) (CHR ''/'') = p"
    by (rule Join_Split)
  show "length (Split p (CHR ''/'')) = Suc (count_list p (CHR ''/''))"
    by (rule length_Split)
  show "splitPath [] = []"
    by (simp add: splitPath_Nil_iff)
  show "splitPath path = [] \<longleftrightarrow> (\<forall>x\<in>set path. x = CHR ''/'')"
    by (rule splitPath_Nil_iff)
next
  assume "Trim path (CHR ''/'') \<noteq> []"
  then show "hd (Trim path (CHR ''/'')) \<noteq> CHR ''/''" and "last (Trim path (CHR ''/'')) \<noteq> CHR ''/''"
    by (rule Trim_ends)+
next
  fix seg assume "seg \<in> set (Split p (CHR ''/''))"
  then show "CHR ''/'' \<notin> set seg" by (rule Split_segments)
next
  assume "splitPath (Path req) = []"
  then have eq: "handleREST fuel I s req st = notFound req st"
    by (rule handleREST_no_segments)
  then show "handleREST fuel I s req st = notFound req st" .
  from eq show "fst (handleREST fuel I s req st) = Returned"
    and "writer (snd (handleREST fuel I s req st)) = writer st @ [WriteHeader 404]"
    and "calls (snd (handleREST fuel I s req st)) = calls st"
    by (simp_all add: notFound_def)
qed

theorem splitPath_segments_witness:
  "splitPath ''/pods//a/'' = [''pods'', [], ''a'']
   \<and> Trim ''/pods//a/'' (CHR ''/'') = ''pods//a''
   \<and> hd ''pods//a'' \<noteq> CHR ''/'' \<and> last ''pods//a'' \<noteq> CHR ''/''
   \<and> Join [''pods'', [], ''a''] (CHR ''/'') = ''pods//a''
   \<and> CHR ''/'' \<notin> set ''pods'' \<and> CHR ''/'' \<notin> set ''a''
   \<and> splitPath (Path (exRequest ''GET'' ''//'' [] [])) = []
   \<and> writer (snd (handleREST 2 exImports exServer (exRequest ''GET'' ''//'' [] []) exState)) =
       [WriteHeader 404]
   \<and> calls (snd (handleREST 2 exImports exServer (exRequest ''GET'' ''//'' [] []) exState)) = []"
proof -
  have trim: "Trim ''/pods//a/'' (CHR ''/'') = ''pods//a''"
    by (simp add: Trim_def)
  have nonempty: "Trim ''/pods//a/'' (CHR ''/'') \<noteq> []"
    by (simp add: trim)
  have none: "splitPath (Path (exRequest ''GET'' ''//'' [] [])) = []"
    by (simp add: exRequest_def splitPath_def Trim_def)
  note r = splitPath_segments [where path = "''/pods//a/''" and p = "''pods//a''"
      and req = "exRequest ''GET'' ''//'' [] []" and fuel = 2 and I = exImports
      and s = exServer and st = exState]
  have split: "Split ''pods//a'' (CHR ''/'') = [''pods'', [], ''a'']"
    by simp
  from r [THEN conjunct1] have "splitPath ''/pods//a/'' = [''pods'', [], ''a'']"
    by (simp add: trim split)
  moreover
  note r [THEN conjunct2, THEN conjunct2, THEN conjunct1, rule_format, OF nonempty,
      unfolded trim]
  moreover from r [THEN conjunct2, THEN conjunct2, THEN conjunct2, THEN conjunct1]
  have "Join [''pods'', [], ''a''] (CHR ''/'') = ''pods//a''"
    by (simp only: split)
  moreover from r [THEN conjunct2, THEN conjunct2, THEN conjunct2, THEN conjunct2,
      THEN conjunct1]
  have "CHR ''/'' \<notin> set ''pods'' \<and> CHR ''/'' \<notin> set ''a''"
    by (simp only: split list.set) blast
  moreover note r [THEN conjunct2, THEN conjunct2, THEN conjunct2, THEN conjunct2,
      THEN conjunct2, THEN conjunct2, THEN conjunct2, THEN conjunct2, rule_format, OF none,
      THEN conjunct2, THEN conjunct2]
  moreover have "calls exState = []" "writer exState = []"
    by (simp_all add: exState_def)
  ultimately show ?thesis using trim none by simp
qed

subsection \<open>Query parameters\<close>

lemma map_of_filter_key:
  "map_of (filter (\<lambda>(k, v). k \<noteq> key) q) k' = (if k' = key then None else map_of q k')"
  by (induction q) auto

lemma Query_Get_filter:
  "Query_Get (filter (\<lambda>(k, v). k \<noteq> key) q) k' = (if k' = key then [] else Query_Get q k')"
  by (simp add: Query_Get_def map_of_filter_key)

lemma parseTimeout_unparsable:
  assumes "ParseDuration I str = Inl err" and "str \<noteq> []"
  shows "parseTimeout I str st = (30 * Second, st\<lparr>glog := glog st @ [FailedToParse err str]\<rparr>)"
  using assms by (simp add: parseTimeout_def)

lemma handleRESTStorage_unparsable:
  assumes "ParseDuration I (Query_Get (Query req) ''timeout'') = Inl err"
    and "Query_Get (Query req) ''timeout'' \<noteq> []"
  shows "handleRESTStorage fuel I s parts req stor st =
     handleRESTStorage fuel I s parts
       (req\<lparr>Query := filter (\<lambda>(k, v). k \<noteq> ''timeout'') (Query req)\<rparr>) stor
       (st\<lparr>glog := glog st @ [FailedToParse err (Query_Get (Query req) ''timeout'')]\<rparr>)"
proof -
  have absent: "parseTimeout I [] st' = (30 * Second, st')" for st' :: "'a rstate"
    by (simp add: parseTimeout_def)
  show ?thesis
    unfolding handleRESTStorage_def
    by (simp add: Let_def Query_Get_filter parseTimeout_unparsable [OF assms] absent readBody_def
        notFound_def)
qed

text \<open>
  C4. The timeout of a request. It is the duration that the \<open>timeout\<close> query parameter
  denotes when that parameter is there and parses, and 30 seconds when it is absent or
  empty, and when it does not parse. A value that does not parse is logged and nothing
  else: the response writer, the collaborators and the request log are untouched, and the
  dispatcher goes on exactly as for the same request without the parameter.
\<close>

theorem parseTimeout_default:
  "(str \<noteq> [] \<and> ParseDuration I str = Inr d \<longrightarrow> parseTimeout I str st = (d, st))
   \<and> parseTimeout I [] st = (30000000000, st)
   \<and> parseTimeout I (Query_Get [] ''timeout'') st = (30000000000, st)
   \<and> (str \<noteq> [] \<and> ParseDuration I str = Inl err \<longrightarrow>
        parseTimeout I str st =
          (30000000000, st\<lparr>glog := glog st @ [FailedToParse err str]\<rparr>))
   \<and> (Query_Get (Query req) ''timeout'' \<noteq> [] \<and>
      ParseDuration I (Query_Get (Query req) ''timeout'') = Inl err \<longrightarrow>
        handleRESTStorage fuel I s parts req stor st =
          handleRESTStorage fuel I s parts
            (req\<lparr>Query := filter (\<lambda>(k, v). k \<noteq> ''timeout'') (Query req)\<rparr>) stor
            (st\<lparr>glog := glog st @
               [FailedToParse err (Query_Get (Query req) ''timeout'')]\<rparr>))"
proof (intro conjI impI)
  assume "str \<noteq> [] \<and> ParseDuration I str = Inr d"
  then show "parseTimeout I str st = (d, st)"
    by (simp add: parseTimeout_def)
next
  show "parseTimeout I [] st = (30000000000, st)"
    by (simp add: parseTimeout_def Second_def)
  then show "parseTimeout I (Query_Get [] ''timeout'') st = (30000000000, st)"
    by (simp add: Query_Get_def)
next
  assume "str \<noteq> [] \<and> ParseDuration I str = Inl err"
  then show "parseTimeout I str st =
          (30000000000, st\<lparr>glog := glog st @ [FailedToParse err str]\<rparr>)"
    by (simp add: parseTimeout_unparsable Second_def)
next
  assume "Query_Get (Query req) ''timeout'' \<noteq> [] \<and>
      ParseDuration I (Query_Get (Query req) ''timeout'') = Inl err"
  then show "handleRESTStorage fuel I s parts req stor st =
          handleRESTStorage fuel I s parts
            (req\<lparr>Query := filter (\<lambda>(k, v). k \<noteq> ''timeout'') (Query req)\<rparr>) stor
            (st\<lparr>glog := glog st @
               [FailedToParse err (Query_Get (Query req) ''timeout'')]\<rparr>)"
    by (intro handleRESTStorage_unparsable) simp_all
qed

theorem parseTimeout_default_witness:
  "parseTimeout exImports ''50ms'' exState = (50000000, exState)
   \<and> parseTimeout exImports ''soon'' exState =
       (30000000000, exState\<lparr>glog := [FailedToParse (Err ''invalid duration'') ''soon'']\<rparr>)
   \<and> handleRESTStorage 2 exImports exServer [''pods'']
        (exRequest ''GET'' ''/pods'' [(''timeout'', ''soon'')] []) exStorage exState =
      handleRESTStorage 2 exImports exServer [''pods'']
        (exRequest ''GET'' ''/pods'' [] []) exStorage
        (exState\<lparr>glog := [FailedToParse (Err ''invalid duration'') ''soon'']\<rparr>)"
proof -
  have parses: "''50ms'' \<noteq> [] \<and> ParseDuration exImports ''50ms'' = Inr 50000000"
    by (simp add: exImports_def Millisecond_def)
  have fails: "''soon'' \<noteq> [] \<and> ParseDuration exImports ''soon'' = Inl (Err ''invalid duration'')"
    by (simp add: exImports_def)
  have fails': "Query_Get (Query (exRequest ''GET'' ''/pods'' [(''timeout'', ''soon'')] []))
        ''timeout'' \<noteq> [] \<and>
      ParseDuration exImports
        (Query_Get (Query (exRequest ''GET'' ''/pods'' [(''timeout'', ''soon'')] [])) ''timeout'') =
      Inl (Err ''invalid duration'')"
    by (simp add: exImports_def exRequest_def Query_Get_def)
  have q: "exRequest ''GET'' ''/pods'' [(''timeout'', ''soon'')] []
      \<lparr>Query := filter (\<lambda>(k, v). k \<noteq> ''timeout'')
         (Query (exRequest ''GET'' ''/pods'' [(''timeout'', ''soon'')] []))\<rparr> =
      exRequest ''GET'' ''/pods'' [] []"
    by (simp add: exRequest_def)
  have g: "Query_Get (Query (exRequest ''GET'' ''/pods'' [(''timeout'', ''soon'')] [])) ''timeout'' =
      ''soon''"
    by (simp add: exRequest_def Query_Get_def)
  have l: "glog exState = []"
    by (simp add: exState_def)
  note r1 = parseTimeout_default [where str = "''50ms''" and I = exImports and d = 50000000
      and st = exState, THEN conjunct1, rule_format, OF parses]
  note r2 = parseTimeout_default [where str = "''soon''" and I = exImports
      and err = "Err ''invalid duration''" and st = exState,
      THEN conjunct2, THEN conjunct2, THEN conjunct2, THEN conjunct1, rule_format, OF fails]
  note r3 = parseTimeout_default [where I = exImports and err = "Err ''invalid duration''"
      and st = exState and req = "exRequest ''GET'' ''/pods'' [(''timeout'', ''soon'')] []"
      and fuel = 2 and s = exServer and parts = "[''pods'']" and stor = exStorage,
      THEN conjunct2, THEN conjunct2, THEN conjunct2, THEN conjunct2, rule_format, OF fails']
  from r1 r2 r3 show ?thesis
    by (simp only: q g l append_Nil simp_thms)
qed

subsection \<open>Waiting for an operation\<close>

lemma filter_call:
  assumes "\<And>v. only P (k v)" and "\<And>e. P e \<Longrightarrow> \<not> Q e"
  shows "filter Q (calls (snd (call ev f k st))) = filter Q (calls st) @ filter Q [ev]"
proof -
  obtain es where es: "calls (snd (call ev f k st)) = calls st @ ev # es"
    and "list_all P es"
    using assms(1) by (rule only_call_calls)
  with assms(2) have "filter Q es = []"
    by (auto simp: list_all_iff filter_empty_conv)
  with es show ?thesis by simp
qed

lemma isRender_not_isWait: "isRender e \<Longrightarrow> \<not> isWait e"
  by (cases e) simp_all

lemma createOperation_waits:
  assumes "NewOperation (ops s) out (world st) = (Ret op, wd)"
  shows "filter isWait (calls (snd (createOperation s out sync timeout (finishReq fuel I s) st))) =
     filter isWait (calls st) @
       (if sync then [CallWaitFor op timeout]
        else if asyncOpWait s \<noteq> 0 then [CallWaitFor op (asyncOpWait s)] else [])"
proof -
  let ?st = "st\<lparr>world := wd, calls := calls st @ [CallNewOperation out]\<rparr>"
  have w: "world ?st = wd" and c: "filter isWait (calls ?st) = filter isWait (calls st)"
    by simp_all
  have k: "only isRender ((\<lambda>_. finishReq fuel I s op) v)" for v :: unit
    by (rule only_finishReq)
  have wait: "filter isWait (calls (snd (call (CallWaitFor op d) (WaitFor (ops s) op d)
        (\<lambda>_. finishReq fuel I s op) ?st))) = filter isWait (calls st) @ [CallWaitFor op d]" for d
    using filter_call [of isRender "\<lambda>_. finishReq fuel I s op" isWait "CallWaitFor op d"
        "WaitFor (ops s) op d" ?st, OF k isRender_not_isWait]
    by simp
  have none: "filter isWait (calls (snd (finishReq fuel I s op ?st))) = filter isWait (calls st)"
    by (rule trans [OF only_filter [OF only_finishReq isRender_not_isWait]]) simp_all
  show ?thesis
    unfolding createOperation_def call_Ret [of "NewOperation (ops s) out" st op wd, OF assms]
    using wait none by simp
qed

lemma delete_waits:
  assumes "Method req = ''DELETE''" and "length parts = 2"
    and "Delete stor (parts ! 1) (world st) = (Ret (Inr out), wd)"
    and "NewOperation (ops s) out wd = (Ret op, wd')"
  shows "filter isWait (calls (snd (handleRESTStorage fuel I s parts req stor st))) =
     filter isWait (calls st) @
       (if Query_Get (Query req) ''sync'' = ''true''
        then [CallWaitFor op (fst (parseTimeout I (Query_Get (Query req) ''timeout'') st))]
        else if asyncOpWait s \<noteq> 0 then [CallWaitFor op (asyncOpWait s)] else [])"
  using assms by (simp add: route_delete call_Ret createOperation_waits)

lemma create_waits:
  assumes "Method req = ''POST''" and "length parts = 1"
    and "readBody req = Inr body"
    and "New stor (world st) = (Ret blank, wd\<^sub>1)"
    and "DecodeInto (codec s) body blank wd\<^sub>1 = (Ret (Inr decoded), wd\<^sub>2)"
    and "Create stor decoded wd\<^sub>2 = (Ret (Inr out), wd)"
    and "NewOperation (ops s) out wd = (Ret op, wd')"
  shows "filter isWait (calls (snd (handleRESTStorage fuel I s parts req stor st))) =
     filter isWait (calls st) @
       (if Query_Get (Query req) ''sync'' = ''true''
        then [CallWaitFor op (fst (parseTimeout I (Query_Get (Query req) ''timeout'') st))]
        else if asyncOpWait s \<noteq> 0 then [CallWaitFor op (asyncOpWait s)] else [])"
  using assms by (simp add: route_create call_Ret createOperation_waits)

lemma update_waits:
  assumes "Method req = ''PUT''" and "length parts = 2"
    and "readBody req = Inr body"
    and "New stor (world st) = (Ret blank, wd\<^sub>1)"
    and "DecodeInto (codec s) body blank wd\<^sub>1 = (Ret (Inr decoded), wd\<^sub>2)"
    and "Update stor decoded wd\<^sub>2 = (Ret (Inr out), wd)"
    and "NewOperation (ops s) out wd = (Ret op, wd')"
  shows "filter isWait (calls (snd (handleRESTStorage fuel I s parts req stor st))) =
     filter isWait (calls st) @
       (if Query_Get (Query req) ''sync'' = ''true''
        then [CallWaitFor op (fst (parseTimeout I (Query_Get (Query req) ''timeout'') st))]
        else if asyncOpWait s \<noteq> 0 then [CallWaitFor op (asyncOpWait s)] else [])"
  using assms by (simp add: route_update call_Ret createOperation_waits)

lemma asyncOpWait_New:
  "asyncOpWait (apiserver_New fuel I stor cdc NewOperations mux) = 25 * Millisecond"
  by (simp add: apiserver_New_def Let_def)

lemma ops_New: "ops (apiserver_New fuel I stor cdc NewOperations mux) = NewOperations"
  by (simp add: apiserver_New_def Let_def)

text \<open>
  What \<open>createOperation\<close> does in the world: the operation is made, the wait is applied
  to the world that making it left, and the rest of the handler runs on the operation in
  the world that the wait left.
\<close>

lemma createOperation_waited:
  assumes "NewOperation (ops s) out (world st) = (Ret op, wd)"
    and "sync \<or> asyncOpWait s \<noteq> 0"
    and "WaitFor (ops s) op (if sync then timeout else asyncOpWait s) wd = (Ret (), wd')"
  shows "createOperation s out sync timeout k st =
     k op (st\<lparr>world := wd',
              calls := calls st @
                [CallNewOperation out,
                 CallWaitFor op (if sync then timeout else asyncOpWait s)]\<rparr>)"
  unfolding createOperation_def call_Ret [of "NewOperation (ops s) out" st op wd, OF assms(1)]
  using assms(2,3) by (auto simp: call_Ret)

lemma createOperation_unwaited:
  assumes "NewOperation (ops s) out (world st) = (Ret op, wd)"
    and "\<not> sync" and "asyncOpWait s = 0"
  shows "createOperation s out sync timeout k st =
     k op (st\<lparr>world := wd, calls := calls st @ [CallNewOperation out]\<rparr>)"
  unfolding createOperation_def call_Ret [of "NewOperation (ops s) out" st op wd, OF assms(1)]
  using assms(2,3) by simp

lemma mutating_waited:
  assumes "Method req = ''DELETE'' \<and> length parts = 2 \<and>
       Delete stor (parts ! 1) (world st) = (Ret (Inr out), wd\<^sub>3) \<and>
       pre = [CallDelete (parts ! 1)]
     \<or> Method req = ''POST'' \<and> length parts = 1 \<and> readBody req = Inr body \<and>
       New stor (world st) = (Ret blank, wd\<^sub>1) \<and>
       DecodeInto (codec s) body blank wd\<^sub>1 = (Ret (Inr decoded), wd\<^sub>2) \<and>
       Create stor decoded wd\<^sub>2 = (Ret (Inr out), wd\<^sub>3) \<and>
       pre = [CallNew, CallDecodeInto body blank, CallCreate decoded]
     \<or> Method req = ''PUT'' \<and> length parts = 2 \<and> readBody req = Inr body \<and>
       New stor (world st) = (Ret blank, wd\<^sub>1) \<and>
       DecodeInto (codec s) body blank wd\<^sub>1 = (Ret (Inr decoded), wd\<^sub>2) \<and>
       Update stor decoded wd\<^sub>2 = (Ret (Inr out), wd\<^sub>3) \<and>
       pre = [CallNew, CallDecodeInto body blank, CallUpdate decoded]"
    and "NewOperation (ops s) out wd\<^sub>3 = (Ret op, wd\<^sub>4)"
    and "Query_Get (Query req) ''sync'' = ''true'' \<or> asyncOpWait s \<noteq> 0"
    and "WaitFor (ops s) op
           (if Query_Get (Query req) ''sync'' = ''true''
           then fst (parseTimeout I (Query_Get (Query req) ''timeout'') st)
           else asyncOpWait s) wd\<^sub>4 = (Ret (), wd\<^sub>5)"
  shows "handleRESTStorage fuel I s parts req stor st =
     finishReq fuel I s op
       ((snd (parseTimeout I (Query_Get (Query req) ''timeout'') st))
          \<lparr>world := wd\<^sub>5,
           calls := calls st @ pre @
             [CallNewOperation out,
              CallWaitFor op
                (if Query_Get (Query req) ''sync'' = ''true''
           then fst (parseTimeout I (Query_Get (Query req) ''timeout'') st)
           else asyncOpWait s)]\<rparr>)"
proof -
  let ?st = "(snd (parseTimeout I (Query_Get (Query req) ''timeout'') st))
          \<lparr>world := wd\<^sub>3, calls := calls st @ pre\<rparr>"
  have new: "NewOperation (ops s) out (world ?st) = (Ret op, wd\<^sub>4)"
    using assms(2) by simp
  show ?thesis
    unfolding reaches_registry [rule_format, OF assms(1)]
      createOperation_waited [OF new assms(3) assms(4)]
    by simp
qed

lemma mutating_unwaited:
  assumes "Method req = ''DELETE'' \<and> length parts = 2 \<and>
       Delete stor (parts ! 1) (world st) = (Ret (Inr out), wd\<^sub>3) \<and>
       pre = [CallDelete (parts ! 1)]
     \<or> Method req = ''POST'' \<and> length parts = 1 \<and> readBody req = Inr body \<and>
       New stor (world st) = (Ret blank, wd\<^sub>1) \<and>
       DecodeInto (codec s) body blank wd\<^sub>1 = (Ret (Inr decoded), wd\<^sub>2) \<and>
       Create stor decoded wd\<^sub>2 = (Ret (Inr out), wd\<^sub>3) \<and>
       pre = [CallNew, CallDecodeInto body blank, CallCreate decoded]
     \<or> Method req = ''PUT'' \<and> length parts = 2 \<and> readBody req = Inr body \<and>
       New stor (world st) = (Ret blank, wd\<^sub>1) \<and>
       DecodeInto (codec s) body blank wd\<^sub>1 = (Ret (Inr decoded), wd\<^sub>2) \<and>
       Update stor decoded wd\<^sub>2 = (Ret (Inr out), wd\<^sub>3) \<and>
       pre = [CallNew, CallDecodeInto body blank, CallUpdate decoded]"
    and "NewOperation (ops s) out wd\<^sub>3 = (Ret op, wd\<^sub>4)"
    and "Query_Get (Query req) ''sync'' \<noteq> ''true''" and "asyncOpWait s = 0"
  shows "handleRESTStorage fuel I s parts req stor st =
     finishReq fuel I s op
       ((snd (parseTimeout I (Query_Get (Query req) ''timeout'') st))
          \<lparr>world := wd\<^sub>4, calls := calls st @ pre @ [CallNewOperation out]\<rparr>)"
proof -
  let ?st = "(snd (parseTimeout I (Query_Get (Query req) ''timeout'') st))
          \<lparr>world := wd\<^sub>3, calls := calls st @ pre\<rparr>"
  have new: "NewOperation (ops s) out (world ?st) = (Ret op, wd\<^sub>4)"
    using assms(2) by simp
  show ?thesis
    unfolding reaches_registry [rule_format, OF assms(1)]
      createOperation_unwaited [OF new assms(3) assms(4)]
    by simp
qed

lemma wait_waited:
  "NewOperation (ops s) out (world st) = (Ret op, wd) \<and> (sync \<or> asyncOpWait s \<noteq> 0) \<and>
      WaitFor (ops s) op (if sync then timeout else asyncOpWait s) wd = (Ret (), wd') \<longrightarrow>
      createOperation s out sync timeout k st =
        k op (st\<lparr>world := wd',
                 calls := calls st @
                   [CallNewOperation out,
                    CallWaitFor op (if sync then timeout else asyncOpWait s)]\<rparr>)"
  by (intro impI, elim conjE) (rule createOperation_waited)

lemma wait_unwaited:
  "NewOperation (ops s) out (world st) = (Ret op, wd) \<and> \<not> sync \<and> asyncOpWait s = 0 \<longrightarrow>
      createOperation s out sync timeout k st =
        k op (st\<lparr>world := wd, calls := calls st @ [CallNewOperation out]\<rparr>)"
  by (intro impI, elim conjE) (rule createOperation_unwaited)

lemma wait_waited_New:
  "NewOperation NewOperations out (world st) = (Ret op, wd) \<and>
      WaitFor NewOperations op (if sync then timeout else 25000000) wd = (Ret (), wd') \<longrightarrow>
      createOperation (apiserver_New fuel I m cdc NewOperations mux) out sync timeout k st =
        k op (st\<lparr>world := wd',
                 calls := calls st @
                   [CallNewOperation out,
                    CallWaitFor op (if sync then timeout else 25000000)]\<rparr>)"
proof (intro impI, elim conjE)
  let ?s = "apiserver_New fuel I m cdc NewOperations mux"
  assume "NewOperation NewOperations out (world st) = (Ret op, wd)"
    and "WaitFor NewOperations op (if sync then timeout else 25000000) wd = (Ret (), wd')"
  then have "NewOperation (ops ?s) out (world st) = (Ret op, wd)"
    and "sync \<or> asyncOpWait ?s \<noteq> 0"
    and "WaitFor (ops ?s) op (if sync then timeout else asyncOpWait ?s) wd = (Ret (), wd')"
    by (auto simp: ops_New asyncOpWait_New Millisecond_def split: if_splits)
  then have "createOperation ?s out sync timeout k st =
     k op (st\<lparr>world := wd',
              calls := calls st @
                [CallNewOperation out,
                 CallWaitFor op (if sync then timeout else asyncOpWait ?s)]\<rparr>)"
    by (rule createOperation_waited)
  then show "createOperation ?s out sync timeout k st =
        k op (st\<lparr>world := wd',
                 calls := calls st @
                   [CallNewOperation out,
                    CallWaitFor op (if sync then timeout else 25000000)]\<rparr>)"
    by (simp add: asyncOpWait_New Millisecond_def)
qed

lemma wait_dispatcher_waited:
  "(Method req = ''DELETE'' \<and> length parts = 2 \<and>
       Delete stor (parts ! 1) (world st) = (Ret (Inr out), wd\<^sub>3) \<and>
       pre = [CallDelete (parts ! 1)]
     \<or> Method req = ''POST'' \<and> length parts = 1 \<and> readBody req = Inr body \<and>
       New stor (world st) = (Ret blank, wd\<^sub>1) \<and>
       DecodeInto (codec s) body blank wd\<^sub>1 = (Ret (Inr decoded), wd\<^sub>2) \<and>
       Create stor decoded wd\<^sub>2 = (Ret (Inr out), wd\<^sub>3) \<and>
       pre = [CallNew, CallDecodeInto body blank, CallCreate decoded]
     \<or> Method req = ''PUT'' \<and> length parts = 2 \<and> readBody req = Inr body \<and>
       New stor (world st) = (Ret blank, wd\<^sub>1) \<and>
       DecodeInto (codec s) body blank wd\<^sub>1 = (Ret (Inr decoded), wd\<^sub>2) \<and>
       Update stor decoded wd\<^sub>2 = (Ret (Inr out), wd\<^sub>3) \<and>
       pre = [CallNew, CallDecodeInto body blank, CallUpdate decoded]) \<and>
      NewOperation (ops s) out wd\<^sub>3 = (Ret op, wd\<^sub>4) \<and>
      (Query_Get (Query req) ''sync'' = ''true'' \<or> asyncOpWait s \<noteq> 0) \<and>
      WaitFor (ops s) op
        (if Query_Get (Query req) ''sync'' = ''true''
           then fst (parseTimeout I (Query_Get (Query req) ''timeout'') st)
           else asyncOpWait s) wd\<^sub>4 = (Ret (), wd\<^sub>5) \<longrightarrow>
      handleRESTStorage fuel I s parts req stor st =
        finishReq fuel I s op
          ((snd (parseTimeout I (Query_Get (Query req) ''timeout'') st))
             \<lparr>world := wd\<^sub>5,
              calls := calls st @ pre @
                [CallNewOperation out,
                 CallWaitFor op
                   (if Query_Get (Query req) ''sync'' = ''true''
           then fst (parseTimeout I (Query_Get (Query req) ''timeout'') st)
           else asyncOpWait s)]\<rparr>)"
  by (intro impI, elim conjE) (rule mutating_waited)

lemma wait_dispatcher_unwaited:
  "(Method req = ''DELETE'' \<and> length parts = 2 \<and>
       Delete stor (parts ! 1) (world st) = (Ret (Inr out), wd\<^sub>3) \<and>
       pre = [CallDelete (parts ! 1)]
     \<or> Method req = ''POST'' \<and> length parts = 1 \<and> readBody req = Inr body \<and>
       New stor (world st) = (Ret blank, wd\<^sub>1) \<and>
       DecodeInto (codec s) body blank wd\<^sub>1 = (Ret (Inr decoded), wd\<^sub>2) \<and>
       Create stor decoded wd\<^sub>2 = (Ret (Inr out), wd\<^sub>3) \<and>
       pre = [CallNew, CallDecodeInto body blank, CallCreate decoded]
     \<or> Method req = ''PUT'' \<and> length parts = 2 \<and> readBody req = Inr body \<and>
       New stor (world st) = (Ret blank, wd\<^sub>1) \<and>
       DecodeInto (codec s) body blank wd\<^sub>1 = (Ret (Inr decoded), wd\<^sub>2) \<and>
       Update stor decoded wd\<^sub>2 = (Ret (Inr out), wd\<^sub>3) \<and>
       pre = [CallNew, CallDecodeInto body blank, CallUpdate decoded]) \<and>
      NewOperation (ops s) out wd\<^sub>3 = (Ret op, wd\<^sub>4) \<and>
      Query_Get (Query req) ''sync'' \<noteq> ''true'' \<and> asyncOpWait s = 0 \<longrightarrow>
      handleRESTStorage fuel I s parts req stor st =
        finishReq fuel I s op
          ((snd (parseTimeout I (Query_Get (Query req) ''timeout'') st))
             \<lparr>world := wd\<^sub>4, calls := calls st @ pre @ [CallNewOperation out]\<rparr>)"
  by (intro impI, elim conjE) (rule mutating_unwaited)

lemma waits_logged:
  "(NewOperation (ops s) out (world st) = (Ret op, wd) \<longrightarrow>
      filter isWait (calls (snd (createOperation s out sync timeout (finishReq fuel I s) st))) =
        filter isWait (calls st) @
          (if sync then [CallWaitFor op timeout]
           else if asyncOpWait s \<noteq> 0 then [CallWaitFor op (asyncOpWait s)] else []))
   \<and> asyncOpWait (apiserver_New fuel I m cdc NewOperations mux) = 25 * Millisecond
   \<and> 25 * Millisecond = 25000000
   \<and> (NewOperation NewOperations out (world st) = (Ret op, wd) \<longrightarrow>
      filter isWait (calls (snd (createOperation
          (apiserver_New fuel I m cdc NewOperations mux) out sync timeout
          (finishReq fuel I (apiserver_New fuel I m cdc NewOperations mux)) st))) =
        filter isWait (calls st) @ [CallWaitFor op (if sync then timeout else 25000000)])
   \<and> (Method req = ''DELETE'' \<and> length parts = 2 \<and>
      Delete stor (parts ! 1) (world st) = (Ret (Inr out), wd) \<and>
      NewOperation (ops s) out wd = (Ret op, wd') \<longrightarrow>
      filter isWait (calls (snd (handleRESTStorage fuel I s parts req stor st))) =
        filter isWait (calls st) @
          (if Query_Get (Query req) ''sync'' = ''true''
           then [CallWaitFor op (fst (parseTimeout I (Query_Get (Query req) ''timeout'') st))]
           else if asyncOpWait s \<noteq> 0 then [CallWaitFor op (asyncOpWait s)] else []))
   \<and> (Method req = ''POST'' \<and> length parts = 1 \<and> readBody req = Inr body \<and>
      New stor (world st) = (Ret blank, wd\<^sub>1) \<and>
      DecodeInto (codec s) body blank wd\<^sub>1 = (Ret (Inr decoded), wd\<^sub>2) \<and>
      Create stor decoded wd\<^sub>2 = (Ret (Inr out), wd) \<and>
      NewOperation (ops s) out wd = (Ret op, wd') \<longrightarrow>
      filter isWait (calls (snd (handleRESTStorage fuel I s parts req stor st))) =
        filter isWait (calls st) @
          (if Query_Get (Query req) ''sync'' = ''true''
           then [CallWaitFor op (fst (parseTimeout I (Query_Get (Query req) ''timeout'') st))]
           else if asyncOpWait s \<noteq> 0 then [CallWaitFor op (asyncOpWait s)] else []))
   \<and> (Method req = ''PUT'' \<and> length parts = 2 \<and> readBody req = Inr body \<and>
      New stor (world st) = (Ret blank, wd\<^sub>1) \<and>
      DecodeInto (codec s) body blank wd\<^sub>1 = (Ret (Inr decoded), wd\<^sub>2) \<and>
      Update stor decoded wd\<^sub>2 = (Ret (Inr out), wd) \<and>
      NewOperation (ops s) out wd = (Ret op, wd') \<longrightarrow>
      filter isWait (calls (snd (handleRESTStorage fuel I s parts req stor st))) =
        filter isWait (calls st) @
          (if Query_Get (Query req) ''sync'' = ''true''
           then [CallWaitFor op (fst (parseTimeout I (Query_Get (Query req) ''timeout'') st))]
           else if asyncOpWait s \<noteq> 0 then [CallWaitFor op (asyncOpWait s)] else []))"
proof (intro conjI impI)
  assume "NewOperation (ops s) out (world st) = (Ret op, wd)"
  then show "filter isWait
      (calls (snd (createOperation s out sync timeout (finishReq fuel I s) st))) =
        filter isWait (calls st) @
          (if sync then [CallWaitFor op timeout]
           else if asyncOpWait s \<noteq> 0 then [CallWaitFor op (asyncOpWait s)] else [])"
    by (rule createOperation_waits)
next
  show "asyncOpWait (apiserver_New fuel I m cdc NewOperations mux) = 25 * Millisecond"
    by (rule asyncOpWait_New)
  show "25 * Millisecond = 25000000"
    by (simp add: Millisecond_def)
next
  let ?s = "apiserver_New fuel I m cdc NewOperations mux"
  assume "NewOperation NewOperations out (world st) = (Ret op, wd)"
  then have "NewOperation (ops ?s) out (world st) = (Ret op, wd)"
    by (simp only: ops_New)
  then have "filter isWait
      (calls (snd (createOperation ?s out sync timeout (finishReq fuel I ?s) st))) =
        filter isWait (calls st) @
          (if sync then [CallWaitFor op timeout]
           else if asyncOpWait ?s \<noteq> 0 then [CallWaitFor op (asyncOpWait ?s)] else [])"
    by (rule createOperation_waits)
  then show "filter isWait
      (calls (snd (createOperation ?s out sync timeout (finishReq fuel I ?s) st))) =
        filter isWait (calls st) @ [CallWaitFor op (if sync then timeout else 25000000)]"
    by (simp add: asyncOpWait_New Millisecond_def)
next
  assume "Method req = ''DELETE'' \<and> length parts = 2 \<and>
      Delete stor (parts ! 1) (world st) = (Ret (Inr out), wd) \<and>
      NewOperation (ops s) out wd = (Ret op, wd')"
  then show "filter isWait (calls (snd (handleRESTStorage fuel I s parts req stor st))) =
        filter isWait (calls st) @
          (if Query_Get (Query req) ''sync'' = ''true''
           then [CallWaitFor op (fst (parseTimeout I (Query_Get (Query req) ''timeout'') st))]
           else if asyncOpWait s \<noteq> 0 then [CallWaitFor op (asyncOpWait s)] else [])"
    by (blast intro: delete_waits)
next
  assume "Method req = ''POST'' \<and> length parts = 1 \<and> readBody req = Inr body \<and>
      New stor (world st) = (Ret blank, wd\<^sub>1) \<and>
      DecodeInto (codec s) body blank wd\<^sub>1 = (Ret (Inr decoded), wd\<^sub>2) \<and>
      Create stor decoded wd\<^sub>2 = (Ret (Inr out), wd) \<and>
      NewOperation (ops s) out wd = (Ret op, wd')"
  then show "filter isWait (calls (snd (handleRESTStorage fuel I s parts req stor st))) =
        filter isWait (calls st) @
          (if Query_Get (Query req) ''sync'' = ''true''
           then [CallWaitFor op (fst (parseTimeout I (Query_Get (Query req) ''timeout'') st))]
           else if asyncOpWait s \<noteq> 0 then [CallWaitFor op (asyncOpWait s)] else [])"
    by (blast intro: create_waits)
next
  assume "Method req = ''PUT'' \<and> length parts = 2 \<and> readBody req = Inr body \<and>
      New stor (world st) = (Ret blank, wd\<^sub>1) \<and>
      DecodeInto (codec s) body blank wd\<^sub>1 = (Ret (Inr decoded), wd\<^sub>2) \<and>
      Update stor decoded wd\<^sub>2 = (Ret (Inr out), wd) \<and>
      NewOperation (ops s) out wd = (Ret op, wd')"
  then show "filter isWait (calls (snd (handleRESTStorage fuel I s parts req stor st))) =
        filter isWait (calls st) @
          (if Query_Get (Query req) ''sync'' = ''true''
           then [CallWaitFor op (fst (parseTimeout I (Query_Get (Query req) ''timeout'') st))]
           else if asyncOpWait s \<noteq> 0 then [CallWaitFor op (asyncOpWait s)] else [])"
    by (blast intro: update_waits)
qed

text \<open>
  C3. The bound on the wait. Once the deferred result is registered as an operation,
  \<open>createOperation\<close> waits on that operation once: for the timeout it is given when
  \<open>sync\<close> holds, and otherwise for the server's \<open>asyncOpWait\<close> (no wait at all when
  that interval is zero). \<open>New\<close> sets \<open>asyncOpWait\<close> to 25 milliseconds, so a server
  made by \<open>New\<close> waits for the timeout when \<open>sync\<close> holds and for 25 milliseconds
  otherwise. In each mutating request (DELETE, POST, PUT) that reaches the registry, the
  timeout given is the parsed \<open>timeout\<close> parameter and \<open>sync\<close> is whether the
  \<open>sync\<close> parameter is \<open>true\<close>.

  The wait is applied to the world, between making the operation and asking it: the
  operation is made in the world that the backend left, \<open>WaitFor\<close> runs in the world
  that making it left, and the rest of the handler (for the dispatcher, \<open>finishReq\<close>,
  which asks the operation for its status or result) runs in the world that the wait
  left, after exactly the calls listed, in that order.
\<close>

theorem wait_bound:
  "((NewOperation (ops s) out (world st) = (Ret op, wd) \<longrightarrow>
      filter isWait (calls (snd (createOperation s out sync timeout (finishReq fuel I s) st))) =
        filter isWait (calls st) @
          (if sync then [CallWaitFor op timeout]
           else if asyncOpWait s \<noteq> 0 then [CallWaitFor op (asyncOpWait s)] else []))
   \<and> asyncOpWait (apiserver_New fuel I m cdc NewOperations mux) = 25 * Millisecond
   \<and> 25 * Millisecond = 25000000
   \<and> (NewOperation NewOperations out (world st) = (Ret op, wd) \<longrightarrow>
      filter isWait (calls (snd (createOperation
          (apiserver_New fuel I m cdc NewOperations mux) out sync timeout
          (finishReq fuel I (apiserver_New fuel I m cdc NewOperations mux)) st))) =
        filter isWait (calls st) @ [CallWaitFor op (if sync then timeout else 25000000)])
   \<and> (Method req = ''DELETE'' \<and> length parts = 2 \<and>
      Delete stor (parts ! 1) (world st) = (Ret (Inr out), wd) \<and>
      NewOperation (ops s) out wd = (Ret op, wd') \<longrightarrow>
      filter isWait (calls (snd (handleRESTStorage fuel I s parts req stor st))) =
        filter isWait (calls st) @
          (if Query_Get (Query req) ''sync'' = ''true''
           then [CallWaitFor op (fst (parseTimeout I (Query_Get (Query req) ''timeout'') st))]
           else if asyncOpWait s \<noteq> 0 then [CallWaitFor op (asyncOpWait s)] else []))
   \<and> (Method req = ''POST'' \<and> length parts = 1 \<and> readBody req = Inr body \<and>
      New stor (world st) = (Ret blank, wd\<^sub>1) \<and>
      DecodeInto (codec s) body blank wd\<^sub>1 = (Ret (Inr decoded), wd\<^sub>2) \<and>
      Create stor decoded wd\<^sub>2 = (Ret (Inr out), wd) \<and>
      NewOperation (ops s) out wd = (Ret op, wd') \<longrightarrow>
      filter isWait (calls (snd (handleRESTStorage fuel I s parts req stor st))) =
        filter isWait (calls st) @
          (if Query_Get (Query req) ''sync'' = ''true''
           then [CallWaitFor op (fst (parseTimeout I (Query_Get (Query req) ''timeout'') st))]
           else if asyncOpWait s \<noteq> 0 then [CallWaitFor op (asyncOpWait s)] else []))
   \<and> (Method req = ''PUT'' \<and> length parts = 2 \<and> readBody req = Inr body \<and>
      New stor (world st) = (Ret blank, wd\<^sub>1) \<and>
      DecodeInto (codec s) body blank wd\<^sub>1 = (Ret (Inr decoded), wd\<^sub>2) \<and>
      Update stor decoded wd\<^sub>2 = (Ret (Inr out), wd) \<and>
      NewOperation (ops s) out wd = (Ret op, wd') \<longrightarrow>
      filter isWait (calls (snd (handleRESTStorage fuel I s parts req stor st))) =
        filter isWait (calls st) @
          (if Query_Get (Query req) ''sync'' = ''true''
           then [CallWaitFor op (fst (parseTimeout I (Query_Get (Query req) ''timeout'') st))]
           else if asyncOpWait s \<noteq> 0 then [CallWaitFor op (asyncOpWait s)] else [])))
   \<and> (NewOperation (ops s) out (world st) = (Ret op, wd) \<and> (sync \<or> asyncOpWait s \<noteq> 0) \<and>
      WaitFor (ops s) op (if sync then timeout else asyncOpWait s) wd = (Ret (), wd') \<longrightarrow>
      createOperation s out sync timeout k st =
        k op (st\<lparr>world := wd',
                 calls := calls st @
                   [CallNewOperation out,
                    CallWaitFor op (if sync then timeout else asyncOpWait s)]\<rparr>))
   \<and> (NewOperation (ops s) out (world st) = (Ret op, wd) \<and> \<not> sync \<and> asyncOpWait s = 0 \<longrightarrow>
      createOperation s out sync timeout k st =
        k op (st\<lparr>world := wd, calls := calls st @ [CallNewOperation out]\<rparr>))
   \<and> (NewOperation NewOperations out (world st) = (Ret op, wd) \<and>
      WaitFor NewOperations op (if sync then timeout else 25000000) wd = (Ret (), wd') \<longrightarrow>
      createOperation (apiserver_New fuel I m cdc NewOperations mux) out sync timeout k st =
        k op (st\<lparr>world := wd',
                 calls := calls st @
                   [CallNewOperation out,
                    CallWaitFor op (if sync then timeout else 25000000)]\<rparr>))
   \<and> ((Method req = ''DELETE'' \<and> length parts = 2 \<and>
       Delete stor (parts ! 1) (world st) = (Ret (Inr out), wd\<^sub>3) \<and>
       pre = [CallDelete (parts ! 1)]
     \<or> Method req = ''POST'' \<and> length parts = 1 \<and> readBody req = Inr body \<and>
       New stor (world st) = (Ret blank, wd\<^sub>1) \<and>
       DecodeInto (codec s) body blank wd\<^sub>1 = (Ret (Inr decoded), wd\<^sub>2) \<and>
       Create stor decoded wd\<^sub>2 = (Ret (Inr out), wd\<^sub>3) \<and>
       pre = [CallNew, CallDecodeInto body blank, CallCreate decoded]
     \<or> Method req = ''PUT'' \<and> length parts = 2 \<and> readBody req = Inr body \<and>
       New stor (world st) = (Ret blank, wd\<^sub>1) \<and>
       DecodeInto (codec s) body blank wd\<^sub>1 = (Ret (Inr decoded), wd\<^sub>2) \<and>
       Update stor decoded wd\<^sub>2 = (Ret (Inr out), wd\<^sub>3) \<and>
       pre = [CallNew, CallDecodeInto body blank, CallUpdate decoded]) \<and>
      NewOperation (ops s) out wd\<^sub>3 = (Ret op, wd\<^sub>4) \<and>
      (Query_Get (Query req) ''sync'' = ''true'' \<or> asyncOpWait s \<noteq> 0) \<and>
      WaitFor (ops s) op
        (if Query_Get (Query req) ''sync'' = ''true''
           then fst (parseTimeout I (Query_Get (Query req) ''timeout'') st)
           else asyncOpWait s) wd\<^sub>4 = (Ret (), wd\<^sub>5) \<longrightarrow>
      handleRESTStorage fuel I s parts req stor st =
        finishReq fuel I s op
          ((snd (parseTimeout I (Query_Get (Query req) ''timeout'') st))
             \<lparr>world := wd\<^sub>5,
              calls := calls st @ pre @
                [CallNewOperation out,
                 CallWaitFor op
                   (if Query_Get (Query req) ''sync'' = ''true''
           then fst (parseTimeout I (Query_Get (Query req) ''timeout'') st)
           else asyncOpWait s)]\<rparr>))
   \<and> ((Method req = ''DELETE'' \<and> length parts = 2 \<and>
       Delete stor (parts ! 1) (world st) = (Ret (Inr out), wd\<^sub>3) \<and>
       pre = [CallDelete (parts ! 1)]
     \<or> Method req = ''POST'' \<and> length parts = 1 \<and> readBody req = Inr body \<and>
       New stor (world st) = (Ret blank, wd\<^sub>1) \<and>
       DecodeInto (codec s) body blank wd\<^sub>1 = (Ret (Inr decoded), wd\<^sub>2) \<and>
       Create stor decoded wd\<^sub>2 = (Ret (Inr out), wd\<^sub>3) \<and>
       pre = [CallNew, CallDecodeInto body blank, CallCreate decoded]
     \<or> Method req = ''PUT'' \<and> length parts = 2 \<and> readBody req = Inr body \<and>
       New stor (world st) = (Ret blank, wd\<^sub>1) \<and>
       DecodeInto (codec s) body blank wd\<^sub>1 = (Ret (Inr decoded), wd\<^sub>2) \<and>
       Update stor decoded wd\<^sub>2 = (Ret (Inr out), wd\<^sub>3) \<and>
       pre = [CallNew, CallDecodeInto body blank, CallUpdate decoded]) \<and>
      NewOperation (ops s) out wd\<^sub>3 = (Ret op, wd\<^sub>4) \<and>
      Query_Get (Query req) ''sync'' \<noteq> ''true'' \<and> asyncOpWait s = 0 \<longrightarrow>
      handleRESTStorage fuel I s parts req stor st =
        finishReq fuel I s op
          ((snd (parseTimeout I (Query_Get (Query req) ''timeout'') st))
             \<lparr>world := wd\<^sub>4, calls := calls st @ pre @ [CallNewOperation out]\<rparr>))"
  by (rule conjI [OF waits_logged])
    (intro conjI; rule wait_waited wait_unwaited wait_waited_New wait_dispatcher_waited
      wait_dispatcher_unwaited)

theorem wait_bound_witness:
  "(NewOperation (ops exServer) (Chan 0) (world exState) = (Ret (Operation ''1''), 0)
   \<and> filter isWait (calls (snd (createOperation exServer (Chan 0) False 50000000
        (finishReq 2 exImports exServer) exState))) = [CallWaitFor (Operation ''1'') 25000000]
   \<and> filter isWait (calls (snd (createOperation exServer (Chan 0) True 50000000
        (finishReq 2 exImports exServer) exState))) = [CallWaitFor (Operation ''1'') 50000000]
   \<and> filter isWait (calls (snd (createOperation
        (apiserver_New 2 exImports [''pods'' \<mapsto> exStorage] exCodec exOps (\<lambda>h. h))
        (Chan 0) False 50000000
        (finishReq 2 exImports
           (apiserver_New 2 exImports [''pods'' \<mapsto> exStorage] exCodec exOps
               (\<lambda>h. h)))
        exState))) = [CallWaitFor (Operation ''1'') 25000000]
   \<and> filter isWait (calls (snd (handleRESTStorage 2 exImports exServer [''pods'', ''a'']
        (exRequest ''DELETE'' ''/pods/a'' [(''sync'', ''true''), (''timeout'', ''50ms'')] [])
        exStorage exState))) = [CallWaitFor (Operation ''1'') 50000000]
   \<and> filter isWait (calls (snd (handleRESTStorage 2 exImports exServer [''pods'']
        (exRequest ''POST'' ''/pods'' [(''sync'', ''true''), (''timeout'', ''5ms'')] ''{}'')
        exStorage exState))) = [CallWaitFor (Operation ''1'') 5000000]
   \<and> filter isWait (calls (snd (handleRESTStorage 2 exImports exServer [''pods'', ''a'']
        (exRequest ''PUT'' ''/pods/a'' [(''timeout'', ''5ms'')] ''{}'')
        exStorage exState))) = [CallWaitFor (Operation ''1'') 25000000])
   \<and> createOperation exServer (Chan 0) True 50000000 (finishReq 2 exImports exServer)
       exState =
      (Returned,
       exState\<lparr>world := 50000000,
          calls := [CallNewOperation (Chan 0), CallWaitFor (Operation ''1'') 50000000,
              CallStatusOrResult (Operation ''1''), CallEncode (Object ''done'')],
          writer := [HeaderSet ''Content-Type'' ''application/json'', WriteHeader 200,
              Write ''done'']\<rparr>)
   \<and> createOperation exServer (Chan 0) True 5000000 (finishReq 2 exImports exServer)
       exState =
      (Returned,
       exState\<lparr>world := 5000000,
          calls := [CallNewOperation (Chan 0), CallWaitFor (Operation ''1'') 5000000,
              CallStatusOrResult (Operation ''1''),
              CallEncode (StatusVal \<lparr>Code = 0, Details = ''1''\<rparr>)],
          writer := [HeaderSet ''Content-Type'' ''application/json'', WriteHeader 202,
              Write ''1'']\<rparr>)
   \<and> createOperation (exServer\<lparr>asyncOpWait := 0\<rparr>) (Chan 0) False 50000000
       (finishReq 2 exImports (exServer\<lparr>asyncOpWait := 0\<rparr>)) exState =
      (Returned,
       exState\<lparr>world := 0,
          calls := [CallNewOperation (Chan 0), CallStatusOrResult (Operation ''1''),
              CallEncode (StatusVal \<lparr>Code = 0, Details = ''1''\<rparr>)],
          writer := [HeaderSet ''Content-Type'' ''application/json'', WriteHeader 202,
              Write ''1'']\<rparr>)
   \<and> createOperation
       (apiserver_New 2 exImports [''pods'' \<mapsto> exStorage] exCodec exOps (\<lambda>h. h))
       (Chan 0) False 50000000
       (finishReq 2 exImports
       (apiserver_New 2 exImports [''pods'' \<mapsto> exStorage] exCodec exOps (\<lambda>h. h)))
       exState =
      (Returned,
       exState\<lparr>world := 25000000,
          calls := [CallNewOperation (Chan 0), CallWaitFor (Operation ''1'') 25000000,
              CallStatusOrResult (Operation ''1''), CallEncode (Object ''done'')],
          writer := [HeaderSet ''Content-Type'' ''application/json'', WriteHeader 200,
              Write ''done'']\<rparr>)
   \<and> handleRESTStorage 2 exImports exServer [''pods'', ''a'']
       (exRequest ''DELETE'' ''/pods/a'' [(''sync'', ''true''), (''timeout'', ''50ms'')] [])
       exStorage exState =
      (Returned,
       exState\<lparr>world := 50000000,
          calls := [CallDelete ''a'', CallNewOperation (Chan 0),
              CallWaitFor (Operation ''1'') 50000000, CallStatusOrResult (Operation ''1''),
              CallEncode (Object ''done'')],
          writer := [HeaderSet ''Content-Type'' ''application/json'', WriteHeader 200,
              Write ''done'']\<rparr>)
   \<and> handleRESTStorage 2 exImports exServer [''pods'']
       (exRequest ''POST'' ''/pods'' [(''sync'', ''true''), (''timeout'', ''5ms'')] ''{}'')
       exStorage exState =
      (Returned,
       exState\<lparr>world := 5000000,
          calls := [CallNew, CallDecodeInto ''{}'' (Object []), CallCreate (Object ''{}''),
              CallNewOperation (Chan 1), CallWaitFor (Operation ''1'') 5000000,
              CallStatusOrResult (Operation ''1''),
              CallEncode (StatusVal \<lparr>Code = 0, Details = ''1''\<rparr>)],
          writer := [HeaderSet ''Content-Type'' ''application/json'', WriteHeader 202,
              Write ''1'']\<rparr>)
   \<and> handleRESTStorage 2 exImports exServer [''pods'', ''a'']
       (exRequest ''PUT'' ''/pods/a'' [(''timeout'', ''5ms'')] ''{}'') exStorage exState =
      (Returned,
       exState\<lparr>world := 25000000,
          calls := [CallNew, CallDecodeInto ''{}'' (Object []), CallUpdate (Object ''{}''),
              CallNewOperation (Chan 2), CallWaitFor (Operation ''1'') 25000000,
              CallStatusOrResult (Operation ''1''), CallEncode (Object ''done'')],
          writer := [HeaderSet ''Content-Type'' ''application/json'', WriteHeader 200,
              Write ''done'']\<rparr>)
   \<and> handleRESTStorage 2 exImports (exServer\<lparr>asyncOpWait := 0\<rparr>)
       [''pods'', ''a''] (exRequest ''DELETE'' ''/pods/a'' [(''timeout'', ''50ms'')] [])
       exStorage exState =
      (Returned,
       exState\<lparr>world := 0,
          calls := [CallDelete ''a'', CallNewOperation (Chan 0),
              CallStatusOrResult (Operation ''1''),
              CallEncode (StatusVal \<lparr>Code = 0, Details = ''1''\<rparr>)],
          writer := [HeaderSet ''Content-Type'' ''application/json'', WriteHeader 202,
              Write ''1'']\<rparr>)"
proof -
  let ?delete =
      "exRequest ''DELETE'' ''/pods/a'' [(''sync'', ''true''), (''timeout'', ''50ms'')] []"
  let ?post = "exRequest ''POST'' ''/pods'' [(''sync'', ''true''), (''timeout'', ''5ms'')]
      ''{}''"
  let ?put = "exRequest ''PUT'' ''/pods/a'' [(''timeout'', ''5ms'')] ''{}''"
  have new: "NewOperation (ops exServer) (Chan 0) (world exState) = (Ret (Operation ''1''), 0)"
    by (simp add: ex_defs)
  have new': "NewOperation exOps (Chan 0) (world exState) = (Ret (Operation ''1''), 0)"
    by (simp add: ex_defs)
  have delete:
    "Method ?delete = ''DELETE'' \<and> length [''pods'', ''a''] = 2 \<and>
     Delete exStorage ([''pods'', ''a''] ! 1) (world exState) = (Ret (Inr (Chan 0)), 0) \<and>
     NewOperation (ops exServer) (Chan 0) 0 = (Ret (Operation ''1''), 0)"
    by (simp add: ex_defs)
  have post:
    "Method ?post = ''POST'' \<and> length [''pods''] = 1 \<and> readBody ?post =
        Inr ''{}'' \<and>
     New exStorage (world exState) = (Ret (Object []), 0) \<and>
     DecodeInto (codec exServer) ''{}'' (Object []) 0 = (Ret (Inr (Object ''{}'')), 0) \<and>
     Create exStorage (Object ''{}'') 0 = (Ret (Inr (Chan 1)), 0) \<and>
     NewOperation (ops exServer) (Chan 1) 0 = (Ret (Operation ''1''), 0)"
    by (simp add: ex_defs readBody_def)
  have put:
    "Method ?put = ''PUT'' \<and> length [''pods'', ''a''] = 2 \<and> readBody ?put =
        Inr ''{}'' \<and>
     New exStorage (world exState) = (Ret (Object []), 0) \<and>
     DecodeInto (codec exServer) ''{}'' (Object []) 0 = (Ret (Inr (Object ''{}'')), 0) \<and>
     Update exStorage (Object ''{}'') 0 = (Ret (Inr (Chan 2)), 0) \<and>
     NewOperation (ops exServer) (Chan 2) 0 = (Ret (Operation ''1''), 0)"
    by (simp add: ex_defs readBody_def)
  have st0: "calls exState = []"
    by (simp add: exState_def)
  have q: "Query_Get (Query ?delete) ''sync'' = ''true''"
    "fst (parseTimeout exImports (Query_Get (Query ?delete) ''timeout'') exState) = 50000000"
    "Query_Get (Query ?post) ''sync'' = ''true''"
    "fst (parseTimeout exImports (Query_Get (Query ?post) ''timeout'') exState) = 5000000"
    "Query_Get (Query ?put) ''sync'' \<noteq> ''true''"
    by (simp_all add: exRequest_def Query_Get_def parseTimeout_def exImports_def
        Millisecond_def)
  note r = wait_bound [where st = exState and op = "Operation ''1''" and fuel = 2
      and I = exImports]
  note r1 = r [where s = exServer and out = "Chan 0" and wd = 0 and sync = False
      and timeout = 50000000,
      THEN conjunct1, THEN conjunct1, rule_format, OF new]
  note r2 = r [where s = exServer and out = "Chan 0" and wd = 0 and sync = True
      and timeout = 50000000,
      THEN conjunct1, THEN conjunct1, rule_format, OF new]
  note r3 = r [where NewOperations = exOps and out = "Chan 0" and wd = 0 and sync = False
      and timeout = 50000000 and m = "[''pods'' \<mapsto> exStorage]" and cdc = exCodec
      and mux = "\<lambda>h. h",
      THEN conjunct1, THEN conjunct2, THEN conjunct2, THEN conjunct2, THEN conjunct1,
      rule_format, OF new']
  note r4 = r [where s = exServer and out = "Chan 0" and wd = 0 and wd' = 0
      and req = ?delete and parts = "[''pods'', ''a'']" and stor = exStorage,
      THEN conjunct1, THEN conjunct2, THEN conjunct2, THEN conjunct2, THEN conjunct2,
      THEN conjunct1, rule_format, OF delete]
  note r5 = r [where s = exServer and out = "Chan 1" and wd = 0 and wd' = 0
      and req = ?post and parts = "[''pods'']" and stor = exStorage and body = "''{}''"
      and blank = "Object []" and decoded = "Object ''{}''" and wd\<^sub>1 = 0 and wd\<^sub>2 =
          0,
      THEN conjunct1, THEN conjunct2, THEN conjunct2, THEN conjunct2, THEN conjunct2,
      THEN conjunct2, THEN conjunct1, rule_format, OF post]
  note r6 = r [where s = exServer and out = "Chan 2" and wd = 0 and wd' = 0
      and req = ?put and parts = "[''pods'', ''a'']" and stor = exStorage and body = "''{}''"
      and blank = "Object []" and decoded = "Object ''{}''" and wd\<^sub>1 = 0 and wd\<^sub>2 =
          0,
      THEN conjunct1, THEN conjunct2, THEN conjunct2, THEN conjunct2, THEN conjunct2,
      THEN conjunct2, THEN conjunct2, rule_format, OF put]
  from new r1 r2 r3 r4 r5 r6
  have logged: "NewOperation (ops exServer) (Chan 0) (world exState) =
      (Ret (Operation ''1''), 0)
   \<and> filter isWait (calls (snd (createOperation exServer (Chan 0) False 50000000
        (finishReq 2 exImports exServer) exState))) = [CallWaitFor (Operation ''1'') 25000000]
   \<and> filter isWait (calls (snd (createOperation exServer (Chan 0) True 50000000
        (finishReq 2 exImports exServer) exState))) = [CallWaitFor (Operation ''1'') 50000000]
   \<and> filter isWait (calls (snd (createOperation
        (apiserver_New 2 exImports [''pods'' \<mapsto> exStorage] exCodec exOps (\<lambda>h. h))
        (Chan 0) False 50000000
        (finishReq 2 exImports
           (apiserver_New 2 exImports [''pods'' \<mapsto> exStorage] exCodec exOps
               (\<lambda>h. h)))
        exState))) = [CallWaitFor (Operation ''1'') 25000000]
   \<and> filter isWait (calls (snd (handleRESTStorage 2 exImports exServer [''pods'', ''a'']
        (exRequest ''DELETE'' ''/pods/a'' [(''sync'', ''true''), (''timeout'', ''50ms'')] [])
        exStorage exState))) = [CallWaitFor (Operation ''1'') 50000000]
   \<and> filter isWait (calls (snd (handleRESTStorage 2 exImports exServer [''pods'']
        (exRequest ''POST'' ''/pods'' [(''sync'', ''true''), (''timeout'', ''5ms'')] ''{}'')
        exStorage exState))) = [CallWaitFor (Operation ''1'') 5000000]
   \<and> filter isWait (calls (snd (handleRESTStorage 2 exImports exServer [''pods'', ''a'']
        (exRequest ''PUT'' ''/pods/a'' [(''timeout'', ''5ms'')] ''{}'')
        exStorage exState))) = [CallWaitFor (Operation ''1'') 25000000]"
    by (simp add: st0 q exServer_fields)
  note run = exRequest_def exState_def exImports_def exStorage_def exOps_def exCodec_def
    Millisecond_def Second_def exServer_fields Query_Get_def parseTimeout_def call_def
    createOperation_def finishReq_def numeral_2_eq_2 apiserver_New_def
  have h1: "NewOperation (ops exServer) (Chan 0) (world exState) =
      (Ret (Operation ''1''), 0) \<and> (True \<or> asyncOpWait exServer \<noteq> 0) \<and>
      WaitFor (ops exServer) (Operation ''1'') (if True then 50000000 else asyncOpWait exServer)
          0 = (Ret (), 50000000)"
    by (simp add: run readBody_def)
  note n1 = wait_bound
      [where s = exServer and out = "Chan 0" and sync = True and timeout = 50000000
      and k = "finishReq 2 exImports exServer" and st = exState
      and op = "Operation ''1''" and wd = 0 and wd' = 50000000,
      THEN conjunct2, THEN conjunct1,
      rule_format, OF h1]
  have e1: "createOperation exServer (Chan 0) True 50000000 (finishReq 2 exImports exServer)
      exState =
      (Returned,
       exState\<lparr>world := 50000000,
          calls := [CallNewOperation (Chan 0), CallWaitFor (Operation ''1'') 50000000,
              CallStatusOrResult (Operation ''1''), CallEncode (Object ''done'')],
          writer := [HeaderSet ''Content-Type'' ''application/json'', WriteHeader 200,
              Write ''done'']\<rparr>)"
    unfolding n1 by (simp add: run)
  have h2: "NewOperation (ops exServer) (Chan 0) (world exState) =
      (Ret (Operation ''1''), 0) \<and> (True \<or> asyncOpWait exServer \<noteq> 0) \<and>
      WaitFor (ops exServer) (Operation ''1'') (if True then 5000000 else asyncOpWait exServer)
          0 = (Ret (), 5000000)"
    by (simp add: run readBody_def)
  note n2 = wait_bound
      [where s = exServer and out = "Chan 0" and sync = True and timeout = 5000000
      and k = "finishReq 2 exImports exServer" and st = exState
      and op = "Operation ''1''" and wd = 0 and wd' = 5000000,
      THEN conjunct2, THEN conjunct1,
      rule_format, OF h2]
  have e2: "createOperation exServer (Chan 0) True 5000000 (finishReq 2 exImports exServer)
      exState =
      (Returned,
       exState\<lparr>world := 5000000,
          calls := [CallNewOperation (Chan 0), CallWaitFor (Operation ''1'') 5000000,
              CallStatusOrResult (Operation ''1''),
              CallEncode (StatusVal \<lparr>Code = 0, Details = ''1''\<rparr>)],
          writer := [HeaderSet ''Content-Type'' ''application/json'', WriteHeader 202,
              Write ''1'']\<rparr>)"
    unfolding n2 by (simp add: run)
  have h3: "NewOperation (ops (exServer\<lparr>asyncOpWait := 0\<rparr>)) (Chan 0)
      (world exState) = (Ret (Operation ''1''), 0) \<and> \<not> False \<and>
      asyncOpWait (exServer\<lparr>asyncOpWait := 0\<rparr>) = 0"
    by (simp add: run readBody_def)
  note n3 = wait_bound [where s = "exServer\<lparr>asyncOpWait := 0\<rparr>" and out = "Chan 0"
      and sync = False and timeout = 50000000
      and k = "finishReq 2 exImports (exServer\<lparr>asyncOpWait := 0\<rparr>)"
      and st = exState and op = "Operation ''1''" and wd = 0,
      THEN conjunct2, THEN conjunct2, THEN conjunct1,
      rule_format, OF h3]
  have e3: "createOperation (exServer\<lparr>asyncOpWait := 0\<rparr>) (Chan 0) False 50000000
      (finishReq 2 exImports (exServer\<lparr>asyncOpWait := 0\<rparr>)) exState =
      (Returned,
       exState\<lparr>world := 0,
          calls := [CallNewOperation (Chan 0), CallStatusOrResult (Operation ''1''),
              CallEncode (StatusVal \<lparr>Code = 0, Details = ''1''\<rparr>)],
          writer := [HeaderSet ''Content-Type'' ''application/json'', WriteHeader 202,
              Write ''1'']\<rparr>)"
    unfolding n3 by (simp add: run)
  have h4: "NewOperation exOps (Chan 0) (world exState) = (Ret (Operation ''1''), 0) \<and>
      WaitFor exOps (Operation ''1'') (if False then 50000000 else 25000000) 0 =
          (Ret (), 25000000)"
    by (simp add: run readBody_def)
  note n4 = wait_bound [where NewOperations = exOps and fuel = 2 and I = exImports
      and m = "[''pods'' \<mapsto> exStorage]" and cdc = exCodec
      and mux = "\<lambda>h. h" and out = "Chan 0" and sync = False
      and timeout = 50000000
      and k = "finishReq 2 exImports
          (apiserver_New 2 exImports [''pods'' \<mapsto> exStorage] exCodec exOps
          (\<lambda>h. h))"
      and st = exState and op = "Operation ''1''" and wd = 0 and wd' = 25000000,
      THEN conjunct2, THEN conjunct2, THEN conjunct2, THEN conjunct1,
      rule_format, OF h4]
  have e4: "createOperation
      (apiserver_New 2 exImports [''pods'' \<mapsto> exStorage] exCodec exOps (\<lambda>h. h))
      (Chan 0) False 50000000
      (finishReq 2 exImports
      (apiserver_New 2 exImports [''pods'' \<mapsto> exStorage] exCodec exOps (\<lambda>h. h)))
      exState =
      (Returned,
       exState\<lparr>world := 25000000,
          calls := [CallNewOperation (Chan 0), CallWaitFor (Operation ''1'') 25000000,
              CallStatusOrResult (Operation ''1''), CallEncode (Object ''done'')],
          writer := [HeaderSet ''Content-Type'' ''application/json'', WriteHeader 200,
              Write ''done'']\<rparr>)"
    unfolding n4 by (simp add: run)
  have h5: "(Method
      (exRequest ''DELETE'' ''/pods/a'' [(''sync'', ''true''), (''timeout'', ''50ms'')] []) =
      ''DELETE'' \<and> length [''pods'', ''a''] = 2 \<and>
       Delete exStorage ([''pods'', ''a''] ! 1) (world exState) = (Ret (Inr (Chan 0)), 0) \<and>
       [CallDelete ''a''] = [CallDelete ([''pods'', ''a''] ! 1)]
     \<or> Method
         (exRequest ''DELETE'' ''/pods/a'' [(''sync'', ''true''), (''timeout'', ''50ms'')] []) =
         ''POST'' \<and> length [''pods'', ''a''] = 1 \<and>
         readBody (exRequest ''DELETE'' ''/pods/a''
         [(''sync'', ''true''), (''timeout'', ''50ms'')] []) = Inr ''{}'' \<and>
       New exStorage (world exState) = (Ret (Object []), 0) \<and>
       DecodeInto (codec exServer) ''{}'' (Object []) 0 = (Ret (Inr (Object ''{}'')), 0) \<and>
       Create exStorage (Object ''{}'') 0 = (Ret (Inr (Chan 0)), 0) \<and>
       [CallDelete ''a''] =
           [CallNew, CallDecodeInto ''{}'' (Object []), CallCreate (Object ''{}'')]
     \<or> Method
         (exRequest ''DELETE'' ''/pods/a'' [(''sync'', ''true''), (''timeout'', ''50ms'')] []) =
         ''PUT'' \<and> length [''pods'', ''a''] = 2 \<and>
         readBody (exRequest ''DELETE'' ''/pods/a''
         [(''sync'', ''true''), (''timeout'', ''50ms'')] []) = Inr ''{}'' \<and>
       New exStorage (world exState) = (Ret (Object []), 0) \<and>
       DecodeInto (codec exServer) ''{}'' (Object []) 0 = (Ret (Inr (Object ''{}'')), 0) \<and>
       Update exStorage (Object ''{}'') 0 = (Ret (Inr (Chan 0)), 0) \<and>
       [CallDelete ''a''] =
           [CallNew, CallDecodeInto ''{}'' (Object []), CallUpdate (Object ''{}'')]) \<and>
      NewOperation (ops exServer) (Chan 0) 0 = (Ret (Operation ''1''), 0) \<and>
      (Query_Get (Query
          (exRequest ''DELETE'' ''/pods/a'' [(''sync'', ''true''), (''timeout'', ''50ms'')] []))
          ''sync'' = ''true'' \<or> asyncOpWait exServer \<noteq> 0) \<and>
      WaitFor (ops exServer) (Operation ''1'')
        (if Query_Get
            (Query (exRequest ''DELETE'' ''/pods/a''
            [(''sync'', ''true''), (''timeout'', ''50ms'')] [])) ''sync'' = ''true''
           then fst (parseTimeout exImports
                       (Query_Get (Query
                       (exRequest ''DELETE'' ''/pods/a''
                       [(''sync'', ''true''), (''timeout'', ''50ms'')] [])) ''timeout'')
                       exState)
           else asyncOpWait exServer) 0 = (Ret (), 50000000)"
    by (simp add: run readBody_def)
  note n5 = wait_bound [where fuel = 2 and I = exImports and s = exServer and stor = exStorage
      and st = exState
      and req = "exRequest ''DELETE'' ''/pods/a''
          [(''sync'', ''true''), (''timeout'', ''50ms'')] []"
      and parts = "[''pods'', ''a'']" and out = "Chan 0"
      and pre = "[CallDelete ''a'']" and body = "''{}''" and blank = "Object []"
      and decoded = "Object ''{}''" and op = "Operation ''1''" and wd\<^sub>1 = 0
      and wd\<^sub>2 = 0 and wd\<^sub>3 = 0 and wd\<^sub>4 = 0
      and wd\<^sub>5 = 50000000,
      THEN conjunct2, THEN conjunct2, THEN conjunct2, THEN conjunct2, THEN conjunct1,
      rule_format, OF h5]
  have e5: "handleRESTStorage 2 exImports exServer [''pods'', ''a'']
      (exRequest ''DELETE'' ''/pods/a'' [(''sync'', ''true''), (''timeout'', ''50ms'')] [])
      exStorage exState =
      (Returned,
       exState\<lparr>world := 50000000,
          calls := [CallDelete ''a'', CallNewOperation (Chan 0),
              CallWaitFor (Operation ''1'') 50000000, CallStatusOrResult (Operation ''1''),
              CallEncode (Object ''done'')],
          writer := [HeaderSet ''Content-Type'' ''application/json'', WriteHeader 200,
              Write ''done'']\<rparr>)"
    unfolding n5 by (simp add: run)
  have h6: "(Method
      (exRequest ''POST'' ''/pods'' [(''sync'', ''true''), (''timeout'', ''5ms'')] ''{}'') =
      ''DELETE'' \<and> length [''pods''] = 2 \<and>
       Delete exStorage ([''pods''] ! 1) (world exState) = (Ret (Inr (Chan 1)), 0) \<and>
       ([CallNew, CallDecodeInto ''{}'' (Object []), CallCreate (Object ''{}'')]) =
           [CallDelete ([''pods''] ! 1)]
     \<or> Method
         (exRequest ''POST'' ''/pods'' [(''sync'', ''true''), (''timeout'', ''5ms'')] ''{}'') =
         ''POST'' \<and> length [''pods''] = 1 \<and>
         readBody (exRequest ''POST'' ''/pods'' [(''sync'', ''true''), (''timeout'', ''5ms'')]
         ''{}'') = Inr ''{}'' \<and>
       New exStorage (world exState) = (Ret (Object []), 0) \<and>
       DecodeInto (codec exServer) ''{}'' (Object []) 0 = (Ret (Inr (Object ''{}'')), 0) \<and>
       Create exStorage (Object ''{}'') 0 = (Ret (Inr (Chan 1)), 0) \<and>
       ([CallNew, CallDecodeInto ''{}'' (Object []), CallCreate (Object ''{}'')]) =
           [CallNew, CallDecodeInto ''{}'' (Object []), CallCreate (Object ''{}'')]
     \<or> Method
         (exRequest ''POST'' ''/pods'' [(''sync'', ''true''), (''timeout'', ''5ms'')] ''{}'') =
         ''PUT'' \<and> length [''pods''] = 2 \<and>
         readBody (exRequest ''POST'' ''/pods'' [(''sync'', ''true''), (''timeout'', ''5ms'')]
         ''{}'') = Inr ''{}'' \<and>
       New exStorage (world exState) = (Ret (Object []), 0) \<and>
       DecodeInto (codec exServer) ''{}'' (Object []) 0 = (Ret (Inr (Object ''{}'')), 0) \<and>
       Update exStorage (Object ''{}'') 0 = (Ret (Inr (Chan 1)), 0) \<and>
       ([CallNew, CallDecodeInto ''{}'' (Object []), CallCreate (Object ''{}'')]) =
           [CallNew, CallDecodeInto ''{}'' (Object []), CallUpdate (Object ''{}'')]) \<and>
      NewOperation (ops exServer) (Chan 1) 0 = (Ret (Operation ''1''), 0) \<and>
      (Query_Get (Query
          (exRequest ''POST'' ''/pods'' [(''sync'', ''true''), (''timeout'', ''5ms'')] ''{}''))
          ''sync'' = ''true'' \<or> asyncOpWait exServer \<noteq> 0) \<and>
      WaitFor (ops exServer) (Operation ''1'')
        (if Query_Get
            (Query (exRequest ''POST'' ''/pods'' [(''sync'', ''true''), (''timeout'', ''5ms'')]
            ''{}'')) ''sync'' = ''true''
           then fst (parseTimeout exImports
                       (Query_Get (Query
                       (exRequest ''POST'' ''/pods''
                       [(''sync'', ''true''), (''timeout'', ''5ms'')] ''{}'')) ''timeout'')
                       exState)
           else asyncOpWait exServer) 0 = (Ret (), 5000000)"
    by (simp add: run readBody_def)
  note n6 = wait_bound [where fuel = 2 and I = exImports and s = exServer and stor = exStorage
      and st = exState
      and req = "exRequest ''POST'' ''/pods'' [(''sync'', ''true''), (''timeout'', ''5ms'')]
          ''{}''"
      and parts = "[''pods'']" and out = "Chan 1"
      and pre = "[CallNew, CallDecodeInto ''{}'' (Object []), CallCreate (Object ''{}'')]"
      and body = "''{}''" and blank = "Object []" and decoded = "Object ''{}''"
      and op = "Operation ''1''" and wd\<^sub>1 = 0 and wd\<^sub>2 = 0
      and wd\<^sub>3 = 0 and wd\<^sub>4 = 0 and wd\<^sub>5 = 5000000,
      THEN conjunct2, THEN conjunct2, THEN conjunct2, THEN conjunct2, THEN conjunct1,
      rule_format, OF h6]
  have e6: "handleRESTStorage 2 exImports exServer [''pods'']
      (exRequest ''POST'' ''/pods'' [(''sync'', ''true''), (''timeout'', ''5ms'')] ''{}'')
      exStorage exState =
      (Returned,
       exState\<lparr>world := 5000000,
          calls := [CallNew, CallDecodeInto ''{}'' (Object []), CallCreate (Object ''{}''),
              CallNewOperation (Chan 1), CallWaitFor (Operation ''1'') 5000000,
              CallStatusOrResult (Operation ''1''),
              CallEncode (StatusVal \<lparr>Code = 0, Details = ''1''\<rparr>)],
          writer := [HeaderSet ''Content-Type'' ''application/json'', WriteHeader 202,
              Write ''1'']\<rparr>)"
    unfolding n6 by (simp add: run)
  have h7: "(Method (exRequest ''PUT'' ''/pods/a'' [(''timeout'', ''5ms'')] ''{}'') =
      ''DELETE'' \<and> length [''pods'', ''a''] = 2 \<and>
       Delete exStorage ([''pods'', ''a''] ! 1) (world exState) = (Ret (Inr (Chan 2)), 0) \<and>
       ([CallNew, CallDecodeInto ''{}'' (Object []), CallUpdate (Object ''{}'')]) =
           [CallDelete ([''pods'', ''a''] ! 1)]
     \<or> Method (exRequest ''PUT'' ''/pods/a'' [(''timeout'', ''5ms'')] ''{}'') =
         ''POST'' \<and> length [''pods'', ''a''] = 1 \<and>
         readBody (exRequest ''PUT'' ''/pods/a'' [(''timeout'', ''5ms'')] ''{}'') =
         Inr ''{}'' \<and>
       New exStorage (world exState) = (Ret (Object []), 0) \<and>
       DecodeInto (codec exServer) ''{}'' (Object []) 0 = (Ret (Inr (Object ''{}'')), 0) \<and>
       Create exStorage (Object ''{}'') 0 = (Ret (Inr (Chan 2)), 0) \<and>
       ([CallNew, CallDecodeInto ''{}'' (Object []), CallUpdate (Object ''{}'')]) =
           [CallNew, CallDecodeInto ''{}'' (Object []), CallCreate (Object ''{}'')]
     \<or> Method (exRequest ''PUT'' ''/pods/a'' [(''timeout'', ''5ms'')] ''{}'') =
         ''PUT'' \<and> length [''pods'', ''a''] = 2 \<and>
         readBody (exRequest ''PUT'' ''/pods/a'' [(''timeout'', ''5ms'')] ''{}'') =
         Inr ''{}'' \<and>
       New exStorage (world exState) = (Ret (Object []), 0) \<and>
       DecodeInto (codec exServer) ''{}'' (Object []) 0 = (Ret (Inr (Object ''{}'')), 0) \<and>
       Update exStorage (Object ''{}'') 0 = (Ret (Inr (Chan 2)), 0) \<and>
       ([CallNew, CallDecodeInto ''{}'' (Object []), CallUpdate (Object ''{}'')]) =
           [CallNew, CallDecodeInto ''{}'' (Object []), CallUpdate (Object ''{}'')]) \<and>
      NewOperation (ops exServer) (Chan 2) 0 = (Ret (Operation ''1''), 0) \<and>
      (Query_Get (Query (exRequest ''PUT'' ''/pods/a'' [(''timeout'', ''5ms'')] ''{}''))
          ''sync'' = ''true'' \<or> asyncOpWait exServer \<noteq> 0) \<and>
      WaitFor (ops exServer) (Operation ''1'')
        (if Query_Get (Query (exRequest ''PUT'' ''/pods/a'' [(''timeout'', ''5ms'')] ''{}''))
            ''sync'' = ''true''
           then fst (parseTimeout exImports
                       (Query_Get (Query
                       (exRequest ''PUT'' ''/pods/a'' [(''timeout'', ''5ms'')] ''{}''))
                       ''timeout'') exState)
           else asyncOpWait exServer) 0 = (Ret (), 25000000)"
    by (simp add: run readBody_def)
  note n7 = wait_bound [where fuel = 2 and I = exImports and s = exServer and stor = exStorage
      and st = exState
      and req = "exRequest ''PUT'' ''/pods/a'' [(''timeout'', ''5ms'')] ''{}''"
      and parts = "[''pods'', ''a'']" and out = "Chan 2"
      and pre = "[CallNew, CallDecodeInto ''{}'' (Object []), CallUpdate (Object ''{}'')]"
      and body = "''{}''" and blank = "Object []" and decoded = "Object ''{}''"
      and op = "Operation ''1''" and wd\<^sub>1 = 0 and wd\<^sub>2 = 0
      and wd\<^sub>3 = 0 and wd\<^sub>4 = 0 and wd\<^sub>5 = 25000000,
      THEN conjunct2, THEN conjunct2, THEN conjunct2, THEN conjunct2, THEN conjunct1,
      rule_format, OF h7]
  have e7: "handleRESTStorage 2 exImports exServer [''pods'', ''a'']
      (exRequest ''PUT'' ''/pods/a'' [(''timeout'', ''5ms'')] ''{}'') exStorage exState =
      (Returned,
       exState\<lparr>world := 25000000,
          calls := [CallNew, CallDecodeInto ''{}'' (Object []), CallUpdate (Object ''{}''),
              CallNewOperation (Chan 2), CallWaitFor (Operation ''1'') 25000000,
              CallStatusOrResult (Operation ''1''), CallEncode (Object ''done'')],
          writer := [HeaderSet ''Content-Type'' ''application/json'', WriteHeader 200,
              Write ''done'']\<rparr>)"
    unfolding n7 by (simp add: run)
  have h8: "(Method (exRequest ''DELETE'' ''/pods/a'' [(''timeout'', ''50ms'')] []) =
      ''DELETE'' \<and> length [''pods'', ''a''] = 2 \<and>
       Delete exStorage ([''pods'', ''a''] ! 1) (world exState) = (Ret (Inr (Chan 0)), 0) \<and>
       [CallDelete ''a''] = [CallDelete ([''pods'', ''a''] ! 1)]
     \<or> Method (exRequest ''DELETE'' ''/pods/a'' [(''timeout'', ''50ms'')] []) =
         ''POST'' \<and> length [''pods'', ''a''] = 1 \<and>
         readBody (exRequest ''DELETE'' ''/pods/a'' [(''timeout'', ''50ms'')] []) =
         Inr ''{}'' \<and>
       New exStorage (world exState) = (Ret (Object []), 0) \<and>
       DecodeInto (codec (exServer\<lparr>asyncOpWait := 0\<rparr>)) ''{}'' (Object []) 0 =
           (Ret (Inr (Object ''{}'')), 0) \<and>
       Create exStorage (Object ''{}'') 0 = (Ret (Inr (Chan 0)), 0) \<and>
       [CallDelete ''a''] =
           [CallNew, CallDecodeInto ''{}'' (Object []), CallCreate (Object ''{}'')]
     \<or> Method (exRequest ''DELETE'' ''/pods/a'' [(''timeout'', ''50ms'')] []) =
         ''PUT'' \<and> length [''pods'', ''a''] = 2 \<and>
         readBody (exRequest ''DELETE'' ''/pods/a'' [(''timeout'', ''50ms'')] []) =
         Inr ''{}'' \<and>
       New exStorage (world exState) = (Ret (Object []), 0) \<and>
       DecodeInto (codec (exServer\<lparr>asyncOpWait := 0\<rparr>)) ''{}'' (Object []) 0 =
           (Ret (Inr (Object ''{}'')), 0) \<and>
       Update exStorage (Object ''{}'') 0 = (Ret (Inr (Chan 0)), 0) \<and>
       [CallDelete ''a''] =
           [CallNew, CallDecodeInto ''{}'' (Object []), CallUpdate (Object ''{}'')]) \<and>
      NewOperation (ops (exServer\<lparr>asyncOpWait := 0\<rparr>)) (Chan 0) 0 =
          (Ret (Operation ''1''), 0) \<and>
      Query_Get (Query (exRequest ''DELETE'' ''/pods/a'' [(''timeout'', ''50ms'')] [])) ''sync''
          \<noteq> ''true'' \<and> asyncOpWait (exServer\<lparr>asyncOpWait := 0\<rparr>) = 0"
    by (simp add: run readBody_def)
  note n8 = wait_bound
      [where fuel = 2 and I = exImports and s = "exServer\<lparr>asyncOpWait := 0\<rparr>"
      and stor = exStorage and st = exState
      and req = "exRequest ''DELETE'' ''/pods/a'' [(''timeout'', ''50ms'')] []"
      and parts = "[''pods'', ''a'']" and out = "Chan 0"
      and pre = "[CallDelete ''a'']" and body = "''{}''" and blank = "Object []"
      and decoded = "Object ''{}''" and op = "Operation ''1''" and wd\<^sub>1 = 0
      and wd\<^sub>2 = 0 and wd\<^sub>3 = 0 and wd\<^sub>4 = 0,
      THEN conjunct2, THEN conjunct2, THEN conjunct2, THEN conjunct2, THEN conjunct2,
      rule_format, OF h8]
  have e8: "handleRESTStorage 2 exImports (exServer\<lparr>asyncOpWait := 0\<rparr>)
      [''pods'', ''a''] (exRequest ''DELETE'' ''/pods/a'' [(''timeout'', ''50ms'')] [])
      exStorage exState =
      (Returned,
       exState\<lparr>world := 0,
          calls := [CallDelete ''a'', CallNewOperation (Chan 0),
              CallStatusOrResult (Operation ''1''),
              CallEncode (StatusVal \<lparr>Code = 0, Details = ''1''\<rparr>)],
          writer := [HeaderSet ''Content-Type'' ''application/json'', WriteHeader 202,
              Write ''1'']\<rparr>)"
    unfolding n8 by (simp add: run)
  show ?thesis
    by (rule conjI [OF logged]) (intro conjI; rule e1 e2 e3 e4 e5 e6 e7 e8)
qed

lemma Query_Get_absent: "key \<notin> fst ` set q \<Longrightarrow> Query_Get q key = []"
  by (simp add: Query_Get_def map_of_eq_None_iff [THEN iffD2])

lemma Query_Get_first: "Query_Get ((key, v) # q) key = v"
  by (simp add: Query_Get_def)

lemma sync_true_applied:
  "(Method req = ''DELETE'' \<and> length parts = 2 \<and>
       Delete stor (parts ! 1) (world st) = (Ret (Inr out), wd\<^sub>3) \<and>
       pre = [CallDelete (parts ! 1)]
     \<or> Method req = ''POST'' \<and> length parts = 1 \<and> readBody req = Inr body \<and>
       New stor (world st) = (Ret blank, wd\<^sub>1) \<and>
       DecodeInto (codec s) body blank wd\<^sub>1 = (Ret (Inr decoded), wd\<^sub>2) \<and>
       Create stor decoded wd\<^sub>2 = (Ret (Inr out), wd\<^sub>3) \<and>
       pre = [CallNew, CallDecodeInto body blank, CallCreate decoded]
     \<or> Method req = ''PUT'' \<and> length parts = 2 \<and> readBody req = Inr body \<and>
       New stor (world st) = (Ret blank, wd\<^sub>1) \<and>
       DecodeInto (codec s) body blank wd\<^sub>1 = (Ret (Inr decoded), wd\<^sub>2) \<and>
       Update stor decoded wd\<^sub>2 = (Ret (Inr out), wd\<^sub>3) \<and>
       pre = [CallNew, CallDecodeInto body blank, CallUpdate decoded]) \<and>
      NewOperation (ops s) out wd\<^sub>3 = (Ret op, wd\<^sub>4) \<and>
      Query_Get (Query req) ''sync'' = ''true'' \<and>
      WaitFor (ops s) op (fst (parseTimeout I (Query_Get (Query req) ''timeout'') st)) wd\<^sub>4 =
        (Ret (), wd\<^sub>5) \<longrightarrow>
      handleRESTStorage fuel I s parts req stor st =
        finishReq fuel I s op
          ((snd (parseTimeout I (Query_Get (Query req) ''timeout'') st))
             \<lparr>world := wd\<^sub>5,
              calls := calls st @ pre @
                [CallNewOperation out,
                 CallWaitFor op
                   (fst (parseTimeout I (Query_Get (Query req) ''timeout'') st))]\<rparr>)"
proof (intro impI, elim conjE)
  assume mut: "Method req = ''DELETE'' \<and> length parts = 2 \<and>
       Delete stor (parts ! 1) (world st) = (Ret (Inr out), wd\<^sub>3) \<and>
       pre = [CallDelete (parts ! 1)]
     \<or> Method req = ''POST'' \<and> length parts = 1 \<and> readBody req = Inr body \<and>
       New stor (world st) = (Ret blank, wd\<^sub>1) \<and>
       DecodeInto (codec s) body blank wd\<^sub>1 = (Ret (Inr decoded), wd\<^sub>2) \<and>
       Create stor decoded wd\<^sub>2 = (Ret (Inr out), wd\<^sub>3) \<and>
       pre = [CallNew, CallDecodeInto body blank, CallCreate decoded]
     \<or> Method req = ''PUT'' \<and> length parts = 2 \<and> readBody req = Inr body \<and>
       New stor (world st) = (Ret blank, wd\<^sub>1) \<and>
       DecodeInto (codec s) body blank wd\<^sub>1 = (Ret (Inr decoded), wd\<^sub>2) \<and>
       Update stor decoded wd\<^sub>2 = (Ret (Inr out), wd\<^sub>3) \<and>
       pre = [CallNew, CallDecodeInto body blank, CallUpdate decoded]"
    and new: "NewOperation (ops s) out wd\<^sub>3 = (Ret op, wd\<^sub>4)"
    and sync: "Query_Get (Query req) ''sync'' = ''true''"
    and wait: "WaitFor (ops s) op (fst (parseTimeout I (Query_Get (Query req) ''timeout'') st)) wd\<^sub>4 =
        (Ret (), wd\<^sub>5)"
  from wait sync have wait': "WaitFor (ops s) op
           (if Query_Get (Query req) ''sync'' = ''true''
           then fst (parseTimeout I (Query_Get (Query req) ''timeout'') st)
           else asyncOpWait s) wd\<^sub>4 = (Ret (), wd\<^sub>5)"
    by simp
  from sync have waited: "Query_Get (Query req) ''sync'' = ''true'' \<or> asyncOpWait s \<noteq> 0"
    by simp
  from mutating_waited [OF mut new waited wait'] sync
  show "handleRESTStorage fuel I s parts req stor st =
        finishReq fuel I s op
          ((snd (parseTimeout I (Query_Get (Query req) ''timeout'') st))
             \<lparr>world := wd\<^sub>5,
              calls := calls st @ pre @
                [CallNewOperation out,
                 CallWaitFor op
                   (fst (parseTimeout I (Query_Get (Query req) ''timeout'') st))]\<rparr>)"
    by simp
qed

lemma sync_other_applied:
  "(Method req = ''DELETE'' \<and> length parts = 2 \<and>
       Delete stor (parts ! 1) (world st) = (Ret (Inr out), wd\<^sub>3) \<and>
       pre = [CallDelete (parts ! 1)]
     \<or> Method req = ''POST'' \<and> length parts = 1 \<and> readBody req = Inr body \<and>
       New stor (world st) = (Ret blank, wd\<^sub>1) \<and>
       DecodeInto (codec s) body blank wd\<^sub>1 = (Ret (Inr decoded), wd\<^sub>2) \<and>
       Create stor decoded wd\<^sub>2 = (Ret (Inr out), wd\<^sub>3) \<and>
       pre = [CallNew, CallDecodeInto body blank, CallCreate decoded]
     \<or> Method req = ''PUT'' \<and> length parts = 2 \<and> readBody req = Inr body \<and>
       New stor (world st) = (Ret blank, wd\<^sub>1) \<and>
       DecodeInto (codec s) body blank wd\<^sub>1 = (Ret (Inr decoded), wd\<^sub>2) \<and>
       Update stor decoded wd\<^sub>2 = (Ret (Inr out), wd\<^sub>3) \<and>
       pre = [CallNew, CallDecodeInto body blank, CallUpdate decoded]) \<and>
      NewOperation (ops s) out wd\<^sub>3 = (Ret op, wd\<^sub>4) \<and>
      Query_Get (Query req) ''sync'' \<noteq> ''true'' \<and> asyncOpWait s \<noteq> 0 \<and>
      WaitFor (ops s) op (asyncOpWait s) wd\<^sub>4 = (Ret (), wd\<^sub>5) \<longrightarrow>
      handleRESTStorage fuel I s parts req stor st =
        finishReq fuel I s op
          ((snd (parseTimeout I (Query_Get (Query req) ''timeout'') st))
             \<lparr>world := wd\<^sub>5,
              calls := calls st @ pre @
                [CallNewOperation out, CallWaitFor op (asyncOpWait s)]\<rparr>)"
proof (intro impI, elim conjE)
  assume mut: "Method req = ''DELETE'' \<and> length parts = 2 \<and>
       Delete stor (parts ! 1) (world st) = (Ret (Inr out), wd\<^sub>3) \<and>
       pre = [CallDelete (parts ! 1)]
     \<or> Method req = ''POST'' \<and> length parts = 1 \<and> readBody req = Inr body \<and>
       New stor (world st) = (Ret blank, wd\<^sub>1) \<and>
       DecodeInto (codec s) body blank wd\<^sub>1 = (Ret (Inr decoded), wd\<^sub>2) \<and>
       Create stor decoded wd\<^sub>2 = (Ret (Inr out), wd\<^sub>3) \<and>
       pre = [CallNew, CallDecodeInto body blank, CallCreate decoded]
     \<or> Method req = ''PUT'' \<and> length parts = 2 \<and> readBody req = Inr body \<and>
       New stor (world st) = (Ret blank, wd\<^sub>1) \<and>
       DecodeInto (codec s) body blank wd\<^sub>1 = (Ret (Inr decoded), wd\<^sub>2) \<and>
       Update stor decoded wd\<^sub>2 = (Ret (Inr out), wd\<^sub>3) \<and>
       pre = [CallNew, CallDecodeInto body blank, CallUpdate decoded]"
    and new: "NewOperation (ops s) out wd\<^sub>3 = (Ret op, wd\<^sub>4)"
    and sync: "Query_Get (Query req) ''sync'' \<noteq> ''true''"
    and async: "asyncOpWait s \<noteq> 0"
    and wait: "WaitFor (ops s) op (asyncOpWait s) wd\<^sub>4 = (Ret (), wd\<^sub>5)"
  from wait sync have wait': "WaitFor (ops s) op
           (if Query_Get (Query req) ''sync'' = ''true''
           then fst (parseTimeout I (Query_Get (Query req) ''timeout'') st)
           else asyncOpWait s) wd\<^sub>4 = (Ret (), wd\<^sub>5)"
    by simp
  from async have waited: "Query_Get (Query req) ''sync'' = ''true'' \<or> asyncOpWait s \<noteq> 0"
    by simp
  from mutating_waited [OF mut new waited wait'] sync
  show "handleRESTStorage fuel I s parts req stor st =
        finishReq fuel I s op
          ((snd (parseTimeout I (Query_Get (Query req) ''timeout'') st))
             \<lparr>world := wd\<^sub>5,
              calls := calls st @ pre @
                [CallNewOperation out, CallWaitFor op (asyncOpWait s)]\<rparr>)"
    by simp
qed

lemma sync_other_unwaited:
  "(Method req = ''DELETE'' \<and> length parts = 2 \<and>
       Delete stor (parts ! 1) (world st) = (Ret (Inr out), wd\<^sub>3) \<and>
       pre = [CallDelete (parts ! 1)]
     \<or> Method req = ''POST'' \<and> length parts = 1 \<and> readBody req = Inr body \<and>
       New stor (world st) = (Ret blank, wd\<^sub>1) \<and>
       DecodeInto (codec s) body blank wd\<^sub>1 = (Ret (Inr decoded), wd\<^sub>2) \<and>
       Create stor decoded wd\<^sub>2 = (Ret (Inr out), wd\<^sub>3) \<and>
       pre = [CallNew, CallDecodeInto body blank, CallCreate decoded]
     \<or> Method req = ''PUT'' \<and> length parts = 2 \<and> readBody req = Inr body \<and>
       New stor (world st) = (Ret blank, wd\<^sub>1) \<and>
       DecodeInto (codec s) body blank wd\<^sub>1 = (Ret (Inr decoded), wd\<^sub>2) \<and>
       Update stor decoded wd\<^sub>2 = (Ret (Inr out), wd\<^sub>3) \<and>
       pre = [CallNew, CallDecodeInto body blank, CallUpdate decoded]) \<and>
      NewOperation (ops s) out wd\<^sub>3 = (Ret op, wd\<^sub>4) \<and>
      Query_Get (Query req) ''sync'' \<noteq> ''true'' \<and> asyncOpWait s = 0 \<longrightarrow>
      handleRESTStorage fuel I s parts req stor st =
        finishReq fuel I s op
          ((snd (parseTimeout I (Query_Get (Query req) ''timeout'') st))
             \<lparr>world := wd\<^sub>4, calls := calls st @ pre @ [CallNewOperation out]\<rparr>)"
  by (intro impI, elim conjE) (rule mutating_unwaited)

lemma sync_logged:
  "((Method req = ''DELETE'' \<and> length parts = 2 \<and>
       Delete stor (parts ! 1) (world st) = (Ret (Inr out), wd)
     \<or> Method req = ''POST'' \<and> length parts = 1 \<and> readBody req = Inr body \<and>
       New stor (world st) = (Ret blank, wd\<^sub>1) \<and>
       DecodeInto (codec s) body blank wd\<^sub>1 = (Ret (Inr decoded), wd\<^sub>2) \<and>
       Create stor decoded wd\<^sub>2 = (Ret (Inr out), wd)
     \<or> Method req = ''PUT'' \<and> length parts = 2 \<and> readBody req = Inr body \<and>
       New stor (world st) = (Ret blank, wd\<^sub>1) \<and>
       DecodeInto (codec s) body blank wd\<^sub>1 = (Ret (Inr decoded), wd\<^sub>2) \<and>
       Update stor decoded wd\<^sub>2 = (Ret (Inr out), wd)) \<and>
     NewOperation (ops s) out wd = (Ret op, wd') \<longrightarrow>
     (Query_Get (Query req) ''sync'' = ''true'' \<longrightarrow>
        filter isWait (calls (snd (handleRESTStorage fuel I s parts req stor st))) =
          filter isWait (calls st) @
            [CallWaitFor op (fst (parseTimeout I (Query_Get (Query req) ''timeout'') st))]) \<and>
     (Query_Get (Query req) ''sync'' \<noteq> ''true'' \<longrightarrow>
        filter isWait (calls (snd (handleRESTStorage fuel I s parts req stor st))) =
          filter isWait (calls st) @
            (if asyncOpWait s \<noteq> 0 then [CallWaitFor op (asyncOpWait s)] else [])))
   \<and> (''sync'' \<notin> fst ` set q \<longrightarrow> Query_Get q ''sync'' \<noteq> ''true'')
   \<and> (v \<noteq> ''true'' \<longrightarrow> Query_Get ((''sync'', v) # q) ''sync'' \<noteq> ''true'')
   \<and> Query_Get ((''sync'', ''TRUE'') # q) ''sync'' \<noteq> ''true''
   \<and> Query_Get ((''sync'', ''1'') # q) ''sync'' \<noteq> ''true''
   \<and> Query_Get ((''sync'', ''yes'') # q) ''sync'' \<noteq> ''true''"
proof (intro conjI impI)
  assume a: "(Method req = ''DELETE'' \<and> length parts = 2 \<and>
       Delete stor (parts ! 1) (world st) = (Ret (Inr out), wd)
     \<or> Method req = ''POST'' \<and> length parts = 1 \<and> readBody req = Inr body \<and>
       New stor (world st) = (Ret blank, wd\<^sub>1) \<and>
       DecodeInto (codec s) body blank wd\<^sub>1 = (Ret (Inr decoded), wd\<^sub>2) \<and>
       Create stor decoded wd\<^sub>2 = (Ret (Inr out), wd)
     \<or> Method req = ''PUT'' \<and> length parts = 2 \<and> readBody req = Inr body \<and>
       New stor (world st) = (Ret blank, wd\<^sub>1) \<and>
       DecodeInto (codec s) body blank wd\<^sub>1 = (Ret (Inr decoded), wd\<^sub>2) \<and>
       Update stor decoded wd\<^sub>2 = (Ret (Inr out), wd)) \<and>
     NewOperation (ops s) out wd = (Ret op, wd')"
  then have waits: "filter isWait (calls (snd (handleRESTStorage fuel I s parts req stor st))) =
     filter isWait (calls st) @
       (if Query_Get (Query req) ''sync'' = ''true''
        then [CallWaitFor op (fst (parseTimeout I (Query_Get (Query req) ''timeout'') st))]
        else if asyncOpWait s \<noteq> 0 then [CallWaitFor op (asyncOpWait s)] else [])"
    by (blast intro: delete_waits create_waits update_waits)
  {
    assume "Query_Get (Query req) ''sync'' = ''true''"
    with waits show "filter isWait (calls (snd (handleRESTStorage fuel I s parts req stor st))) =
          filter isWait (calls st) @
            [CallWaitFor op (fst (parseTimeout I (Query_Get (Query req) ''timeout'') st))]"
      by simp
  next
    assume "Query_Get (Query req) ''sync'' \<noteq> ''true''"
    with waits show "filter isWait (calls (snd (handleRESTStorage fuel I s parts req stor st))) =
          filter isWait (calls st) @
            (if asyncOpWait s \<noteq> 0 then [CallWaitFor op (asyncOpWait s)] else [])"
      by simp
  }
next
  assume "''sync'' \<notin> fst ` set q"
  then show "Query_Get q ''sync'' \<noteq> ''true''"
    by (simp add: Query_Get_absent)
next
  assume "v \<noteq> ''true''"
  then show "Query_Get ((''sync'', v) # q) ''sync'' \<noteq> ''true''"
    by (simp add: Query_Get_first)
next
  show "Query_Get ((''sync'', ''TRUE'') # q) ''sync'' \<noteq> ''true''"
    and "Query_Get ((''sync'', ''1'') # q) ''sync'' \<noteq> ''true''"
    and "Query_Get ((''sync'', ''yes'') # q) ''sync'' \<noteq> ''true''"
    by (simp_all add: Query_Get_first)
qed

text \<open>
  C9. The \<open>sync\<close> parameter. A mutating request (DELETE, POST, PUT) that reaches the
  registry waits for the parsed timeout exactly when the first value of its \<open>sync\<close>
  parameter is the string \<open>true\<close>. With any other value, and with the parameter
  absent, it waits for the server's \<open>asyncOpWait\<close> (not at all if that is zero),
  whatever the \<open>timeout\<close> parameter says. \<open>TRUE\<close>, \<open>1\<close> and \<open>yes\<close> are such other
  values.

  The wait is applied to the world before the operation is asked: with \<open>sync\<close> equal
  to \<open>true\<close> the registry's \<open>WaitFor\<close> runs for the parsed timeout in the world that
  making the operation left, with any other value it runs there for \<open>asyncOpWait\<close> (and
  does not run if that is zero), and \<open>finishReq\<close>, which asks the operation for its
  status or result, runs in the world that the wait left, after exactly the calls listed,
  in that order.
\<close>

theorem sync_only_true:
  "(((Method req = ''DELETE'' \<and> length parts = 2 \<and>
       Delete stor (parts ! 1) (world st) = (Ret (Inr out), wd)
     \<or> Method req = ''POST'' \<and> length parts = 1 \<and> readBody req = Inr body \<and>
       New stor (world st) = (Ret blank, wd\<^sub>1) \<and>
       DecodeInto (codec s) body blank wd\<^sub>1 = (Ret (Inr decoded), wd\<^sub>2) \<and>
       Create stor decoded wd\<^sub>2 = (Ret (Inr out), wd)
     \<or> Method req = ''PUT'' \<and> length parts = 2 \<and> readBody req = Inr body \<and>
       New stor (world st) = (Ret blank, wd\<^sub>1) \<and>
       DecodeInto (codec s) body blank wd\<^sub>1 = (Ret (Inr decoded), wd\<^sub>2) \<and>
       Update stor decoded wd\<^sub>2 = (Ret (Inr out), wd)) \<and>
     NewOperation (ops s) out wd = (Ret op, wd') \<longrightarrow>
     (Query_Get (Query req) ''sync'' = ''true'' \<longrightarrow>
        filter isWait (calls (snd (handleRESTStorage fuel I s parts req stor st))) =
          filter isWait (calls st) @
            [CallWaitFor op (fst (parseTimeout I (Query_Get (Query req) ''timeout'') st))]) \<and>
     (Query_Get (Query req) ''sync'' \<noteq> ''true'' \<longrightarrow>
        filter isWait (calls (snd (handleRESTStorage fuel I s parts req stor st))) =
          filter isWait (calls st) @
            (if asyncOpWait s \<noteq> 0 then [CallWaitFor op (asyncOpWait s)] else [])))
   \<and> (''sync'' \<notin> fst ` set q \<longrightarrow> Query_Get q ''sync'' \<noteq> ''true'')
   \<and> (v \<noteq> ''true'' \<longrightarrow> Query_Get ((''sync'', v) # q) ''sync'' \<noteq> ''true'')
   \<and> Query_Get ((''sync'', ''TRUE'') # q) ''sync'' \<noteq> ''true''
   \<and> Query_Get ((''sync'', ''1'') # q) ''sync'' \<noteq> ''true''
   \<and> Query_Get ((''sync'', ''yes'') # q) ''sync'' \<noteq> ''true'')
   \<and> ((Method req = ''DELETE'' \<and> length parts = 2 \<and>
       Delete stor (parts ! 1) (world st) = (Ret (Inr out), wd\<^sub>3) \<and>
       pre = [CallDelete (parts ! 1)]
     \<or> Method req = ''POST'' \<and> length parts = 1 \<and> readBody req = Inr body \<and>
       New stor (world st) = (Ret blank, wd\<^sub>1) \<and>
       DecodeInto (codec s) body blank wd\<^sub>1 = (Ret (Inr decoded), wd\<^sub>2) \<and>
       Create stor decoded wd\<^sub>2 = (Ret (Inr out), wd\<^sub>3) \<and>
       pre = [CallNew, CallDecodeInto body blank, CallCreate decoded]
     \<or> Method req = ''PUT'' \<and> length parts = 2 \<and> readBody req = Inr body \<and>
       New stor (world st) = (Ret blank, wd\<^sub>1) \<and>
       DecodeInto (codec s) body blank wd\<^sub>1 = (Ret (Inr decoded), wd\<^sub>2) \<and>
       Update stor decoded wd\<^sub>2 = (Ret (Inr out), wd\<^sub>3) \<and>
       pre = [CallNew, CallDecodeInto body blank, CallUpdate decoded]) \<and>
      NewOperation (ops s) out wd\<^sub>3 = (Ret op, wd\<^sub>4) \<and>
      Query_Get (Query req) ''sync'' = ''true'' \<and>
      WaitFor (ops s) op (fst (parseTimeout I (Query_Get (Query req) ''timeout'') st)) wd\<^sub>4 =
        (Ret (), wd\<^sub>5) \<longrightarrow>
      handleRESTStorage fuel I s parts req stor st =
        finishReq fuel I s op
          ((snd (parseTimeout I (Query_Get (Query req) ''timeout'') st))
             \<lparr>world := wd\<^sub>5,
              calls := calls st @ pre @
                [CallNewOperation out,
                 CallWaitFor op
                   (fst (parseTimeout I (Query_Get (Query req) ''timeout'') st))]\<rparr>))
   \<and> ((Method req = ''DELETE'' \<and> length parts = 2 \<and>
       Delete stor (parts ! 1) (world st) = (Ret (Inr out), wd\<^sub>3) \<and>
       pre = [CallDelete (parts ! 1)]
     \<or> Method req = ''POST'' \<and> length parts = 1 \<and> readBody req = Inr body \<and>
       New stor (world st) = (Ret blank, wd\<^sub>1) \<and>
       DecodeInto (codec s) body blank wd\<^sub>1 = (Ret (Inr decoded), wd\<^sub>2) \<and>
       Create stor decoded wd\<^sub>2 = (Ret (Inr out), wd\<^sub>3) \<and>
       pre = [CallNew, CallDecodeInto body blank, CallCreate decoded]
     \<or> Method req = ''PUT'' \<and> length parts = 2 \<and> readBody req = Inr body \<and>
       New stor (world st) = (Ret blank, wd\<^sub>1) \<and>
       DecodeInto (codec s) body blank wd\<^sub>1 = (Ret (Inr decoded), wd\<^sub>2) \<and>
       Update stor decoded wd\<^sub>2 = (Ret (Inr out), wd\<^sub>3) \<and>
       pre = [CallNew, CallDecodeInto body blank, CallUpdate decoded]) \<and>
      NewOperation (ops s) out wd\<^sub>3 = (Ret op, wd\<^sub>4) \<and>
      Query_Get (Query req) ''sync'' \<noteq> ''true'' \<and> asyncOpWait s \<noteq> 0 \<and>
      WaitFor (ops s) op (asyncOpWait s) wd\<^sub>4 = (Ret (), wd\<^sub>5) \<longrightarrow>
      handleRESTStorage fuel I s parts req stor st =
        finishReq fuel I s op
          ((snd (parseTimeout I (Query_Get (Query req) ''timeout'') st))
             \<lparr>world := wd\<^sub>5,
              calls := calls st @ pre @
                [CallNewOperation out, CallWaitFor op (asyncOpWait s)]\<rparr>))
   \<and> ((Method req = ''DELETE'' \<and> length parts = 2 \<and>
       Delete stor (parts ! 1) (world st) = (Ret (Inr out), wd\<^sub>3) \<and>
       pre = [CallDelete (parts ! 1)]
     \<or> Method req = ''POST'' \<and> length parts = 1 \<and> readBody req = Inr body \<and>
       New stor (world st) = (Ret blank, wd\<^sub>1) \<and>
       DecodeInto (codec s) body blank wd\<^sub>1 = (Ret (Inr decoded), wd\<^sub>2) \<and>
       Create stor decoded wd\<^sub>2 = (Ret (Inr out), wd\<^sub>3) \<and>
       pre = [CallNew, CallDecodeInto body blank, CallCreate decoded]
     \<or> Method req = ''PUT'' \<and> length parts = 2 \<and> readBody req = Inr body \<and>
       New stor (world st) = (Ret blank, wd\<^sub>1) \<and>
       DecodeInto (codec s) body blank wd\<^sub>1 = (Ret (Inr decoded), wd\<^sub>2) \<and>
       Update stor decoded wd\<^sub>2 = (Ret (Inr out), wd\<^sub>3) \<and>
       pre = [CallNew, CallDecodeInto body blank, CallUpdate decoded]) \<and>
      NewOperation (ops s) out wd\<^sub>3 = (Ret op, wd\<^sub>4) \<and>
      Query_Get (Query req) ''sync'' \<noteq> ''true'' \<and> asyncOpWait s = 0 \<longrightarrow>
      handleRESTStorage fuel I s parts req stor st =
        finishReq fuel I s op
          ((snd (parseTimeout I (Query_Get (Query req) ''timeout'') st))
             \<lparr>world := wd\<^sub>4, calls := calls st @ pre @ [CallNewOperation out]\<rparr>))"
  by (rule conjI [OF sync_logged])
    (intro conjI; rule sync_true_applied sync_other_applied sync_other_unwaited)

theorem sync_only_true_witness:
  "(Method (exRequest ''DELETE'' ''/pods/a'' [(''sync'', ''TRUE''), (''timeout'', ''50ms'')] [])
      =
     ''DELETE''
   \<and> Query_Get (Query (exRequest ''DELETE'' ''/pods/a''
        [(''sync'', ''TRUE''), (''timeout'', ''50ms'')] [])) ''sync'' \<noteq> ''true''
   \<and> filter isWait (calls (snd (handleRESTStorage 2 exImports exServer [''pods'', ''a'']
        (exRequest ''DELETE'' ''/pods/a'' [(''sync'', ''TRUE''), (''timeout'', ''50ms'')] [])
        exStorage exState))) = [CallWaitFor (Operation ''1'') 25000000]
   \<and> Query_Get (Query (exRequest ''PUT'' ''/pods/a''
        [(''sync'', ''true''), (''timeout'', ''50ms'')] ''{}'')) ''sync'' = ''true''
   \<and> filter isWait (calls (snd (handleRESTStorage 2 exImports exServer [''pods'', ''a'']
        (exRequest ''PUT'' ''/pods/a'' [(''sync'', ''true''), (''timeout'', ''50ms'')] ''{}'')
        exStorage exState))) = [CallWaitFor (Operation ''1'') 50000000]
   \<and> Query_Get [(''timeout'', ''50ms'')] ''sync'' \<noteq> ''true''
   \<and> Query_Get [(''sync'', ''false''), (''sync'', ''true'')] ''sync'' \<noteq> ''true'')
   \<and> handleRESTStorage 2 exImports exServer [''pods'', ''a'']
       (exRequest ''DELETE'' ''/pods/a'' [(''sync'', ''true''), (''timeout'', ''5ms'')] [])
       exStorage exState =
      (Returned,
       exState\<lparr>world := 5000000,
          calls := [CallDelete ''a'', CallNewOperation (Chan 0),
              CallWaitFor (Operation ''1'') 5000000, CallStatusOrResult (Operation ''1''),
              CallEncode (StatusVal \<lparr>Code = 0, Details = ''1''\<rparr>)],
          writer := [HeaderSet ''Content-Type'' ''application/json'', WriteHeader 202,
              Write ''1'']\<rparr>)
   \<and> handleRESTStorage 2 exImports exServer [''pods'', ''a'']
       (exRequest ''DELETE'' ''/pods/a'' [(''sync'', ''TRUE''), (''timeout'', ''5ms'')] [])
       exStorage exState =
      (Returned,
       exState\<lparr>world := 25000000,
          calls := [CallDelete ''a'', CallNewOperation (Chan 0),
              CallWaitFor (Operation ''1'') 25000000, CallStatusOrResult (Operation ''1''),
              CallEncode (Object ''done'')],
          writer := [HeaderSet ''Content-Type'' ''application/json'', WriteHeader 200,
              Write ''done'']\<rparr>)
   \<and> handleRESTStorage 2 exImports exServer [''pods'', ''a'']
       (exRequest ''DELETE'' ''/pods/a'' [(''sync'', ''1''), (''timeout'', ''5ms'')] [])
       exStorage exState =
      (Returned,
       exState\<lparr>world := 25000000,
          calls := [CallDelete ''a'', CallNewOperation (Chan 0),
              CallWaitFor (Operation ''1'') 25000000, CallStatusOrResult (Operation ''1''),
              CallEncode (Object ''done'')],
          writer := [HeaderSet ''Content-Type'' ''application/json'', WriteHeader 200,
              Write ''done'']\<rparr>)
   \<and> handleRESTStorage 2 exImports exServer [''pods'', ''a'']
       (exRequest ''DELETE'' ''/pods/a'' [(''timeout'', ''5ms'')] []) exStorage exState =
      (Returned,
       exState\<lparr>world := 25000000,
          calls := [CallDelete ''a'', CallNewOperation (Chan 0),
              CallWaitFor (Operation ''1'') 25000000, CallStatusOrResult (Operation ''1''),
              CallEncode (Object ''done'')],
          writer := [HeaderSet ''Content-Type'' ''application/json'', WriteHeader 200,
              Write ''done'']\<rparr>)
   \<and> handleRESTStorage 2 exImports (exServer\<lparr>asyncOpWait := 0\<rparr>)
       [''pods'', ''a'']
       (exRequest ''DELETE'' ''/pods/a'' [(''sync'', ''yes''), (''timeout'', ''50ms'')] [])
       exStorage exState =
      (Returned,
       exState\<lparr>world := 0,
          calls := [CallDelete ''a'', CallNewOperation (Chan 0),
              CallStatusOrResult (Operation ''1''),
              CallEncode (StatusVal \<lparr>Code = 0, Details = ''1''\<rparr>)],
          writer := [HeaderSet ''Content-Type'' ''application/json'', WriteHeader 202,
              Write ''1'']\<rparr>)"
proof -
  let ?req = "exRequest ''DELETE'' ''/pods/a'' [(''sync'', ''TRUE''), (''timeout'', ''50ms'')]
      []"
  let ?put = "exRequest ''PUT'' ''/pods/a'' [(''sync'', ''true''), (''timeout'', ''50ms'')]
      ''{}''"
  have m: "Method ?req = ''DELETE''"
    by (simp add: exRequest_def)
  have delete:
    "(Method ?req = ''DELETE'' \<and> length [''pods'', ''a''] = 2 \<and>
       Delete exStorage ([''pods'', ''a''] ! 1) (world exState) = (Ret (Inr (Chan 0)), 0)
     \<or> Method ?req = ''POST'' \<and> length [''pods'', ''a''] = 1 \<and> readBody ?req =
         Inr [] \<and>
       New exStorage (world exState) = (Ret (Object []), 0) \<and>
       DecodeInto (codec exServer) [] (Object []) 0 = (Ret (Inr (Object [])), 0) \<and>
       Create exStorage (Object []) 0 = (Ret (Inr (Chan 0)), 0)
     \<or> Method ?req = ''PUT'' \<and> length [''pods'', ''a''] = 2 \<and> readBody ?req =
         Inr [] \<and>
       New exStorage (world exState) = (Ret (Object []), 0) \<and>
       DecodeInto (codec exServer) [] (Object []) 0 = (Ret (Inr (Object [])), 0) \<and>
       Update exStorage (Object []) 0 = (Ret (Inr (Chan 0)), 0)) \<and>
     NewOperation (ops exServer) (Chan 0) 0 = (Ret (Operation ''1''), 0)"
    by (simp add: ex_defs)
  have put:
    "(Method ?put = ''DELETE'' \<and> length [''pods'', ''a''] = 2 \<and>
       Delete exStorage ([''pods'', ''a''] ! 1) (world exState) = (Ret (Inr (Chan 2)), 0)
     \<or> Method ?put = ''POST'' \<and> length [''pods'', ''a''] = 1 \<and> readBody ?put =
         Inr ''{}'' \<and>
       New exStorage (world exState) = (Ret (Object []), 0) \<and>
       DecodeInto (codec exServer) ''{}'' (Object []) 0 = (Ret (Inr (Object ''{}'')), 0) \<and>
       Create exStorage (Object ''{}'') 0 = (Ret (Inr (Chan 2)), 0)
     \<or> Method ?put = ''PUT'' \<and> length [''pods'', ''a''] = 2 \<and> readBody ?put =
         Inr ''{}'' \<and>
       New exStorage (world exState) = (Ret (Object []), 0) \<and>
       DecodeInto (codec exServer) ''{}'' (Object []) 0 = (Ret (Inr (Object ''{}'')), 0) \<and>
       Update exStorage (Object ''{}'') 0 = (Ret (Inr (Chan 2)), 0)) \<and>
     NewOperation (ops exServer) (Chan 2) 0 = (Ret (Operation ''1''), 0)"
    by (simp add: ex_defs readBody_def)
  have nosync: "Query_Get (Query ?req) ''sync'' \<noteq> ''true''"
    by (simp add: exRequest_def Query_Get_def)
  have sync: "Query_Get (Query ?put) ''sync'' = ''true''"
    by (simp add: exRequest_def Query_Get_def)
  have t: "fst (parseTimeout exImports (Query_Get (Query ?put) ''timeout'') exState) = 50000000"
    by (simp add: exRequest_def Query_Get_def parseTimeout_def exImports_def Millisecond_def)
  have absent: "''sync'' \<notin> fst ` set [(''timeout'', ''50ms'')]"
    by simp
  have other: "''false'' \<noteq> ''true''"
    by simp
  note r = sync_only_true [where stor = exStorage and st = exState and wd = 0 and wd' = 0
      and s = exServer and op = "Operation ''1''" and blank = "Object []" and wd\<^sub>1 = 0
      and wd\<^sub>2 = 0 and fuel = 2 and I = exImports and parts = "[''pods'', ''a'']"]
  note r1 = r [where req = ?req and out = "Chan 0" and body = "[]" and decoded = "Object []",
      THEN conjunct1, THEN conjunct1, rule_format, OF delete, THEN conjunct2, rule_format,
          OF nosync]
  note r2 = r [where req = ?put and out = "Chan 2" and body = "''{}''"
      and decoded = "Object ''{}''",
      THEN conjunct1, THEN conjunct1, rule_format, OF put, THEN conjunct1, rule_format, OF sync]
  note r3 = r [where q = "[(''timeout'', ''50ms'')]",
      THEN conjunct1, THEN conjunct2, THEN conjunct1, rule_format, OF absent]
  note r4 = r [where v = "''false''" and q = "[(''sync'', ''true'')]",
      THEN conjunct1, THEN conjunct2, THEN conjunct2, THEN conjunct1, rule_format, OF other]
  have st0: "calls exState = []"
    by (simp add: exState_def)
  from m nosync sync r1 r2 r3 r4
  have logged: "Method
      (exRequest ''DELETE'' ''/pods/a'' [(''sync'', ''TRUE''), (''timeout'', ''50ms'')] []) =
     ''DELETE''
   \<and> Query_Get (Query (exRequest ''DELETE'' ''/pods/a''
        [(''sync'', ''TRUE''), (''timeout'', ''50ms'')] [])) ''sync'' \<noteq> ''true''
   \<and> filter isWait (calls (snd (handleRESTStorage 2 exImports exServer [''pods'', ''a'']
        (exRequest ''DELETE'' ''/pods/a'' [(''sync'', ''TRUE''), (''timeout'', ''50ms'')] [])
        exStorage exState))) = [CallWaitFor (Operation ''1'') 25000000]
   \<and> Query_Get (Query (exRequest ''PUT'' ''/pods/a''
        [(''sync'', ''true''), (''timeout'', ''50ms'')] ''{}'')) ''sync'' = ''true''
   \<and> filter isWait (calls (snd (handleRESTStorage 2 exImports exServer [''pods'', ''a'']
        (exRequest ''PUT'' ''/pods/a'' [(''sync'', ''true''), (''timeout'', ''50ms'')] ''{}'')
        exStorage exState))) = [CallWaitFor (Operation ''1'') 50000000]
   \<and> Query_Get [(''timeout'', ''50ms'')] ''sync'' \<noteq> ''true''
   \<and> Query_Get [(''sync'', ''false''), (''sync'', ''true'')] ''sync'' \<noteq> ''true''"
    by (simp add: st0 t exServer_fields)
  note run = exRequest_def exState_def exImports_def exStorage_def exOps_def exCodec_def
    Millisecond_def Second_def exServer_fields Query_Get_def parseTimeout_def call_def
    createOperation_def finishReq_def numeral_2_eq_2
  have h1: "(Method
      (exRequest ''DELETE'' ''/pods/a'' [(''sync'', ''true''), (''timeout'', ''5ms'')] []) =
      ''DELETE'' \<and> length [''pods'', ''a''] = 2 \<and>
       Delete exStorage ([''pods'', ''a''] ! 1) (world exState) = (Ret (Inr (Chan 0)), 0) \<and>
       [CallDelete ''a''] = [CallDelete ([''pods'', ''a''] ! 1)]
     \<or> Method
         (exRequest ''DELETE'' ''/pods/a'' [(''sync'', ''true''), (''timeout'', ''5ms'')] []) =
         ''POST'' \<and> length [''pods'', ''a''] = 1 \<and>
         readBody (exRequest ''DELETE'' ''/pods/a''
         [(''sync'', ''true''), (''timeout'', ''5ms'')] []) = Inr ''{}'' \<and>
       New exStorage (world exState) = (Ret (Object []), 0) \<and>
       DecodeInto (codec exServer) ''{}'' (Object []) 0 = (Ret (Inr (Object ''{}'')), 0) \<and>
       Create exStorage (Object ''{}'') 0 = (Ret (Inr (Chan 0)), 0) \<and>
       [CallDelete ''a''] =
           [CallNew, CallDecodeInto ''{}'' (Object []), CallCreate (Object ''{}'')]
     \<or> Method
         (exRequest ''DELETE'' ''/pods/a'' [(''sync'', ''true''), (''timeout'', ''5ms'')] []) =
         ''PUT'' \<and> length [''pods'', ''a''] = 2 \<and>
         readBody (exRequest ''DELETE'' ''/pods/a''
         [(''sync'', ''true''), (''timeout'', ''5ms'')] []) = Inr ''{}'' \<and>
       New exStorage (world exState) = (Ret (Object []), 0) \<and>
       DecodeInto (codec exServer) ''{}'' (Object []) 0 = (Ret (Inr (Object ''{}'')), 0) \<and>
       Update exStorage (Object ''{}'') 0 = (Ret (Inr (Chan 0)), 0) \<and>
       [CallDelete ''a''] =
           [CallNew, CallDecodeInto ''{}'' (Object []), CallUpdate (Object ''{}'')]) \<and>
      NewOperation (ops exServer) (Chan 0) 0 = (Ret (Operation ''1''), 0) \<and>
      Query_Get (Query
          (exRequest ''DELETE'' ''/pods/a'' [(''sync'', ''true''), (''timeout'', ''5ms'')] []))
          ''sync'' = ''true'' \<and>
      WaitFor (ops exServer) (Operation ''1'')
          (fst (parseTimeout exImports
          (Query_Get (Query
          (exRequest ''DELETE'' ''/pods/a'' [(''sync'', ''true''), (''timeout'', ''5ms'')] []))
          ''timeout'') exState)) 0 =
        (Ret (), 5000000)"
    by (simp add: run readBody_def)
  note n1 = sync_only_true
      [where fuel = 2 and I = exImports and s = exServer and stor = exStorage
      and st = exState
      and req = "exRequest ''DELETE'' ''/pods/a'' [(''sync'', ''true''), (''timeout'', ''5ms'')]
          []"
      and parts = "[''pods'', ''a'']" and out = "Chan 0"
      and pre = "[CallDelete ''a'']" and body = "''{}''" and blank = "Object []"
      and decoded = "Object ''{}''" and op = "Operation ''1''" and wd\<^sub>1 = 0
      and wd\<^sub>2 = 0 and wd\<^sub>3 = 0 and wd\<^sub>4 = 0
      and wd\<^sub>5 = 5000000,
      THEN conjunct2, THEN conjunct1,
      rule_format, OF h1]
  have e1: "handleRESTStorage 2 exImports exServer [''pods'', ''a'']
      (exRequest ''DELETE'' ''/pods/a'' [(''sync'', ''true''), (''timeout'', ''5ms'')] [])
      exStorage exState =
      (Returned,
       exState\<lparr>world := 5000000,
          calls := [CallDelete ''a'', CallNewOperation (Chan 0),
              CallWaitFor (Operation ''1'') 5000000, CallStatusOrResult (Operation ''1''),
              CallEncode (StatusVal \<lparr>Code = 0, Details = ''1''\<rparr>)],
          writer := [HeaderSet ''Content-Type'' ''application/json'', WriteHeader 202,
              Write ''1'']\<rparr>)"
    unfolding n1 by (simp add: run)
  have h2: "(Method
      (exRequest ''DELETE'' ''/pods/a'' [(''sync'', ''TRUE''), (''timeout'', ''5ms'')] []) =
      ''DELETE'' \<and> length [''pods'', ''a''] = 2 \<and>
       Delete exStorage ([''pods'', ''a''] ! 1) (world exState) = (Ret (Inr (Chan 0)), 0) \<and>
       [CallDelete ''a''] = [CallDelete ([''pods'', ''a''] ! 1)]
     \<or> Method
         (exRequest ''DELETE'' ''/pods/a'' [(''sync'', ''TRUE''), (''timeout'', ''5ms'')] []) =
         ''POST'' \<and> length [''pods'', ''a''] = 1 \<and>
         readBody (exRequest ''DELETE'' ''/pods/a''
         [(''sync'', ''TRUE''), (''timeout'', ''5ms'')] []) = Inr ''{}'' \<and>
       New exStorage (world exState) = (Ret (Object []), 0) \<and>
       DecodeInto (codec exServer) ''{}'' (Object []) 0 = (Ret (Inr (Object ''{}'')), 0) \<and>
       Create exStorage (Object ''{}'') 0 = (Ret (Inr (Chan 0)), 0) \<and>
       [CallDelete ''a''] =
           [CallNew, CallDecodeInto ''{}'' (Object []), CallCreate (Object ''{}'')]
     \<or> Method
         (exRequest ''DELETE'' ''/pods/a'' [(''sync'', ''TRUE''), (''timeout'', ''5ms'')] []) =
         ''PUT'' \<and> length [''pods'', ''a''] = 2 \<and>
         readBody (exRequest ''DELETE'' ''/pods/a''
         [(''sync'', ''TRUE''), (''timeout'', ''5ms'')] []) = Inr ''{}'' \<and>
       New exStorage (world exState) = (Ret (Object []), 0) \<and>
       DecodeInto (codec exServer) ''{}'' (Object []) 0 = (Ret (Inr (Object ''{}'')), 0) \<and>
       Update exStorage (Object ''{}'') 0 = (Ret (Inr (Chan 0)), 0) \<and>
       [CallDelete ''a''] =
           [CallNew, CallDecodeInto ''{}'' (Object []), CallUpdate (Object ''{}'')]) \<and>
      NewOperation (ops exServer) (Chan 0) 0 = (Ret (Operation ''1''), 0) \<and>
      Query_Get (Query
          (exRequest ''DELETE'' ''/pods/a'' [(''sync'', ''TRUE''), (''timeout'', ''5ms'')] []))
          ''sync'' \<noteq> ''true'' \<and> asyncOpWait exServer \<noteq> 0 \<and>
      WaitFor (ops exServer) (Operation ''1'') (asyncOpWait exServer) 0 = (Ret (), 25000000)"
    by (simp add: run readBody_def)
  note n2 = sync_only_true
      [where fuel = 2 and I = exImports and s = exServer and stor = exStorage
      and st = exState
      and req = "exRequest ''DELETE'' ''/pods/a'' [(''sync'', ''TRUE''), (''timeout'', ''5ms'')]
          []"
      and parts = "[''pods'', ''a'']" and out = "Chan 0"
      and pre = "[CallDelete ''a'']" and body = "''{}''" and blank = "Object []"
      and decoded = "Object ''{}''" and op = "Operation ''1''" and wd\<^sub>1 = 0
      and wd\<^sub>2 = 0 and wd\<^sub>3 = 0 and wd\<^sub>4 = 0
      and wd\<^sub>5 = 25000000,
      THEN conjunct2, THEN conjunct2, THEN conjunct1,
      rule_format, OF h2]
  have e2: "handleRESTStorage 2 exImports exServer [''pods'', ''a'']
      (exRequest ''DELETE'' ''/pods/a'' [(''sync'', ''TRUE''), (''timeout'', ''5ms'')] [])
      exStorage exState =
      (Returned,
       exState\<lparr>world := 25000000,
          calls := [CallDelete ''a'', CallNewOperation (Chan 0),
              CallWaitFor (Operation ''1'') 25000000, CallStatusOrResult (Operation ''1''),
              CallEncode (Object ''done'')],
          writer := [HeaderSet ''Content-Type'' ''application/json'', WriteHeader 200,
              Write ''done'']\<rparr>)"
    unfolding n2 by (simp add: run)
  have h3: "(Method
      (exRequest ''DELETE'' ''/pods/a'' [(''sync'', ''1''), (''timeout'', ''5ms'')] []) =
      ''DELETE'' \<and> length [''pods'', ''a''] = 2 \<and>
       Delete exStorage ([''pods'', ''a''] ! 1) (world exState) = (Ret (Inr (Chan 0)), 0) \<and>
       [CallDelete ''a''] = [CallDelete ([''pods'', ''a''] ! 1)]
     \<or> Method
         (exRequest ''DELETE'' ''/pods/a'' [(''sync'', ''1''), (''timeout'', ''5ms'')] []) =
         ''POST'' \<and> length [''pods'', ''a''] = 1 \<and>
         readBody (exRequest ''DELETE'' ''/pods/a'' [(''sync'', ''1''), (''timeout'', ''5ms'')]
         []) = Inr ''{}'' \<and>
       New exStorage (world exState) = (Ret (Object []), 0) \<and>
       DecodeInto (codec exServer) ''{}'' (Object []) 0 = (Ret (Inr (Object ''{}'')), 0) \<and>
       Create exStorage (Object ''{}'') 0 = (Ret (Inr (Chan 0)), 0) \<and>
       [CallDelete ''a''] =
           [CallNew, CallDecodeInto ''{}'' (Object []), CallCreate (Object ''{}'')]
     \<or> Method
         (exRequest ''DELETE'' ''/pods/a'' [(''sync'', ''1''), (''timeout'', ''5ms'')] []) =
         ''PUT'' \<and> length [''pods'', ''a''] = 2 \<and>
         readBody (exRequest ''DELETE'' ''/pods/a'' [(''sync'', ''1''), (''timeout'', ''5ms'')]
         []) = Inr ''{}'' \<and>
       New exStorage (world exState) = (Ret (Object []), 0) \<and>
       DecodeInto (codec exServer) ''{}'' (Object []) 0 = (Ret (Inr (Object ''{}'')), 0) \<and>
       Update exStorage (Object ''{}'') 0 = (Ret (Inr (Chan 0)), 0) \<and>
       [CallDelete ''a''] =
           [CallNew, CallDecodeInto ''{}'' (Object []), CallUpdate (Object ''{}'')]) \<and>
      NewOperation (ops exServer) (Chan 0) 0 = (Ret (Operation ''1''), 0) \<and>
      Query_Get (Query
          (exRequest ''DELETE'' ''/pods/a'' [(''sync'', ''1''), (''timeout'', ''5ms'')] []))
          ''sync'' \<noteq> ''true'' \<and> asyncOpWait exServer \<noteq> 0 \<and>
      WaitFor (ops exServer) (Operation ''1'') (asyncOpWait exServer) 0 = (Ret (), 25000000)"
    by (simp add: run readBody_def)
  note n3 = sync_only_true
      [where fuel = 2 and I = exImports and s = exServer and stor = exStorage
      and st = exState
      and req = "exRequest ''DELETE'' ''/pods/a'' [(''sync'', ''1''), (''timeout'', ''5ms'')]
          []"
      and parts = "[''pods'', ''a'']" and out = "Chan 0"
      and pre = "[CallDelete ''a'']" and body = "''{}''" and blank = "Object []"
      and decoded = "Object ''{}''" and op = "Operation ''1''" and wd\<^sub>1 = 0
      and wd\<^sub>2 = 0 and wd\<^sub>3 = 0 and wd\<^sub>4 = 0
      and wd\<^sub>5 = 25000000,
      THEN conjunct2, THEN conjunct2, THEN conjunct1,
      rule_format, OF h3]
  have e3: "handleRESTStorage 2 exImports exServer [''pods'', ''a'']
      (exRequest ''DELETE'' ''/pods/a'' [(''sync'', ''1''), (''timeout'', ''5ms'')] [])
      exStorage exState =
      (Returned,
       exState\<lparr>world := 25000000,
          calls := [CallDelete ''a'', CallNewOperation (Chan 0),
              CallWaitFor (Operation ''1'') 25000000, CallStatusOrResult (Operation ''1''),
              CallEncode (Object ''done'')],
          writer := [HeaderSet ''Content-Type'' ''application/json'', WriteHeader 200,
              Write ''done'']\<rparr>)"
    unfolding n3 by (simp add: run)
  have h4: "(Method (exRequest ''DELETE'' ''/pods/a'' [(''timeout'', ''5ms'')] []) =
      ''DELETE'' \<and> length [''pods'', ''a''] = 2 \<and>
       Delete exStorage ([''pods'', ''a''] ! 1) (world exState) = (Ret (Inr (Chan 0)), 0) \<and>
       [CallDelete ''a''] = [CallDelete ([''pods'', ''a''] ! 1)]
     \<or> Method (exRequest ''DELETE'' ''/pods/a'' [(''timeout'', ''5ms'')] []) =
         ''POST'' \<and> length [''pods'', ''a''] = 1 \<and>
         readBody (exRequest ''DELETE'' ''/pods/a'' [(''timeout'', ''5ms'')] []) =
         Inr ''{}'' \<and>
       New exStorage (world exState) = (Ret (Object []), 0) \<and>
       DecodeInto (codec exServer) ''{}'' (Object []) 0 = (Ret (Inr (Object ''{}'')), 0) \<and>
       Create exStorage (Object ''{}'') 0 = (Ret (Inr (Chan 0)), 0) \<and>
       [CallDelete ''a''] =
           [CallNew, CallDecodeInto ''{}'' (Object []), CallCreate (Object ''{}'')]
     \<or> Method (exRequest ''DELETE'' ''/pods/a'' [(''timeout'', ''5ms'')] []) =
         ''PUT'' \<and> length [''pods'', ''a''] = 2 \<and>
         readBody (exRequest ''DELETE'' ''/pods/a'' [(''timeout'', ''5ms'')] []) =
         Inr ''{}'' \<and>
       New exStorage (world exState) = (Ret (Object []), 0) \<and>
       DecodeInto (codec exServer) ''{}'' (Object []) 0 = (Ret (Inr (Object ''{}'')), 0) \<and>
       Update exStorage (Object ''{}'') 0 = (Ret (Inr (Chan 0)), 0) \<and>
       [CallDelete ''a''] =
           [CallNew, CallDecodeInto ''{}'' (Object []), CallUpdate (Object ''{}'')]) \<and>
      NewOperation (ops exServer) (Chan 0) 0 = (Ret (Operation ''1''), 0) \<and>
      Query_Get (Query (exRequest ''DELETE'' ''/pods/a'' [(''timeout'', ''5ms'')] [])) ''sync''
          \<noteq> ''true'' \<and> asyncOpWait exServer \<noteq> 0 \<and>
      WaitFor (ops exServer) (Operation ''1'') (asyncOpWait exServer) 0 = (Ret (), 25000000)"
    by (simp add: run readBody_def)
  note n4 = sync_only_true
      [where fuel = 2 and I = exImports and s = exServer and stor = exStorage
      and st = exState
      and req = "exRequest ''DELETE'' ''/pods/a'' [(''timeout'', ''5ms'')] []"
      and parts = "[''pods'', ''a'']" and out = "Chan 0"
      and pre = "[CallDelete ''a'']" and body = "''{}''" and blank = "Object []"
      and decoded = "Object ''{}''" and op = "Operation ''1''" and wd\<^sub>1 = 0
      and wd\<^sub>2 = 0 and wd\<^sub>3 = 0 and wd\<^sub>4 = 0
      and wd\<^sub>5 = 25000000,
      THEN conjunct2, THEN conjunct2, THEN conjunct1,
      rule_format, OF h4]
  have e4: "handleRESTStorage 2 exImports exServer [''pods'', ''a'']
      (exRequest ''DELETE'' ''/pods/a'' [(''timeout'', ''5ms'')] []) exStorage exState =
      (Returned,
       exState\<lparr>world := 25000000,
          calls := [CallDelete ''a'', CallNewOperation (Chan 0),
              CallWaitFor (Operation ''1'') 25000000, CallStatusOrResult (Operation ''1''),
              CallEncode (Object ''done'')],
          writer := [HeaderSet ''Content-Type'' ''application/json'', WriteHeader 200,
              Write ''done'']\<rparr>)"
    unfolding n4 by (simp add: run)
  have h5: "(Method
      (exRequest ''DELETE'' ''/pods/a'' [(''sync'', ''yes''), (''timeout'', ''50ms'')] []) =
      ''DELETE'' \<and> length [''pods'', ''a''] = 2 \<and>
       Delete exStorage ([''pods'', ''a''] ! 1) (world exState) = (Ret (Inr (Chan 0)), 0) \<and>
       [CallDelete ''a''] = [CallDelete ([''pods'', ''a''] ! 1)]
     \<or> Method
         (exRequest ''DELETE'' ''/pods/a'' [(''sync'', ''yes''), (''timeout'', ''50ms'')] []) =
         ''POST'' \<and> length [''pods'', ''a''] = 1 \<and>
         readBody (exRequest ''DELETE'' ''/pods/a''
         [(''sync'', ''yes''), (''timeout'', ''50ms'')] []) = Inr ''{}'' \<and>
       New exStorage (world exState) = (Ret (Object []), 0) \<and>
       DecodeInto (codec (exServer\<lparr>asyncOpWait := 0\<rparr>)) ''{}'' (Object []) 0 =
           (Ret (Inr (Object ''{}'')), 0) \<and>
       Create exStorage (Object ''{}'') 0 = (Ret (Inr (Chan 0)), 0) \<and>
       [CallDelete ''a''] =
           [CallNew, CallDecodeInto ''{}'' (Object []), CallCreate (Object ''{}'')]
     \<or> Method
         (exRequest ''DELETE'' ''/pods/a'' [(''sync'', ''yes''), (''timeout'', ''50ms'')] []) =
         ''PUT'' \<and> length [''pods'', ''a''] = 2 \<and>
         readBody (exRequest ''DELETE'' ''/pods/a''
         [(''sync'', ''yes''), (''timeout'', ''50ms'')] []) = Inr ''{}'' \<and>
       New exStorage (world exState) = (Ret (Object []), 0) \<and>
       DecodeInto (codec (exServer\<lparr>asyncOpWait := 0\<rparr>)) ''{}'' (Object []) 0 =
           (Ret (Inr (Object ''{}'')), 0) \<and>
       Update exStorage (Object ''{}'') 0 = (Ret (Inr (Chan 0)), 0) \<and>
       [CallDelete ''a''] =
           [CallNew, CallDecodeInto ''{}'' (Object []), CallUpdate (Object ''{}'')]) \<and>
      NewOperation (ops (exServer\<lparr>asyncOpWait := 0\<rparr>)) (Chan 0) 0 =
          (Ret (Operation ''1''), 0) \<and>
      Query_Get (Query
          (exRequest ''DELETE'' ''/pods/a'' [(''sync'', ''yes''), (''timeout'', ''50ms'')] []))
          ''sync'' \<noteq> ''true'' \<and>
          asyncOpWait (exServer\<lparr>asyncOpWait := 0\<rparr>) = 0"
    by (simp add: run readBody_def)
  note n5 = sync_only_true
      [where fuel = 2 and I = exImports and s = "exServer\<lparr>asyncOpWait := 0\<rparr>"
      and stor = exStorage and st = exState
      and req = "exRequest ''DELETE'' ''/pods/a'' [(''sync'', ''yes''), (''timeout'', ''50ms'')]
          []"
      and parts = "[''pods'', ''a'']" and out = "Chan 0"
      and pre = "[CallDelete ''a'']" and body = "''{}''" and blank = "Object []"
      and decoded = "Object ''{}''" and op = "Operation ''1''" and wd\<^sub>1 = 0
      and wd\<^sub>2 = 0 and wd\<^sub>3 = 0 and wd\<^sub>4 = 0,
      THEN conjunct2, THEN conjunct2, THEN conjunct2,
      rule_format, OF h5]
  have e5: "handleRESTStorage 2 exImports (exServer\<lparr>asyncOpWait := 0\<rparr>)
      [''pods'', ''a'']
      (exRequest ''DELETE'' ''/pods/a'' [(''sync'', ''yes''), (''timeout'', ''50ms'')] [])
      exStorage exState =
      (Returned,
       exState\<lparr>world := 0,
          calls := [CallDelete ''a'', CallNewOperation (Chan 0),
              CallStatusOrResult (Operation ''1''),
              CallEncode (StatusVal \<lparr>Code = 0, Details = ''1''\<rparr>)],
          writer := [HeaderSet ''Content-Type'' ''application/json'', WriteHeader 202,
              Write ''1'']\<rparr>)"
    unfolding n5 by (simp add: run)
  show ?thesis
    by (rule conjI [OF logged]) (intro conjI; rule e1 e2 e3 e4 e5)
qed

subsection \<open>Finishing a request\<close>



lemma finishReq_nil:
  assumes "StatusOrResult (ops s) op (world st) = (Ret (StatusNil, True), wd)"
  shows "finishReq fuel I s op st =
        (Panicked ''invalid memory address or nil pointer dereference'',
         st\<lparr>world := wd, calls := calls st @ [CallStatusOrResult op]\<rparr>)"
  unfolding finishReq_def
    call_Ret [of "StatusOrResult (ops s) op" st "(StatusNil, True)" wd, OF assms]
  by simp

text \<open>
  A mutating request that reaches the registry ends in \<open>finishReq\<close>, in the world that
  the wait left (or, without a wait, that making the operation left).
\<close>

lemma mutating_finish:
  assumes "Method req = ''DELETE'' \<and> length parts = 2 \<and>
       Delete stor (parts ! 1) (world st) = (Ret (Inr out), wd\<^sub>3) \<and>
       pre = [CallDelete (parts ! 1)]
     \<or> Method req = ''POST'' \<and> length parts = 1 \<and> readBody req = Inr body \<and>
       New stor (world st) = (Ret blank, wd\<^sub>1) \<and>
       DecodeInto (codec s) body blank wd\<^sub>1 = (Ret (Inr decoded), wd\<^sub>2) \<and>
       Create stor decoded wd\<^sub>2 = (Ret (Inr out), wd\<^sub>3) \<and>
       pre = [CallNew, CallDecodeInto body blank, CallCreate decoded]
     \<or> Method req = ''PUT'' \<and> length parts = 2 \<and> readBody req = Inr body \<and>
       New stor (world st) = (Ret blank, wd\<^sub>1) \<and>
       DecodeInto (codec s) body blank wd\<^sub>1 = (Ret (Inr decoded), wd\<^sub>2) \<and>
       Update stor decoded wd\<^sub>2 = (Ret (Inr out), wd\<^sub>3) \<and>
       pre = [CallNew, CallDecodeInto body blank, CallUpdate decoded]"
    and "NewOperation (ops s) out wd\<^sub>3 = (Ret op, wd\<^sub>4)"
    and "(Query_Get (Query req) ''sync'' = ''true'' \<or> asyncOpWait s \<noteq> 0) \<and>
       WaitFor (ops s) op
         (if Query_Get (Query req) ''sync'' = ''true''
           then fst (parseTimeout I (Query_Get (Query req) ''timeout'') st)
           else asyncOpWait s) wd\<^sub>4 = (Ret (), wd\<^sub>5) \<and>
       ws = [CallWaitFor op
               (if Query_Get (Query req) ''sync'' = ''true''
           then fst (parseTimeout I (Query_Get (Query req) ''timeout'') st)
           else asyncOpWait s)]
     \<or> Query_Get (Query req) ''sync'' \<noteq> ''true'' \<and> asyncOpWait s = 0 \<and> wd\<^sub>5 = wd\<^sub>4 \<and>
       ws = []"
  shows "handleRESTStorage fuel I s parts req stor st =
     finishReq fuel I s op
       ((snd (parseTimeout I (Query_Get (Query req) ''timeout'') st))
          \<lparr>world := wd\<^sub>5, calls := calls st @ pre @ [CallNewOperation out] @ ws\<rparr>)"
  using assms(3)
proof (rule disjE)
  assume a: "(Query_Get (Query req) ''sync'' = ''true'' \<or> asyncOpWait s \<noteq> 0) \<and>
       WaitFor (ops s) op
         (if Query_Get (Query req) ''sync'' = ''true''
           then fst (parseTimeout I (Query_Get (Query req) ''timeout'') st)
           else asyncOpWait s) wd\<^sub>4 = (Ret (), wd\<^sub>5) \<and>
       ws = [CallWaitFor op
               (if Query_Get (Query req) ''sync'' = ''true''
           then fst (parseTimeout I (Query_Get (Query req) ''timeout'') st)
           else asyncOpWait s)]"
  note w = a [THEN conjunct1] and wf = a [THEN conjunct2, THEN conjunct1]
    and ws = a [THEN conjunct2, THEN conjunct2]
  show ?thesis
    unfolding mutating_waited [OF assms(1) assms(2) w wf] ws by simp
next
  assume a: "Query_Get (Query req) ''sync'' \<noteq> ''true'' \<and> asyncOpWait s = 0 \<and> wd\<^sub>5 = wd\<^sub>4 \<and>
       ws = []"
  note sync = a [THEN conjunct1] and async = a [THEN conjunct2, THEN conjunct1]
    and wd = a [THEN conjunct2, THEN conjunct2, THEN conjunct1]
    and ws = a [THEN conjunct2, THEN conjunct2, THEN conjunct2]
  show ?thesis
    unfolding mutating_unwaited [OF assms(1) assms(2) sync async] ws wd by simp
qed







lemma mutating_nil:
  assumes mut: "Method req = ''DELETE'' \<and> length parts = 2 \<and>
       Delete stor (parts ! 1) (world st) = (Ret (Inr out), wd\<^sub>3) \<and>
       pre = [CallDelete (parts ! 1)]
     \<or> Method req = ''POST'' \<and> length parts = 1 \<and> readBody req = Inr body \<and>
       New stor (world st) = (Ret blank, wd\<^sub>1) \<and>
       DecodeInto (codec s) body blank wd\<^sub>1 = (Ret (Inr decoded), wd\<^sub>2) \<and>
       Create stor decoded wd\<^sub>2 = (Ret (Inr out), wd\<^sub>3) \<and>
       pre = [CallNew, CallDecodeInto body blank, CallCreate decoded]
     \<or> Method req = ''PUT'' \<and> length parts = 2 \<and> readBody req = Inr body \<and>
       New stor (world st) = (Ret blank, wd\<^sub>1) \<and>
       DecodeInto (codec s) body blank wd\<^sub>1 = (Ret (Inr decoded), wd\<^sub>2) \<and>
       Update stor decoded wd\<^sub>2 = (Ret (Inr out), wd\<^sub>3) \<and>
       pre = [CallNew, CallDecodeInto body blank, CallUpdate decoded]"
    and new: "NewOperation (ops s) out wd\<^sub>3 = (Ret op, wd\<^sub>4)"
    and wait: "(Query_Get (Query req) ''sync'' = ''true'' \<or> asyncOpWait s \<noteq> 0) \<and>
       WaitFor (ops s) op
         (if Query_Get (Query req) ''sync'' = ''true''
           then fst (parseTimeout I (Query_Get (Query req) ''timeout'') st)
           else asyncOpWait s) wd\<^sub>4 = (Ret (), wd\<^sub>5) \<and>
       ws = [CallWaitFor op
               (if Query_Get (Query req) ''sync'' = ''true''
           then fst (parseTimeout I (Query_Get (Query req) ''timeout'') st)
           else asyncOpWait s)]
     \<or> Query_Get (Query req) ''sync'' \<noteq> ''true'' \<and> asyncOpWait s = 0 \<and> wd\<^sub>5 = wd\<^sub>4 \<and>
       ws = []"
    and sor: "StatusOrResult (ops s) op wd\<^sub>5 = (Ret (StatusNil, True), wd\<^sub>6)"
  shows "handleRESTStorage fuel I s parts req stor st =
        (Panicked ''invalid memory address or nil pointer dereference'',
         (snd (parseTimeout I (Query_Get (Query req) ''timeout'') st))
           \<lparr>world := wd\<^sub>6,
            calls := calls st @ pre @ [CallNewOperation out] @ ws @ [CallStatusOrResult op]\<rparr>)"
proof -
  let ?st = "(snd (parseTimeout I (Query_Get (Query req) ''timeout'') st))
          \<lparr>world := wd\<^sub>5, calls := calls st @ pre @ [CallNewOperation out] @ ws\<rparr>"
  have sor': "StatusOrResult (ops s) op (world ?st) = (Ret (StatusNil, True), wd\<^sub>6)"
    using sor by simp
  show ?thesis
    unfolding mutating_finish [OF mut new wait] finishReq_nil [OF sor']
    by simp
qed





subsection \<open>Rendering an error\<close>

lemma errorJSON_encoded:
  assumes "Encode cdc (StatusPtr (errToAPIStatus I err)) (world st) = (Ret (Inr outp), wd)"
  shows "errorJSON (Suc fuel) I err cdc st =
     (Returned,
      st\<lparr>world := wd, calls := calls st @ [CallEncode (StatusPtr (errToAPIStatus I err))],
         writer := writer st @
           [HeaderSet ''Content-Type'' ''application/json'',
            WriteHeader (Code (errToAPIStatus I err)), Write outp]\<rparr>)"
  unfolding errorJSON_eq using assms by (rule writeJSON_encoded)

lemma isEncode_not_backend: "isEncode e \<Longrightarrow> \<not> backend e"
  by (cases e) simp_all

lemma isEncode_not_routed: "isEncode e \<Longrightarrow> \<not> routed e"
  by (cases e) simp_all

lemma isEncode_not_isRegistry: "isEncode e \<Longrightarrow> \<not> isRegistry e"
  by (cases e) simp_all

lemma errorJSON_quiet:
  "filter backend (calls (snd (errorJSON fuel I err cdc st))) = filter backend (calls st)"
  "filter routed (calls (snd (errorJSON fuel I err cdc st))) = filter routed (calls st)"
  "filter isRegistry (calls (snd (errorJSON fuel I err cdc st))) = filter isRegistry (calls st)"
  by (rule only_filter [OF only_errorJSON]; simp add: isEncode_not_backend isEncode_not_routed
      isEncode_not_isRegistry)+

text \<open>
  C6. A selector that does not parse. On a GET request with one path segment whose
  \<open>labels\<close> parameter fails to parse, the dispatcher renders the parse error as an error
  status (the status object that \<open>errToAPIStatus\<close> makes of it, with its code) and
  calls no method of the backend, \<open>List\<close> included, however the rendering goes.
\<close>

theorem selector_error:
  "(Method req = ''GET'' \<and> length parts = 1 \<and>
      ParseSelector I (Query_Get (Query req) ''labels'') = Inl err \<longrightarrow>
      handleRESTStorage fuel I s parts req stor st =
        errorJSON fuel I err (codec s)
          (snd (parseTimeout I (Query_Get (Query req) ''timeout'') st)) \<and>
      filter backend (calls (snd (handleRESTStorage fuel I s parts req stor st))) =
        filter backend (calls st) \<and>
      filter isRegistry (calls (snd (handleRESTStorage fuel I s parts req stor st))) =
        filter isRegistry (calls st))
   \<and> (Method req = ''GET'' \<and> length parts = 1 \<and>
      ParseSelector I (Query_Get (Query req) ''labels'') = Inl err \<and>
      Encode (codec s) (StatusPtr (errToAPIStatus I err)) (world st) = (Ret (Inr outp), wd) \<longrightarrow>
      fst (handleRESTStorage (Suc fuel) I s parts req stor st) = Returned \<and>
      writer (snd (handleRESTStorage (Suc fuel) I s parts req stor st)) =
        writer st @
          [HeaderSet ''Content-Type'' ''application/json'',
           WriteHeader (Code (errToAPIStatus I err)), Write outp] \<and>
      calls (snd (handleRESTStorage (Suc fuel) I s parts req stor st)) =
        calls st @ [CallEncode (StatusPtr (errToAPIStatus I err))])"
proof (intro conjI impI)
  assume a: "Method req = ''GET'' \<and> length parts = 1 \<and>
      ParseSelector I (Query_Get (Query req) ''labels'') = Inl err"
  then have eq: "handleRESTStorage fuel I s parts req stor st =
        errorJSON fuel I err (codec s)
          (snd (parseTimeout I (Query_Get (Query req) ''timeout'') st))"
    by (simp add: route_list)
  then show "handleRESTStorage fuel I s parts req stor st =
        errorJSON fuel I err (codec s)
          (snd (parseTimeout I (Query_Get (Query req) ''timeout'') st))" .
  show "filter backend (calls (snd (handleRESTStorage fuel I s parts req stor st))) =
        filter backend (calls st)"
    by (simp only: eq errorJSON_quiet parseTimeout_fields)
  show "filter isRegistry (calls (snd (handleRESTStorage fuel I s parts req stor st))) =
        filter isRegistry (calls st)"
    by (simp only: eq errorJSON_quiet parseTimeout_fields)
next
  assume a: "Method req = ''GET'' \<and> length parts = 1 \<and>
      ParseSelector I (Query_Get (Query req) ''labels'') = Inl err \<and>
      Encode (codec s) (StatusPtr (errToAPIStatus I err)) (world st) = (Ret (Inr outp), wd)"
  then have "Encode (codec s) (StatusPtr (errToAPIStatus I err))
      (world (snd (parseTimeout I (Query_Get (Query req) ''timeout'') st))) = (Ret (Inr outp), wd)"
    by simp
  note r = errorJSON_encoded [OF this, of fuel]
  from a have eq: "handleRESTStorage (Suc fuel) I s parts req stor st =
        errorJSON (Suc fuel) I err (codec s)
          (snd (parseTimeout I (Query_Get (Query req) ''timeout'') st))"
    by (simp add: route_list)
  show "fst (handleRESTStorage (Suc fuel) I s parts req stor st) = Returned"
    unfolding eq r by simp
  show "writer (snd (handleRESTStorage (Suc fuel) I s parts req stor st)) =
        writer st @
          [HeaderSet ''Content-Type'' ''application/json'',
           WriteHeader (Code (errToAPIStatus I err)), Write outp]"
    unfolding eq r by simp
  show "calls (snd (handleRESTStorage (Suc fuel) I s parts req stor st)) =
        calls st @ [CallEncode (StatusPtr (errToAPIStatus I err))]"
    unfolding eq r by simp
qed

theorem selector_error_witness:
  "Method (exRequest ''GET'' ''/pods'' [(''labels'', ''=='')] []) = ''GET''
   \<and> ParseSelector exImports
       (Query_Get (Query (exRequest ''GET'' ''/pods'' [(''labels'', ''=='')] [])) ''labels'') =
       Inl (Err ''invalid selector'')
   \<and> filter backend (calls (snd (handleRESTStorage 0 exImports exServer [''pods'']
        (exRequest ''GET'' ''/pods'' [(''labels'', ''=='')] []) exStorage exState))) = []
   \<and> writer (snd (handleRESTStorage (Suc 0) exImports exServer [''pods'']
        (exRequest ''GET'' ''/pods'' [(''labels'', ''=='')] []) exStorage exState)) =
       [HeaderSet ''Content-Type'' ''application/json'', WriteHeader 500,
        Write ''invalid selector'']
   \<and> calls (snd (handleRESTStorage (Suc 0) exImports exServer [''pods'']
        (exRequest ''GET'' ''/pods'' [(''labels'', ''=='')] []) exStorage exState)) =
       [CallEncode (StatusPtr \<lparr>Code = 500, Details = ''invalid selector''\<rparr>)]"
proof -
  let ?req = "exRequest ''GET'' ''/pods'' [(''labels'', ''=='')] []"
  have a: "Method ?req = ''GET'' \<and> length [''pods''] = 1 \<and>
      ParseSelector exImports (Query_Get (Query ?req) ''labels'') =
        Inl (Err ''invalid selector'') \<and>
      Encode (codec exServer) (StatusPtr (errToAPIStatus exImports (Err ''invalid selector'')))
        (world exState) = (Ret (Inr ''invalid selector''), 0)"
    by (simp add: ex_defs Query_Get_def)
  have b: "Method ?req = ''GET'' \<and> length [''pods''] = 1 \<and>
      ParseSelector exImports (Query_Get (Query ?req) ''labels'') =
        Inl (Err ''invalid selector'')"
    using a by blast
  note r = selector_error [where req = ?req and parts = "[''pods'']" and I = exImports
      and err = "Err ''invalid selector''" and s = exServer and st = exState
      and outp = "''invalid selector''" and wd = 0 and fuel = 0 and stor = exStorage]
  note r1 = r [THEN conjunct1, rule_format, OF b, THEN conjunct2, THEN conjunct1]
  note r2 = r [THEN conjunct2, rule_format, OF a, THEN conjunct2]
  have e: "errToAPIStatus exImports (Err ''invalid selector'') =
      \<lparr>Code = 500, Details = ''invalid selector''\<rparr>"
    by (simp add: exImports_def)
  have st0: "writer exState = []" "calls exState = []"
    by (simp_all add: exState_def)
  from a r1 r2 show ?thesis
    by (simp add: e st0)
qed

subsection \<open>A body that cannot be read or decoded\<close>

lemma body_unread:
  assumes "Method req = ''POST'' \<and> length parts = 1 \<or> Method req = ''PUT'' \<and> length parts = 2"
    and "readBody req = Inl err"
  shows "handleRESTStorage fuel I s parts req stor st =
     errorJSON fuel I err (codec s) (snd (parseTimeout I (Query_Get (Query req) ''timeout'') st))"
  using assms by (auto simp add: route_create route_update simp del: errorJSON.simps)

lemma body_undecoded:
  assumes "Method req = ''POST'' \<and> length parts = 1 \<or> Method req = ''PUT'' \<and> length parts = 2"
    and "readBody req = Inr body"
    and "New stor (world st) = (Ret blank, wd\<^sub>1)"
    and "DecodeInto (codec s) body blank wd\<^sub>1 = (Ret (Inl err), wd\<^sub>2)"
  shows "handleRESTStorage fuel I s parts req stor st =
     errorJSON fuel I err (codec s)
       ((snd (parseTimeout I (Query_Get (Query req) ''timeout'') st))
          \<lparr>world := wd\<^sub>2, calls := calls st @ [CallNew, CallDecodeInto body blank]\<rparr>)"
  using assms by (auto simp add: route_create route_update call_Ret simp del: errorJSON.simps)

text \<open>
  C10. A malformed body. On a POST request with one path segment and on a PUT request with
  two, when reading the body fails the dispatcher renders the read error and calls no
  method of the backend; when the codec fails to decode the body into the object that the
  backend's \<open>New\<close> gave, the dispatcher renders the decode error, and \<open>New\<close> is the only
  method of the backend it has called. In both cases neither \<open>Create\<close> nor \<open>Update\<close>
  is called and the operation registry is not touched, however the rendering goes; and
  when the codec encodes the error status, that status is the response.
\<close>

theorem malformed_body:
  "((Method req = ''POST'' \<and> length parts = 1 \<or> Method req = ''PUT'' \<and> length parts = 2) \<and>
      readBody req = Inl err \<longrightarrow>
      handleRESTStorage fuel I s parts req stor st =
        errorJSON fuel I err (codec s)
          (snd (parseTimeout I (Query_Get (Query req) ''timeout'') st)) \<and>
      filter backend (calls (snd (handleRESTStorage fuel I s parts req stor st))) =
        filter backend (calls st) \<and>
      filter isRegistry (calls (snd (handleRESTStorage fuel I s parts req stor st))) =
        filter isRegistry (calls st))
   \<and> ((Method req = ''POST'' \<and> length parts = 1 \<or> Method req = ''PUT'' \<and> length parts = 2) \<and>
      readBody req = Inr body \<and> New stor (world st) = (Ret blank, wd\<^sub>1) \<and>
      DecodeInto (codec s) body blank wd\<^sub>1 = (Ret (Inl err), wd\<^sub>2) \<longrightarrow>
      handleRESTStorage fuel I s parts req stor st =
        errorJSON fuel I err (codec s)
          ((snd (parseTimeout I (Query_Get (Query req) ''timeout'') st))
             \<lparr>world := wd\<^sub>2, calls := calls st @ [CallNew, CallDecodeInto body blank]\<rparr>) \<and>
      filter backend (calls (snd (handleRESTStorage fuel I s parts req stor st))) =
        filter backend (calls st) @ [CallNew] \<and>
      filter routed (calls (snd (handleRESTStorage fuel I s parts req stor st))) =
        filter routed (calls st) \<and>
      filter isRegistry (calls (snd (handleRESTStorage fuel I s parts req stor st))) =
        filter isRegistry (calls st))
   \<and> ((Method req = ''POST'' \<and> length parts = 1 \<or> Method req = ''PUT'' \<and> length parts = 2) \<and>
      readBody req = Inl err \<and>
      Encode (codec s) (StatusPtr (errToAPIStatus I err)) (world st) = (Ret (Inr outp), wd) \<longrightarrow>
      fst (handleRESTStorage (Suc fuel) I s parts req stor st) = Returned \<and>
      writer (snd (handleRESTStorage (Suc fuel) I s parts req stor st)) =
        writer st @
          [HeaderSet ''Content-Type'' ''application/json'',
           WriteHeader (Code (errToAPIStatus I err)), Write outp])
   \<and> ((Method req = ''POST'' \<and> length parts = 1 \<or> Method req = ''PUT'' \<and> length parts = 2) \<and>
      readBody req = Inr body \<and> New stor (world st) = (Ret blank, wd\<^sub>1) \<and>
      DecodeInto (codec s) body blank wd\<^sub>1 = (Ret (Inl err), wd\<^sub>2) \<and>
      Encode (codec s) (StatusPtr (errToAPIStatus I err)) wd\<^sub>2 = (Ret (Inr outp), wd) \<longrightarrow>
      fst (handleRESTStorage (Suc fuel) I s parts req stor st) = Returned \<and>
      writer (snd (handleRESTStorage (Suc fuel) I s parts req stor st)) =
        writer st @
          [HeaderSet ''Content-Type'' ''application/json'',
           WriteHeader (Code (errToAPIStatus I err)), Write outp] \<and>
      calls (snd (handleRESTStorage (Suc fuel) I s parts req stor st)) =
        calls st @
          [CallNew, CallDecodeInto body blank, CallEncode (StatusPtr (errToAPIStatus I err))])"
proof (intro conjI impI)
  assume a: "(Method req = ''POST'' \<and> length parts = 1 \<or>
      Method req = ''PUT'' \<and> length parts = 2) \<and> readBody req = Inl err"
  then have eq: "handleRESTStorage fuel I s parts req stor st =
        errorJSON fuel I err (codec s)
          (snd (parseTimeout I (Query_Get (Query req) ''timeout'') st))"
    by (intro body_unread) simp_all
  then show "handleRESTStorage fuel I s parts req stor st =
        errorJSON fuel I err (codec s)
          (snd (parseTimeout I (Query_Get (Query req) ''timeout'') st))" .
  show "filter backend (calls (snd (handleRESTStorage fuel I s parts req stor st))) =
        filter backend (calls st)"
    by (simp only: eq errorJSON_quiet parseTimeout_fields)
  show "filter isRegistry (calls (snd (handleRESTStorage fuel I s parts req stor st))) =
        filter isRegistry (calls st)"
    by (simp only: eq errorJSON_quiet parseTimeout_fields)
next
  assume a: "(Method req = ''POST'' \<and> length parts = 1 \<or>
      Method req = ''PUT'' \<and> length parts = 2) \<and>
      readBody req = Inr body \<and> New stor (world st) = (Ret blank, wd\<^sub>1) \<and>
      DecodeInto (codec s) body blank wd\<^sub>1 = (Ret (Inl err), wd\<^sub>2)"
  let ?st = "(snd (parseTimeout I (Query_Get (Query req) ''timeout'') st))
             \<lparr>world := wd\<^sub>2, calls := calls st @ [CallNew, CallDecodeInto body blank]\<rparr>"
  from a have eq: "handleRESTStorage fuel I s parts req stor st =
      errorJSON fuel I err (codec s) ?st"
    by (blast intro: body_undecoded)
  then show "handleRESTStorage fuel I s parts req stor st =
      errorJSON fuel I err (codec s) ?st" .
  have "filter backend (calls (snd (errorJSON fuel I err (codec s) ?st))) =
      filter backend (calls ?st)"
    by (rule errorJSON_quiet)
  then show "filter backend (calls (snd (handleRESTStorage fuel I s parts req stor st))) =
        filter backend (calls st) @ [CallNew]"
    unfolding eq by simp
  have "filter routed (calls (snd (errorJSON fuel I err (codec s) ?st))) =
      filter routed (calls ?st)"
    by (rule errorJSON_quiet)
  then show "filter routed (calls (snd (handleRESTStorage fuel I s parts req stor st))) =
        filter routed (calls st)"
    unfolding eq by simp
  have "filter isRegistry (calls (snd (errorJSON fuel I err (codec s) ?st))) =
      filter isRegistry (calls ?st)"
    by (rule errorJSON_quiet)
  then show "filter isRegistry (calls (snd (handleRESTStorage fuel I s parts req stor st))) =
        filter isRegistry (calls st)"
    unfolding eq by simp
next
  assume a: "(Method req = ''POST'' \<and> length parts = 1 \<or>
      Method req = ''PUT'' \<and> length parts = 2) \<and> readBody req = Inl err \<and>
      Encode (codec s) (StatusPtr (errToAPIStatus I err)) (world st) = (Ret (Inr outp), wd)"
  then have eq: "handleRESTStorage (Suc fuel) I s parts req stor st =
        errorJSON (Suc fuel) I err (codec s)
          (snd (parseTimeout I (Query_Get (Query req) ''timeout'') st))"
    by (intro body_unread) simp_all
  from a have "Encode (codec s) (StatusPtr (errToAPIStatus I err))
      (world (snd (parseTimeout I (Query_Get (Query req) ''timeout'') st))) = (Ret (Inr outp), wd)"
    by simp
  note r = errorJSON_encoded [OF this, of fuel]
  show "fst (handleRESTStorage (Suc fuel) I s parts req stor st) = Returned"
    unfolding eq r by simp
  show "writer (snd (handleRESTStorage (Suc fuel) I s parts req stor st)) =
        writer st @
          [HeaderSet ''Content-Type'' ''application/json'',
           WriteHeader (Code (errToAPIStatus I err)), Write outp]"
    unfolding eq r by simp
next
  assume a: "(Method req = ''POST'' \<and> length parts = 1 \<or>
      Method req = ''PUT'' \<and> length parts = 2) \<and>
      readBody req = Inr body \<and> New stor (world st) = (Ret blank, wd\<^sub>1) \<and>
      DecodeInto (codec s) body blank wd\<^sub>1 = (Ret (Inl err), wd\<^sub>2) \<and>
      Encode (codec s) (StatusPtr (errToAPIStatus I err)) wd\<^sub>2 = (Ret (Inr outp), wd)"
  let ?st = "(snd (parseTimeout I (Query_Get (Query req) ''timeout'') st))
             \<lparr>world := wd\<^sub>2, calls := calls st @ [CallNew, CallDecodeInto body blank]\<rparr>"
  from a have eq: "handleRESTStorage (Suc fuel) I s parts req stor st =
      errorJSON (Suc fuel) I err (codec s) ?st"
    by (blast intro: body_undecoded)
  from a have "Encode (codec s) (StatusPtr (errToAPIStatus I err)) (world ?st) =
      (Ret (Inr outp), wd)"
    by simp
  note r = errorJSON_encoded [OF this, of fuel]
  show "fst (handleRESTStorage (Suc fuel) I s parts req stor st) = Returned"
    unfolding eq r by simp
  show "writer (snd (handleRESTStorage (Suc fuel) I s parts req stor st)) =
        writer st @
          [HeaderSet ''Content-Type'' ''application/json'',
           WriteHeader (Code (errToAPIStatus I err)), Write outp]"
    unfolding eq r by simp
  show "calls (snd (handleRESTStorage (Suc fuel) I s parts req stor st)) =
        calls st @
          [CallNew, CallDecodeInto body blank, CallEncode (StatusPtr (errToAPIStatus I err))]"
    unfolding eq r by simp
qed

theorem malformed_body_witness:
  "readBody (exRequest ''POST'' ''/pods'' [] ''{'') = Inr ''{''
   \<and> DecodeInto (codec exServer) ''{'' (Object []) 0 =
       (Ret (Inl (Err ''unexpected end of JSON input'')), 0)
   \<and> writer (snd (handleRESTStorage (Suc 0) exImports exServer [''pods'']
        (exRequest ''POST'' ''/pods'' [] ''{'') exStorage exState)) =
       [HeaderSet ''Content-Type'' ''application/json'', WriteHeader 500,
        Write ''unexpected end of JSON input'']
   \<and> calls (snd (handleRESTStorage (Suc 0) exImports exServer [''pods'']
        (exRequest ''POST'' ''/pods'' [] ''{'') exStorage exState)) =
       [CallNew, CallDecodeInto ''{'' (Object []),
        CallEncode (StatusPtr \<lparr>Code = 500, Details = ''unexpected end of JSON input''\<rparr>)]
   \<and> filter backend (calls (snd (handleRESTStorage 0 exImports exServer [''pods'']
        (exRequest ''POST'' ''/pods'' [] ''{'') exStorage exState))) = [CallNew]
   \<and> filter isRegistry (calls (snd (handleRESTStorage 0 exImports exServer [''pods'']
        (exRequest ''POST'' ''/pods'' [] ''{'') exStorage exState))) = []
   \<and> readBody (exRequest ''PUT'' ''/pods/a'' [] []\<lparr>Body := Inl (Err ''unexpected EOF'')\<rparr>) =
       Inl (Err ''unexpected EOF'')
   \<and> writer (snd (handleRESTStorage (Suc 0) exImports exServer [''pods'', ''a'']
        (exRequest ''PUT'' ''/pods/a'' [] []\<lparr>Body := Inl (Err ''unexpected EOF'')\<rparr>)
        exStorage exState)) =
       [HeaderSet ''Content-Type'' ''application/json'', WriteHeader 500,
        Write ''unexpected EOF'']
   \<and> filter backend (calls (snd (handleRESTStorage (Suc 0) exImports exServer [''pods'', ''a'']
        (exRequest ''PUT'' ''/pods/a'' [] []\<lparr>Body := Inl (Err ''unexpected EOF'')\<rparr>)
        exStorage exState))) = []"
proof -
  let ?post = "exRequest ''POST'' ''/pods'' [] ''{''"
  let ?put = "exRequest ''PUT'' ''/pods/a'' [] []\<lparr>Body := Inl (Err ''unexpected EOF'')\<rparr>"
  have undecoded:
    "(Method ?post = ''POST'' \<and> length [''pods''] = 1 \<or>
      Method ?post = ''PUT'' \<and> length [''pods''] = 2) \<and>
     readBody ?post = Inr ''{'' \<and> New exStorage (world exState) = (Ret (Object []), 0) \<and>
     DecodeInto (codec exServer) ''{'' (Object []) 0 =
       (Ret (Inl (Err ''unexpected end of JSON input'')), 0) \<and>
     Encode (codec exServer)
       (StatusPtr (errToAPIStatus exImports (Err ''unexpected end of JSON input''))) 0 =
       (Ret (Inr ''unexpected end of JSON input''), 0)"
    by (simp add: ex_defs readBody_def)
  have unread:
    "(Method ?put = ''POST'' \<and> length [''pods'', ''a''] = 1 \<or>
      Method ?put = ''PUT'' \<and> length [''pods'', ''a''] = 2) \<and>
     readBody ?put = Inl (Err ''unexpected EOF'') \<and>
     Encode (codec exServer) (StatusPtr (errToAPIStatus exImports (Err ''unexpected EOF'')))
       (world exState) = (Ret (Inr ''unexpected EOF''), 0)"
    by (simp add: ex_defs readBody_def)
  have unread': "(Method ?put = ''POST'' \<and> length [''pods'', ''a''] = 1 \<or>
      Method ?put = ''PUT'' \<and> length [''pods'', ''a''] = 2) \<and>
     readBody ?put = Inl (Err ''unexpected EOF'')"
    using unread by blast
  note r = malformed_body [where I = exImports and s = exServer and stor = exStorage
      and st = exState and fuel = 0]
  note r1 = r [where req = ?post and parts = "[''pods'']" and body = "''{''"
      and blank = "Object []" and wd\<^sub>1 = 0 and wd\<^sub>2 = 0 and wd = 0
      and err = "Err ''unexpected end of JSON input''"
      and outp = "''unexpected end of JSON input''",
      THEN conjunct2, THEN conjunct2, THEN conjunct2, rule_format, OF undecoded,
      THEN conjunct2]
  note r2 = r [where req = ?put and parts = "[''pods'', ''a'']" and wd = 0
      and err = "Err ''unexpected EOF''" and outp = "''unexpected EOF''",
      THEN conjunct2, THEN conjunct2, THEN conjunct1, rule_format, OF unread,
      THEN conjunct2]
  note r3 = malformed_body [where I = exImports and s = exServer and stor = exStorage
      and st = exState and fuel = "Suc 0" and req = ?put and parts = "[''pods'', ''a'']"
      and err = "Err ''unexpected EOF''",
      THEN conjunct1, rule_format, OF unread', THEN conjunct2, THEN conjunct1]
  have undecoded': "(Method ?post = ''POST'' \<and> length [''pods''] = 1 \<or>
      Method ?post = ''PUT'' \<and> length [''pods''] = 2) \<and>
     readBody ?post = Inr ''{'' \<and> New exStorage (world exState) = (Ret (Object []), 0) \<and>
     DecodeInto (codec exServer) ''{'' (Object []) 0 =
       (Ret (Inl (Err ''unexpected end of JSON input'')), 0)"
    using undecoded by blast
  note r4 = malformed_body [where I = exImports and s = exServer and stor = exStorage
      and st = exState and fuel = 0 and req = ?post and parts = "[''pods'']"
      and body = "''{''" and blank = "Object []" and wd\<^sub>1 = 0 and wd\<^sub>2 = 0
      and err = "Err ''unexpected end of JSON input''",
      THEN conjunct2, THEN conjunct1, rule_format, OF undecoded', THEN conjunct2]
  have e: "errToAPIStatus exImports (Err ''unexpected end of JSON input'') =
      \<lparr>Code = 500, Details = ''unexpected end of JSON input''\<rparr>"
    "errToAPIStatus exImports (Err ''unexpected EOF'') =
      \<lparr>Code = 500, Details = ''unexpected EOF''\<rparr>"
    by (simp_all add: exImports_def)
  have st0: "writer exState = []" "calls exState = []"
    by (simp_all add: exState_def)
  from undecoded unread r1 r2 r3 r4 show ?thesis
    by (simp add: e st0)
qed

subsection \<open>A collection that is not registered\<close>

text \<open>
  C7. An unknown collection. When the first path segment names no registered collection,
  the dispatcher answers Not Found and returns, having called no collaborator. The name
  goes to the request log; to the response goes the status 404 and no body, the same
  whatever the name is.
\<close>

theorem unknown_collection:
  "splitPath (Path req) \<noteq> [] \<and> storage s (splitPath (Path req) ! 0) = None \<longrightarrow>
     handleREST fuel I s req st =
       notFound req
         (st\<lparr>httplog := httplog st @ [NoStorageObject (splitPath (Path req) ! 0)]\<rparr>) \<and>
     fst (handleREST fuel I s req st) = Returned \<and>
     calls (snd (handleREST fuel I s req st)) = calls st \<and>
     world (snd (handleREST fuel I s req st)) = world st \<and>
     httplog (snd (handleREST fuel I s req st)) =
       httplog st @ [NoStorageObject (splitPath (Path req) ! 0)] \<and>
     writer (snd (handleREST fuel I s req st)) = writer st @ [WriteHeader 404] \<and>
     (writer st = [] \<longrightarrow>
        clientStatus (writer (snd (handleREST fuel I s req st))) = Some 404 \<and>
        clientBody (writer (snd (handleREST fuel I s req st))) = [])"
proof (intro impI)
  assume a: "splitPath (Path req) \<noteq> [] \<and> storage s (splitPath (Path req) ! 0) = None"
  then have eq: "handleREST fuel I s req st =
       notFound req
         (st\<lparr>httplog := httplog st @ [NoStorageObject (splitPath (Path req) ! 0)]\<rparr>)"
    by (simp add: handleREST_def Let_def)
  show "handleREST fuel I s req st =
       notFound req
         (st\<lparr>httplog := httplog st @ [NoStorageObject (splitPath (Path req) ! 0)]\<rparr>) \<and>
     fst (handleREST fuel I s req st) = Returned \<and>
     calls (snd (handleREST fuel I s req st)) = calls st \<and>
     world (snd (handleREST fuel I s req st)) = world st \<and>
     httplog (snd (handleREST fuel I s req st)) =
       httplog st @ [NoStorageObject (splitPath (Path req) ! 0)] \<and>
     writer (snd (handleREST fuel I s req st)) = writer st @ [WriteHeader 404] \<and>
     (writer st = [] \<longrightarrow>
        clientStatus (writer (snd (handleREST fuel I s req st))) = Some 404 \<and>
        clientBody (writer (snd (handleREST fuel I s req st))) = [])"
    unfolding eq by (simp add: notFound_def)
qed

theorem unknown_collection_witness:
  "splitPath (Path (exRequest ''GET'' ''/unknowncollection'' [] [])) = [''unknowncollection'']
   \<and> storage exServer ''unknowncollection'' = None
   \<and> handleREST 2 exImports exServer (exRequest ''GET'' ''/unknowncollection'' [] []) exState =
       (Returned, exState\<lparr>writer := [WriteHeader 404],
          httplog := [NoStorageObject ''unknowncollection'']\<rparr>)
   \<and> clientStatus (writer (snd (handleREST 2 exImports exServer
        (exRequest ''GET'' ''/unknowncollection'' [] []) exState))) = Some 404
   \<and> clientBody (writer (snd (handleREST 2 exImports exServer
        (exRequest ''GET'' ''/unknowncollection'' [] []) exState))) = []"
proof -
  let ?req = "exRequest ''GET'' ''/unknowncollection'' [] []"
  have p: "splitPath (Path ?req) = [''unknowncollection'']"
    by (simp add: exRequest_def splitPath_def Trim_def)
  have a: "splitPath (Path ?req) \<noteq> [] \<and> storage exServer (splitPath (Path ?req) ! 0) = None"
    by (simp add: p exServer_fields)
  have st0: "writer exState = []"
    by (simp add: exState_def)
  note r = unknown_collection [where req = ?req and s = exServer and st = exState
      and fuel = 2 and I = exImports, rule_format, OF a]
  have n: "notFound ?req (exState\<lparr>httplog := httplog exState @
        [NoStorageObject (splitPath (Path ?req) ! 0)]\<rparr>) =
      (Returned, exState\<lparr>writer := [WriteHeader 404],
          httplog := [NoStorageObject ''unknowncollection'']\<rparr>)"
    by (simp add: p notFound_def exState_def)
  from r [THEN conjunct1] n
  have "handleREST 2 exImports exServer ?req exState =
      (Returned, exState\<lparr>writer := [WriteHeader 404],
          httplog := [NoStorageObject ''unknowncollection'']\<rparr>)"
    by (rule trans)
  moreover from r st0
  have "clientStatus (writer (snd (handleREST 2 exImports exServer ?req exState))) = Some 404"
    and "clientBody (writer (snd (handleREST 2 exImports exServer ?req exState))) = []"
    by blast+
  moreover from a have "storage exServer ''unknowncollection'' = None"
    by (simp add: p)
  ultimately show ?thesis
    using p by blast
qed

subsection \<open>Panics come before any write\<close>














subsection \<open>The response as the client sees it\<close>








end
